theory Spec2Isabelle
  imports Complex_Main "HOL-Library.Word" "HOL-Library.Sublist"
begin

unbundle bit_operations_syntax

section \<open>The gateway shard: data model\<close>

text \<open>
  The development embeds the class \<open>DiscordenoShard\<close> (the gateway shard). The class is
  asynchronous: each \<open>async\<close> method runs synchronously up to an \<open>await\<close> on a promise
  that is still pending, and the rest of the method runs when that promise is resolved.
  The embedding makes this explicit. A method takes the continuation of its caller (a
  value of type \<open>kont\<close>), the segments of a method are separate functions, and the shard
  value carries, beside the fields of the class, the pieces of the JavaScript runtime
  the class talks to: the sockets it created, its timers, its pending promises, the
  queue of continuations whose promise has been resolved, and a trace of the calls it
  made to the outside (callbacks, socket operations, console output).

  The embedding rests on these conventions. A continuation whose promise is resolved
  is put at the end of the ready queue and runs when the runtime takes it from there;
  an \<open>await\<close> on a promise that is settled already goes on at once. The callbacks in
  \<open>events\<close> return normally and do not touch the shard. \<open>JSON.parse\<close> and \<open>inflateSync\<close>
  do not throw. The constructors of \<open>URL\<close> and of \<open>WebSocket\<close> may throw, and so may the
  \<open>send\<close> of a socket that is still connecting; a rejection is recorded at the point
  where it arises, since nothing of the shard runs while it travels through the
  callers that await.

  Integers are \<open>int\<close> or \<open>nat\<close>, and they are taken to be integers a JavaScript number
  holds exactly (at most \<open>2 ^ 53\<close> in magnitude; the ceiling of a quotient of two such
  integers is then that of the rounded quotient). A sample of \<open>Math.random()\<close> is a
  double, and arithmetic on a sample rounds as the code does.
\<close>

subsection \<open>Doubles\<close>

text \<open>
  A finite double is \<open>m * 2 ^ e\<close> for integers \<open>m\<close> and \<open>e\<close> with \<open>\<bar>m\<bar> < 2 ^ 53\<close> and
  \<open>- 1074 \<le> e\<close>; \<open>Double m e\<close> is that number, and \<open>dval\<close> reads it as a real. Overflow to
  infinity is not modelled.
\<close>

datatype double = Double int int

fun dval :: "double \<Rightarrow> real" where
  "dval (Double m e) = of_int m * 2 powi e"

text \<open>
  Rounding \<open>p * 2 ^ e\<close> to the nearest double, ties to the even significand (IEEE 754
  binary64): \<open>excess a\<close> is the number of bits by which \<open>a\<close> exceeds 53 bits, and a
  result below the normal range is rounded to a multiple of \<open>2 ^ - 1074\<close>.
\<close>

function excess :: "int \<Rightarrow> nat" where
  "excess a = (if a < 2 ^ 53 then 0 else Suc (excess (a div 2)))"
  by pat_completeness auto
termination
  by (relation "measure nat") auto

definition round53 :: "int \<Rightarrow> int \<Rightarrow> double" where
  "round53 p e =
     (let a = \<bar>p\<bar>; s = max (excess a) (nat (- 1074 - e)) in
      if s = 0 then Double p e
      else
        (let q = a div 2 ^ s; r = a mod 2 ^ s; h = 2 ^ (s - 1);
             q' = (if h < r \<or> (r = h \<and> odd q) then q + 1 else q)
         in Double (sgn p * q') (e + int s)))"

text \<open>The operators \<open>*\<close> and \<open>+\<close> of JavaScript on doubles, \<open>Math.ceil\<close> and \<open>Math.floor\<close>.\<close>

fun fl_mul :: "double \<Rightarrow> double \<Rightarrow> double" where
  "fl_mul (Double m1 e1) (Double m2 e2) = round53 (m1 * m2) (e1 + e2)"

fun fl_add :: "double \<Rightarrow> double \<Rightarrow> double" where
  "fl_add (Double m1 e1) (Double m2 e2) =
     (let e = min e1 e2 in round53 (m1 * 2 ^ nat (e1 - e) + m2 * 2 ^ nat (e2 - e)) e)"

fun js_ceil :: "double \<Rightarrow> int" where
  "js_ceil (Double m e) = (if 0 \<le> e then m * 2 ^ nat e else - ((- m) div 2 ^ nat (- e)))"

fun js_floor :: "double \<Rightarrow> int" where
  "js_floor (Double m e) = (if 0 \<le> e then m * 2 ^ nat e else m div 2 ^ nat (- e))"

text \<open>
  The significand \<open>m\<close> of \<open>Double m e\<close>, and a double that JavaScript takes for true: one
  that is not zero.
\<close>

fun significand :: "double \<Rightarrow> int" where
  "significand (Double m e) = m"

fun truthy :: "double \<Rightarrow> bool" where
  "truthy (Double m e) \<longleftrightarrow> m \<noteq> 0"

text \<open>The doubles \<open>Math.random()\<close> returns: those in \<open>[0, 1)\<close>.\<close>

fun unit_double :: "double \<Rightarrow> bool" where
  "unit_double (Double m e) \<longleftrightarrow> 0 \<le> m \<and> m < 2 ^ 53 \<and> - 1074 \<le> e \<and> m < 2 ^ nat (- e)"

subsection \<open>Enumerations\<close>

text \<open>
  Modelled from the spec: the enum \<open>ShardState\<close> (\<open>types.ts\<close>) is declared outside the
  sources at hand; its members are the seven states the shard assigns and tests.
\<close>

datatype ShardState =
  Connected | Connecting | Disconnected | Unidentified | Identifying | Resuming | Offline

text \<open>
  Modelled from the spec: the enums \<open>ShardSocketCloseCodes\<close> (\<open>types.ts\<close>) and
  \<open>GatewayCloseEventCodes\<close> (package \<open>@discordeno/types\<close>) are declared outside the
  sources at hand. Their members are the symbolic codes the close handler names;
  \<open>OtherCode n\<close> is a numeric close code that is none of them.
\<close>

datatype CloseCode =
    TestingFinished
  | Shutdown | ReIdentifying | Resharded | ResumeClosingOldConnection | ZombiedConnection
  | UnknownOpcode | NotAuthenticated | InvalidSeq | RateLimited | SessionTimedOut
  | AuthenticationFailed | InvalidShard | ShardingRequired | InvalidApiVersion
  | InvalidIntents | DisallowedIntents
  | UnknownError | DecodeError | AlreadyAuthenticated
  | OtherCode int

record CloseEvent =
  code :: CloseCode
  reason :: string

text \<open>The \<open>readyState\<close> of a WebSocket.\<close>

datatype ReadyState = CONNECTING | OPEN | CLOSING | CLOSED

text \<open>
  Modelled from the spec: the type \<open>DiscordGatewayPayload\<close> and the enum \<open>GatewayOpcodes\<close>
  (package \<open>@discordeno/types\<close>) are declared outside the sources at hand.
  An incoming packet is \<open>{ op, d, s, t }\<close>. The handler reads \<open>d\<close> only together with the
  opcode or the event name that fixes its shape (\<open>d.heartbeat_interval\<close> of a Hello,
  the boolean \<open>d\<close> of an InvalidSession, \<open>d.session_id\<close> and \<open>d.resume_gateway_url\<close> of
  a READY), so the data rides with the opcode and with the event name. The opcodes are
  those of \<open>GatewayOpcodes\<close> the handler switches on; every other opcode falls through
  the switch alike.
\<close>

datatype GatewayOpcode =
    Dispatch
  | Heartbeat
  | Hello int
  | HeartbeatACK
  | Reconnect
  | InvalidSession bool
  | OtherOpcode int

datatype GatewayEventName =
    T_null
  | T_RESUMED
  | T_READY string string
  | T_other string

record DiscordGatewayPayload =
  pkt_op :: GatewayOpcode
  pkt_t :: GatewayEventName
  pkt_s :: "int option"

text \<open>
  The payloads the shard sends (\<open>ShardSocketRequest\<close>), one constructor per opcode, with
  the fields of \<open>d\<close> in the order of the source.
\<close>

datatype ShardSocketRequest =
    IdentifyPayload string bool "(string \<times> string) list" int "nat \<times> nat" "string option"
  | ResumePayload string "string option" int
  | HeartbeatPayload "int option"
  | PresenceUpdatePayload "string list" string
  | VoiceStateUpdatePayload string "string option" bool bool
  | RequestGuildMembersPayload string "string option" int bool "string list option" "string \<times> int"

text \<open>
  Modelled from the spec: the type \<open>ShardEvents\<close> (\<open>types.ts\<close>) is declared outside the
  sources at hand; these are the names of the optional callbacks the shard calls.
\<close>

datatype ShardEvent =
    EvConnecting | EvConnected | EvIdentifying | EvIdentified | EvDisconnected
  | EvHello | EvHeartbeat | EvHeartbeatAck | EvRequestedReconnect | EvInvalidSession
  | EvResumed | EvMessage

subsection \<open>Continuations\<close>

text \<open>
  What remains to run after an \<open>await\<close>:
  \<^item> \<open>Finish n\<close>: the promise of call \<open>n\<close> made from outside the class settles;
  \<^item> \<open>Discard\<close>: the promise of the call is dropped (a call that is not awaited, or an
    event handler of the socket);
  \<^item> \<open>AfterConnectIdentify k\<close>, \<open>AfterConnectResume k\<close>: the rest of \<open>identify\<close> and of
    \<open>resume\<close> after \<open>await this.connect()\<close>;
  \<^item> \<open>SendOnline\<close>, \<open>SendAcquired\<close>, \<open>SendTransmit\<close>: the rest of \<open>send\<close> after its
    first \<open>checkOffline\<close>, after \<open>bucket.acquire\<close>, after its second \<open>checkOffline\<close>;
  \<^item> \<open>PacketTail p\<close>: the part of \<open>handleDiscordPacket\<close> after the switch;
  \<^item> \<open>InvalidSessionDelayed p resumable\<close>: the InvalidSession case after \<open>await delay\<close>.
\<close>

datatype kont =
    Finish nat
  | Discard
  | AfterConnectIdentify kont
  | AfterConnectResume kont
  | SendOnline ShardSocketRequest bool kont
  | SendAcquired ShardSocketRequest bool kont
  | SendTransmit ShardSocketRequest kont
  | PacketTail DiscordGatewayPayload
  | InvalidSessionDelayed DiscordGatewayPayload bool

subsection \<open>The runtime around the shard\<close>

text \<open>
  The target of \<open>new WebSocket(url.toString())\<close>: the base URL and, where \<open>connect\<close>
  sets them, the search parameters \<open>v\<close> and \<open>encoding\<close>.
\<close>

datatype ws_target = WsUrl string "(nat \<times> string) option"

text \<open>
  What is thrown: an \<open>Error\<close> with its message, the \<open>TypeError\<close> of \<open>new URL(s)\<close> for a
  string \<open>s\<close> that is not a URL, and the error of \<open>new WebSocket\<close> for a target it
  refuses.
\<close>

datatype error = Error string | InvalidURL string | WebSocketError ws_target

text \<open>
  The two constructors of the runtime that \<open>connect\<close> calls. \<open>new_URL s\<close> is the \<open>origin\<close> of
  \<open>new URL(s)\<close>, and \<open>None\<close> if the constructor throws; \<open>new_WebSocket t\<close> tells whether
  \<open>new WebSocket\<close> returns a socket for the target \<open>t\<close>. The development assumes nothing
  about either function.
\<close>

record js_runtime =
  new_URL :: "string \<Rightarrow> string option"
  new_WebSocket :: "ws_target \<Rightarrow> bool"

text \<open>
  A socket the shard created. \<open>onopen_resolve\<close> is the continuation waiting for the promise
  that \<open>connect\<close> returned for this socket; it is \<open>None\<close> once the promise is resolved.
\<close>

record WebSocket =
  ws_url :: ws_target
  readyState :: ReadyState
  onopen_resolve :: "kont option"

text \<open>
  Timers: the one-shot jitter timer and the steady interval of the heartbeat, with
  their delay, and the timer behind \<open>await delay(ms)\<close> with the continuation it wakes.
\<close>

datatype timer = JitterTimeout int | SteadyInterval int | DelayTimeout int kont

text \<open>What the shard did to the outside, in order.\<close>

datatype action =
    Callback ShardEvent
  | NewWebSocket nat ws_target
  | WsClose nat CloseCode string
  | WsSend nat ShardSocketRequest
  | OfflineResolve nat
  | ConsoleLog
  | LoggerDebug
  | Settled nat
  | Rejected nat error
  | Unhandled error

text \<open>
  The closures stored in \<open>resolves\<close>: the two that \<open>identify\<close> stores and the two that
  \<open>resume\<close> stores, each with the promise it resolves.
\<close>

datatype ResolveKey = READY | RESUMED | INVALID_SESSION

datatype resolver = IdentifyReady nat | IdentifyInvalid nat | ResumeResumed nat | ResumeInvalid nat

subsection \<open>The shard\<close>

text \<open>
  Modelled from the spec: the types \<open>ShardGatewayConfig\<close> and \<open>ShardHeart\<close> (\<open>types.ts\<close>) are
  declared outside the sources at hand; the records have the fields the shard reads
  and writes.
\<close>

record ShardGatewayConfig =
  url :: string
  version :: nat
  token :: string
  compress :: bool
  properties :: "(string \<times> string) list"
  intents :: int
  totalShards :: nat

record ShardHeart =
  acknowledged :: bool
  interval :: int
  lastAck :: "int option"
  lastBeat :: "int option"
  rtt :: "int option"
  intervalId :: "nat option"
  timeoutId :: "nat option"

text \<open>
  Modelled from the spec: \<open>createLeakyBucket\<close> (package \<open>@discordeno/utils\<close>) is not among
  the sources. The bucket has a capacity, a refill amount and interval, and a list of
  waiters; \<open>acquire(n, highPriority)\<close> blocks until tokens are available, high-priority
  waiters are enqueued at the head and the others at the tail. The token count is left
  to the environment: it grants the head waiter its token whenever it chooses. A
  capacity of \<open>None\<close> is a value that is not a finite number.
\<close>

record LeakyBucket =
  bucket_max :: "int option"
  refillInterval :: int
  refillAmount :: "int option"
  waiting :: "kont list"

text \<open>
  The cache of member requests: \<open>pending\<close> is a \<open>Map\<close> from the nonce of a request (the
  guild and the time) to the caller that waits for the members.
\<close>

record RequestMembersCache =
  enabled :: bool
  pending :: "string \<times> int \<Rightarrow> kont option"

text \<open>
  The fields of the class in the order of the source, then the runtime: its two
  constructors, the sockets created so far (\<open>socket\<close> is an index into them), the timers (a timer identifier is an
  index; \<open>None\<close> is a timer that was cleared or has fired), the promises created by
  \<open>checkOffline\<close> (\<open>parked\<close>; \<open>offlineSendQueue\<close> holds indices into it) and by \<open>identify\<close>
  and \<open>resume\<close> (\<open>awaiting\<close>) with the continuation that awaits each (\<open>None\<close> once
  resolved), the continuations that are ready to run, and the trace.
\<close>

record DiscordenoShard =
  shard_id :: nat
  connection :: ShardGatewayConfig
  heart :: ShardHeart
  maxRequestsPerRateLimitTick :: int
  previousSequenceNumber :: "int option"
  rateLimitResetInterval :: int
  sessionId :: "string option"
  socket :: "nat option"
  state :: ShardState
  resumeGatewayUrl :: string
  events :: "ShardEvent set"
  offlineSendQueue :: "nat list"
  resolves :: "ResolveKey \<Rightarrow> resolver option"
  bucket :: LeakyBucket
  cache_requestMembers :: RequestMembersCache
  runtime :: js_runtime
  sockets :: "WebSocket list"
  timers :: "timer option list"
  parked :: "kont option list"
  awaiting :: "kont option list"
  microtasks :: "kont list"
  trace :: "action list"

section \<open>The methods of the shard\<close>

subsection \<open>Helpers of the runtime\<close>

text \<open>\<open>this.events.e?.(this)\<close>: the callback runs if it is configured.\<close>

definition emit :: "ShardEvent \<Rightarrow> DiscordenoShard \<Rightarrow> DiscordenoShard" where
  "emit e sh = (if e \<in> events sh then sh\<lparr>trace := trace sh @ [Callback e]\<rparr> else sh)"

definition record_action :: "action \<Rightarrow> DiscordenoShard \<Rightarrow> DiscordenoShard" where
  "record_action a sh = sh\<lparr>trace := trace sh @ [a]\<rparr>"

text \<open>
  \<open>reject k e\<close>: the promise that the continuation \<open>k\<close> awaits is rejected with \<open>e\<close>. No
  method of the class catches an error, so the promise of the method that awaits is
  rejected in turn, up to a call from outside, whose promise is rejected, or to a
  promise nobody holds (that of a method called without \<open>await\<close>, or of an event
  handler of the socket). \<open>rejection k e\<close> is where the error ends.
\<close>

fun rejection :: "kont \<Rightarrow> error \<Rightarrow> action" where
  "rejection (Finish n) e = Rejected n e"
| "rejection Discard e = Unhandled e"
| "rejection (AfterConnectIdentify k) e = rejection k e"
| "rejection (AfterConnectResume k) e = rejection k e"
| "rejection (SendOnline message highPriority k) e = rejection k e"
| "rejection (SendAcquired message highPriority k) e = rejection k e"
| "rejection (SendTransmit message k) e = rejection k e"
| "rejection (PacketTail packet) e = Unhandled e"
| "rejection (InvalidSessionDelayed packet resumable) e = Unhandled e"

definition reject :: "kont \<Rightarrow> error \<Rightarrow> DiscordenoShard \<Rightarrow> DiscordenoShard" where
  "reject k e sh = record_action (rejection k e) sh"

definition readyStateOf :: "DiscordenoShard \<Rightarrow> nat \<Rightarrow> ReadyState option" where
  "readyStateOf sh j = (if j < length (sockets sh) then Some (readyState (sockets sh ! j)) else None)"

definition set_readyState :: "nat \<Rightarrow> ReadyState \<Rightarrow> DiscordenoShard \<Rightarrow> DiscordenoShard" where
  "set_readyState j r sh =
     (if j < length (sockets sh)
      then sh\<lparr>sockets := (sockets sh)[j := (sockets sh ! j)\<lparr>readyState := r\<rparr>]\<rparr>
      else sh)"

text \<open>
  \<open>socket.close(code, reason)\<close> of the WebSocket: the socket starts its closing
  handshake; its close event comes later, from the environment.
\<close>

definition ws_close :: "nat \<Rightarrow> CloseCode \<Rightarrow> string \<Rightarrow> DiscordenoShard \<Rightarrow> DiscordenoShard" where
  "ws_close j c r sh = record_action (WsClose j c r) (set_readyState j CLOSING sh)"

text \<open>Resolving a promise moves the continuation that awaits it to the ready queue, once.\<close>

definition resolve_parked :: "nat \<Rightarrow> DiscordenoShard \<Rightarrow> DiscordenoShard" where
  "resolve_parked r sh =
     (if r < length (parked sh) then
        (case parked sh ! r of
           None \<Rightarrow> sh
         | Some k \<Rightarrow> sh\<lparr>parked := (parked sh)[r := None], microtasks := microtasks sh @ [k]\<rparr>)
      else sh)"

definition resolve_awaiting :: "nat \<Rightarrow> DiscordenoShard \<Rightarrow> DiscordenoShard" where
  "resolve_awaiting p sh =
     (if p < length (awaiting sh) then
        (case awaiting sh ! p of
           None \<Rightarrow> sh
         | Some k \<Rightarrow> sh\<lparr>awaiting := (awaiting sh)[p := None], microtasks := microtasks sh @ [k]\<rparr>)
      else sh)"

definition resolve_open :: "nat \<Rightarrow> DiscordenoShard \<Rightarrow> DiscordenoShard" where
  "resolve_open j sh =
     (if j < length (sockets sh) then
        (case onopen_resolve (sockets sh ! j) of
           None \<Rightarrow> sh
         | Some k \<Rightarrow> sh\<lparr>sockets := (sockets sh)[j := (sockets sh ! j)\<lparr>onopen_resolve := None\<rparr>],
                        microtasks := microtasks sh @ [k]\<rparr>)
      else sh)"

definition clear_timer :: "nat option \<Rightarrow> DiscordenoShard \<Rightarrow> DiscordenoShard" where
  "clear_timer i sh = (case i of None \<Rightarrow> sh | Some n \<Rightarrow> sh\<lparr>timers := (timers sh)[n := None]\<rparr>)"

subsection \<open>\<open>calculateSafeRequests\<close>, \<open>isOpen\<close>, \<open>close\<close>, \<open>checkOffline\<close>\<close>

text \<open>
  \<open>maxRequestsPerRateLimitTick - Math.ceil(rateLimitResetInterval / heart.interval) * 2\<close>,
  clamped at 0. A zero interval makes the quotient infinite (the result is then 0 for
  a positive reset interval, and not a finite number otherwise).
\<close>

definition calculateSafeRequests :: "DiscordenoShard \<Rightarrow> int option" where
  "calculateSafeRequests sh =
     (if interval (heart sh) = 0 then (if 0 < rateLimitResetInterval sh then Some 0 else None)
      else
        (let safeRequests = maxRequestsPerRateLimitTick sh
               - \<lceil>real_of_int (rateLimitResetInterval sh) / real_of_int (interval (heart sh))\<rceil> * 2
         in Some (if safeRequests < 0 then 0 else safeRequests)))"

definition isOpen :: "DiscordenoShard \<Rightarrow> bool" where
  "isOpen sh = (case socket sh of None \<Rightarrow> False | Some j \<Rightarrow> readyStateOf sh j = Some OPEN)"

definition close :: "CloseCode \<Rightarrow> string \<Rightarrow> DiscordenoShard \<Rightarrow> DiscordenoShard" where
  "close c r sh =
     (case socket sh of
        None \<Rightarrow> sh
      | Some j \<Rightarrow> if readyStateOf sh j \<noteq> Some OPEN then sh else ws_close j c r sh)"

text \<open>
  \<open>checkOffline\<close> returns \<open>None\<close> when the socket is open (the caller goes on at once) and
  otherwise the shard in which the caller \<open>k\<close> is parked: a new promise, whose resolver
  is unshifted (high priority) or pushed onto \<open>offlineSendQueue\<close>.
\<close>

definition checkOffline :: "bool \<Rightarrow> kont \<Rightarrow> DiscordenoShard \<Rightarrow> DiscordenoShard option" where
  "checkOffline highPriority k sh =
     (if \<not> isOpen sh then
        (let r = length (parked sh) in
         Some (sh\<lparr>parked := parked sh @ [Some k],
                  offlineSendQueue := (if highPriority then r # offlineSendQueue sh
                                       else offlineSendQueue sh @ [r])\<rparr>))
      else None)"

subsection \<open>\<open>connect\<close> and the open handler\<close>

text \<open>
  The URL that \<open>connect\<close> builds, from \<open>let url = new URL(this.gatewayConfig.url)\<close> to
  \<open>url.toString()\<close>, or the error of the constructor that throws.
\<close>

definition connect_url :: "DiscordenoShard \<Rightarrow> error + ws_target" where
  "connect_url sh =
     (case new_URL (runtime sh) (url (connection sh)) of
        None \<Rightarrow> Inl (InvalidURL (url (connection sh)))
      | Some origin \<Rightarrow>
          if origin = ''wss://gateway.discord.gg'' then
            (if state sh = Resuming then
               (case new_URL (runtime sh) (resumeGatewayUrl sh) of
                  None \<Rightarrow> Inl (InvalidURL (resumeGatewayUrl sh))
                | Some origin' \<Rightarrow>
                    Inr (WsUrl (resumeGatewayUrl sh) (Some (version (connection sh), ''json''))))
             else Inr (WsUrl (url (connection sh)) (Some (version (connection sh), ''json''))))
          else Inr (WsUrl (url (connection sh)) None))"

text \<open>
  The target of the socket that \<open>connect\<close> creates in the state \<open>sh\<close>, or the error that
  \<open>new URL\<close> or \<open>new WebSocket\<close> throws.
\<close>

definition connect_target :: "DiscordenoShard \<Rightarrow> error + ws_target" where
  "connect_target sh =
     (case connect_url sh of
        Inl e \<Rightarrow> Inl e
      | Inr target \<Rightarrow>
          if new_WebSocket (runtime sh) target then Inr target else Inl (WebSocketError target))"

text \<open>
  \<open>connect\<close>, called by a caller \<open>k\<close> that awaits it: first the state and the callback
  (\<open>connect_begin\<close>), then the constructors. If a constructor throws, the promise of
  \<open>connect\<close> is rejected and no socket is stored; otherwise the new socket is stored
  and the caller waits for its \<open>onopen\<close>.
\<close>

definition connect_begin :: "DiscordenoShard \<Rightarrow> DiscordenoShard" where
  "connect_begin sh0 =
     (let sh1 = (if state sh0 \<notin> {Identifying, Resuming} then sh0\<lparr>state := Connecting\<rparr> else sh0)
      in emit EvConnecting sh1)"

definition connect :: "kont \<Rightarrow> DiscordenoShard \<Rightarrow> DiscordenoShard" where
  "connect k sh0 =
     (let sh2 = connect_begin sh0
      in case connect_target sh2 of
           Inl e \<Rightarrow> reject k e sh2
         | Inr target \<Rightarrow>
             (let j = length (sockets sh2)
              in record_action (NewWebSocket j target)
                   (sh2\<lparr>sockets := sockets sh2 @ [\<lparr>ws_url = target, readyState = CONNECTING,
                                                   onopen_resolve = Some k\<rparr>],
                        socket := Some j\<rparr>)))"


text \<open>
  The \<open>onopen\<close> handler that \<open>connect\<close> installs on socket \<open>j\<close>; \<open>resolve(this)\<close> resolves
  the promise \<open>connect\<close> returned.
\<close>

definition onopen :: "nat \<Rightarrow> DiscordenoShard \<Rightarrow> DiscordenoShard" where
  "onopen j sh0 =
     (let sh1 = (if state sh0 \<notin> {Identifying, Resuming} then sh0\<lparr>state := Unidentified\<rparr> else sh0);
          sh2 = emit EvConnected sh1
      in resolve_open j sh2)"

subsection \<open>\<open>send\<close>\<close>

text \<open>
  Modelled from the spec: \<open>bucket.acquire(1, highPriority)\<close> of the leaky bucket, which is
  not among the sources. The caller waits in the bucket, at the head of the waiters
  if it has high priority and at the tail otherwise, until the bucket grants it a
  token.
\<close>

definition bucket_acquire :: "bool \<Rightarrow> kont \<Rightarrow> DiscordenoShard \<Rightarrow> DiscordenoShard" where
  "bucket_acquire highPriority k sh =
     sh\<lparr>bucket := (bucket sh)\<lparr>waiting := (if highPriority then k # waiting (bucket sh)
                                             else waiting (bucket sh) @ [k])\<rparr>\<rparr>"

text \<open>
  \<open>this.socket?.send(JSON.stringify(message))\<close>. The \<open>send\<close> of a socket that is still
  connecting throws; \<open>send_throws\<close> tells whether it does.
\<close>

definition send_throws :: "DiscordenoShard \<Rightarrow> bool" where
  "send_throws sh =
     (case socket sh of None \<Rightarrow> False | Some j \<Rightarrow> readyStateOf sh j = Some CONNECTING)"

definition socket_send :: "ShardSocketRequest \<Rightarrow> DiscordenoShard \<Rightarrow> DiscordenoShard" where
  "socket_send message sh =
     (case socket sh of None \<Rightarrow> sh | Some j \<Rightarrow> record_action (WsSend j message) sh)"

text \<open>
  \<open>send\<close> up to its first suspension: the first \<open>checkOffline\<close>, then \<open>bucket.acquire\<close>.
  The rest of \<open>send\<close> is in \<open>run_kont\<close> below.
\<close>

definition send :: "ShardSocketRequest \<Rightarrow> bool \<Rightarrow> kont \<Rightarrow> DiscordenoShard \<Rightarrow> DiscordenoShard" where
  "send message highPriority k sh =
     (case checkOffline highPriority (SendOnline message highPriority k) sh of
        Some sh' \<Rightarrow> sh'
      | None \<Rightarrow> bucket_acquire highPriority (SendAcquired message highPriority k) sh)"

subsection \<open>\<open>identify\<close> and \<open>resume\<close>\<close>

text \<open>
  The part of \<open>identify\<close> after the connection exists. \<open>requestIdentify\<close> and the
  \<open>makePresence\<close> of the class do nothing (the presence is \<open>undefined\<close>); the payload is
  sent without waiting for \<open>send\<close>; the promise \<open>identify\<close> returns is new, and the two
  resolvers are stored under \<open>READY\<close> and \<open>INVALID_SESSION\<close>.
\<close>

definition identify_connected :: "kont \<Rightarrow> DiscordenoShard \<Rightarrow> DiscordenoShard" where
  "identify_connected k sh0 =
     (let sh1 = send (IdentifyPayload (''Bot '' @ token (connection sh0))
                        (compress (connection sh0))
                        (properties (connection sh0))
                        (intents (connection sh0))
                        (shard_id sh0, totalShards (connection sh0))
                        None)
                  True Discard sh0;
          p = length (awaiting sh1)
      in sh1\<lparr>awaiting := awaiting sh1 @ [Some k],
              resolves := (resolves sh1)(READY \<mapsto> IdentifyReady p, INVALID_SESSION \<mapsto> IdentifyInvalid p)\<rparr>)"

definition identify :: "kont \<Rightarrow> DiscordenoShard \<Rightarrow> DiscordenoShard" where
  "identify k sh0 =
     (let sh1 = (if isOpen sh0
                 then close ReIdentifying ''Re-identifying closure of old connection.''
                        (record_action ConsoleLog sh0)
                 else sh0);
          sh2 = emit EvIdentifying (sh1\<lparr>state := Identifying\<rparr>)
      in if \<not> isOpen sh2 then connect (AfterConnectIdentify k) sh2
         else identify_connected k sh2)"

text \<open>A string that JavaScript takes for false: \<open>undefined\<close> or the empty string.\<close>

definition falsy_string :: "string option \<Rightarrow> bool" where
  "falsy_string x = (case x of None \<Rightarrow> True | Some v \<Rightarrow> v = [])"

definition resume_connected :: "kont \<Rightarrow> DiscordenoShard \<Rightarrow> DiscordenoShard" where
  "resume_connected k sh0 =
     (let sh1 = send (ResumePayload (''Bot '' @ token (connection sh0))
                        (sessionId sh0)
                        (case previousSequenceNumber sh0 of None \<Rightarrow> 0 | Some n \<Rightarrow> n))
                  True Discard sh0;
          p = length (awaiting sh1)
      in sh1\<lparr>awaiting := awaiting sh1 @ [Some k],
              resolves := (resolves sh1)(RESUMED \<mapsto> ResumeResumed p, INVALID_SESSION \<mapsto> ResumeInvalid p)\<rparr>)"

definition resume :: "kont \<Rightarrow> DiscordenoShard \<Rightarrow> DiscordenoShard" where
  "resume k sh0 =
     (let sh1 = (if isOpen sh0
                 then close ResumeClosingOldConnection
                        ''Reconnecting the shard, closing old connection.'' sh0
                 else sh0)
      in if falsy_string (sessionId sh1) then identify k sh1
         else connect (AfterConnectResume k) (sh1\<lparr>state := Resuming\<rparr>))"

subsection \<open>\<open>shutdown\<close>, \<open>stopHeartbeating\<close>, \<open>handleClose\<close>\<close>

definition shutdown :: "DiscordenoShard \<Rightarrow> DiscordenoShard" where
  "shutdown sh = (close Shutdown ''Shard shutting down.'' sh)\<lparr>state := Offline\<rparr>"

definition stopHeartbeating :: "DiscordenoShard \<Rightarrow> DiscordenoShard" where
  "stopHeartbeating sh =
     clear_timer (timeoutId (heart sh)) (clear_timer (intervalId (heart sh)) sh)"

text \<open>
  The close handler returns the error it throws, if any, beside the shard. Its own
  promise belongs to the \<open>onclose\<close> handler of the socket, so \<open>identify\<close> and \<open>resume\<close>
  are called with the continuation \<open>Discard\<close>.
\<close>

definition handleClose :: "CloseEvent \<Rightarrow> DiscordenoShard \<Rightarrow> error option \<times> DiscordenoShard" where
  "handleClose close_ev sh0 =
     (let sh = stopHeartbeating sh0 in
      case code close_ev of
        TestingFinished \<Rightarrow> (None, emit EvDisconnected (sh\<lparr>state := Offline\<rparr>))
      | Shutdown \<Rightarrow> (None, emit EvDisconnected (sh\<lparr>state := Disconnected\<rparr>))
      | ReIdentifying \<Rightarrow> (None, emit EvDisconnected (sh\<lparr>state := Disconnected\<rparr>))
      | Resharded \<Rightarrow> (None, emit EvDisconnected (sh\<lparr>state := Disconnected\<rparr>))
      | ResumeClosingOldConnection \<Rightarrow> (None, emit EvDisconnected (sh\<lparr>state := Disconnected\<rparr>))
      | ZombiedConnection \<Rightarrow> (None, emit EvDisconnected (sh\<lparr>state := Disconnected\<rparr>))
      | UnknownOpcode \<Rightarrow> (None, identify Discard (emit EvDisconnected (sh\<lparr>state := Identifying\<rparr>)))
      | NotAuthenticated \<Rightarrow> (None, identify Discard (emit EvDisconnected (sh\<lparr>state := Identifying\<rparr>)))
      | InvalidSeq \<Rightarrow> (None, identify Discard (emit EvDisconnected (sh\<lparr>state := Identifying\<rparr>)))
      | RateLimited \<Rightarrow> (None, identify Discard (emit EvDisconnected (sh\<lparr>state := Identifying\<rparr>)))
      | SessionTimedOut \<Rightarrow> (None, identify Discard (emit EvDisconnected (sh\<lparr>state := Identifying\<rparr>)))
      | AuthenticationFailed \<Rightarrow>
          (Some (Error (if reason close_ev = [] then ''Discord gave no reason! GG! You broke Discord!''
                        else reason close_ev)),
           emit EvDisconnected (sh\<lparr>state := Offline\<rparr>))
      | InvalidShard \<Rightarrow>
          (Some (Error (if reason close_ev = [] then ''Discord gave no reason! GG! You broke Discord!''
                        else reason close_ev)),
           emit EvDisconnected (sh\<lparr>state := Offline\<rparr>))
      | ShardingRequired \<Rightarrow>
          (Some (Error (if reason close_ev = [] then ''Discord gave no reason! GG! You broke Discord!''
                        else reason close_ev)),
           emit EvDisconnected (sh\<lparr>state := Offline\<rparr>))
      | InvalidApiVersion \<Rightarrow>
          (Some (Error (if reason close_ev = [] then ''Discord gave no reason! GG! You broke Discord!''
                        else reason close_ev)),
           emit EvDisconnected (sh\<lparr>state := Offline\<rparr>))
      | InvalidIntents \<Rightarrow>
          (Some (Error (if reason close_ev = [] then ''Discord gave no reason! GG! You broke Discord!''
                        else reason close_ev)),
           emit EvDisconnected (sh\<lparr>state := Offline\<rparr>))
      | DisallowedIntents \<Rightarrow>
          (Some (Error (if reason close_ev = [] then ''Discord gave no reason! GG! You broke Discord!''
                        else reason close_ev)),
           emit EvDisconnected (sh\<lparr>state := Offline\<rparr>))
      | _ \<Rightarrow> (None, resume Discard (emit EvDisconnected (sh\<lparr>state := Resuming\<rparr>))))"

subsection \<open>\<open>handleDiscordPacket\<close>\<close>

text \<open>Calling a closure stored in \<open>resolves\<close>.\<close>

definition run_resolver :: "resolver \<Rightarrow> DiscordenoShard \<Rightarrow> DiscordenoShard" where
  "run_resolver r sh =
     (case r of
        IdentifyReady p \<Rightarrow> resolve_awaiting p (emit EvIdentified sh)
      | IdentifyInvalid p \<Rightarrow> resolve_awaiting p (sh\<lparr>resolves := (resolves sh)(READY := None)\<rparr>)
      | ResumeResumed p \<Rightarrow> resolve_awaiting p sh
      | ResumeInvalid p \<Rightarrow> resolve_awaiting p (sh\<lparr>resolves := (resolves sh)(RESUMED := None)\<rparr>))"

text \<open>\<open>this.resolves.get(key)?.(packet)\<close> followed by \<open>this.resolves.delete(key)\<close>.\<close>

definition settle :: "ResolveKey \<Rightarrow> DiscordenoShard \<Rightarrow> DiscordenoShard" where
  "settle key sh0 =
     (let sh1 = (case resolves sh0 key of None \<Rightarrow> sh0 | Some r \<Rightarrow> run_resolver r sh0)
      in sh1\<lparr>resolves := (resolves sh1)(key := None)\<rparr>)"

text \<open>\<open>this.offlineSendQueue.map((resolve) => resolve())\<close>: every resolver is called, in order.\<close>

definition drain :: "DiscordenoShard \<Rightarrow> DiscordenoShard" where
  "drain sh =
     fold (\<lambda>r a. resolve_parked r (record_action (OfflineResolve r) a)) (offlineSendQueue sh) sh"

text \<open>The part of \<open>handleDiscordPacket\<close> after the switch on the opcode.\<close>

definition packet_tail :: "DiscordGatewayPayload \<Rightarrow> DiscordenoShard \<Rightarrow> DiscordenoShard" where
  "packet_tail packet sh0 =
     (let sh1 =
            (case pkt_t packet of
               T_RESUMED \<Rightarrow> settle RESUMED (drain (emit EvResumed (sh0\<lparr>state := Connected\<rparr>)))
             | T_READY session_id resume_gateway_url \<Rightarrow>
                 settle READY
                   (drain (sh0\<lparr>resumeGatewayUrl := resume_gateway_url,
                               sessionId := Some session_id,
                               state := Connected\<rparr>))
             | _ \<Rightarrow> sh0);
          sh2 = (case pkt_s packet of
                   None \<Rightarrow> sh1
                 | Some n \<Rightarrow> sh1\<lparr>previousSequenceNumber := Some n\<rparr>)
      in emit EvMessage sh2)"

text \<open>
  \<open>Math.ceil(this.heart.interval * (Math.random() || 0.5))\<close>, for the sample \<open>random\<close>;
  \<open>or_half random\<close> is \<open>random || 0.5\<close>.
\<close>

definition or_half :: "double \<Rightarrow> double" where
  "or_half random = (if truthy random then random else Double 1 (- 1))"

definition jitter :: "int \<Rightarrow> double \<Rightarrow> int" where
  "jitter interval_ms random = js_ceil (fl_mul (Double interval_ms 0) (or_half random))"

text \<open>
  \<open>startHeartbeating\<close> stores the interval and sets the one-shot timer; the callback of
  the timer is \<open>heartbeat_first\<close> below.
\<close>

definition startHeartbeating :: "int \<Rightarrow> double \<Rightarrow> DiscordenoShard \<Rightarrow> DiscordenoShard" where
  "startHeartbeating interval_ms random sh0 =
     (let sh1 = sh0\<lparr>heart := (heart sh0)\<lparr>interval := interval_ms\<rparr>\<rparr>;
          sh2 = (if state sh1 \<in> {Disconnected, Offline} then sh1\<lparr>state := Unidentified\<rparr> else sh1);
          n = length (timers sh2)
      in sh2\<lparr>timers := timers sh2 @ [Some (JitterTimeout (jitter (interval (heart sh2)) random))],
              heart := (heart sh2)\<lparr>timeoutId := Some n\<rparr>\<rparr>)"

text \<open>
  Modelled from the spec: \<open>delay\<close> (package \<open>@discordeno/utils\<close>) is not among the
  sources; \<open>await delay(ms)\<close> suspends the caller for \<open>ms\<close> milliseconds.
\<close>

definition delay :: "int \<Rightarrow> kont \<Rightarrow> DiscordenoShard \<Rightarrow> DiscordenoShard" where
  "delay ms k sh = sh\<lparr>timers := timers sh @ [Some (DelayTimeout ms k)]\<rparr>"

text \<open>
  The block that opens \<open>handleDiscordPacket\<close> (the edge case of issue 2311): any
  packet counts as an acknowledgement.
\<close>

definition packet_prelude :: "int \<Rightarrow> DiscordenoShard \<Rightarrow> DiscordenoShard" where
  "packet_prelude now sh0 =
     (let sh1 = sh0\<lparr>heart := (heart sh0)\<lparr>lastAck := Some now\<rparr>\<rparr>;
          sh2 = (case lastBeat (heart sh1) of
                   None \<Rightarrow> sh1
                 | Some beat \<Rightarrow>
                     if beat \<noteq> 0 \<and> \<not> acknowledged (heart sh1)
                     then sh1\<lparr>heart := (heart sh1)\<lparr>rtt := Some (now - beat)\<rparr>\<rparr>
                     else sh1)
      in sh2\<lparr>heart := (heart sh2)\<lparr>acknowledged := True\<rparr>\<rparr>)"

text \<open>\<open>Math.floor((Math.random() * 4 + 1) * 1000)\<close>, for the sample \<open>random\<close>.\<close>

definition invalid_session_delay :: "double \<Rightarrow> int" where
  "invalid_session_delay random =
     js_floor (fl_mul (fl_add (fl_mul random (Double 4 0)) (Double 1 0)) (Double 1000 0))"

text \<open>
  The switch on the opcode, up to the first suspension, for the time \<open>now\<close> and the
  sample \<open>random\<close> of \<open>Math.random()\<close>. A server heartbeat on a socket that is not open
  returns at once; Reconnect awaits \<open>resume\<close> and InvalidSession awaits \<open>delay\<close> before
  the tail runs.
\<close>

definition packet_switch ::
  "int \<Rightarrow> double \<Rightarrow> DiscordGatewayPayload \<Rightarrow> DiscordenoShard \<Rightarrow> DiscordenoShard" where
  "packet_switch now random packet sh =
     (case pkt_op packet of
        Heartbeat \<Rightarrow>
          if \<not> isOpen sh then sh
          else packet_tail packet
                 (emit EvHeartbeat
                    (socket_send (HeartbeatPayload (previousSequenceNumber sh))
                       (sh\<lparr>heart := (heart sh)\<lparr>lastBeat := Some now\<rparr>\<rparr>)))
      | Hello heartbeat_interval \<Rightarrow>
          (let sh3 = startHeartbeating heartbeat_interval random sh;
               sh4 = (if state sh3 \<noteq> Resuming
                      then sh3\<lparr>bucket := \<lparr>bucket_max = calculateSafeRequests sh3,
                                           refillInterval = 60000,
                                           refillAmount = calculateSafeRequests sh3,
                                           waiting = waiting (bucket sh3)\<rparr>\<rparr>
                      else sh3)
           in packet_tail packet (emit EvHello sh4))
      | HeartbeatACK \<Rightarrow> packet_tail packet (emit EvHeartbeatAck sh)
      | Reconnect \<Rightarrow> resume (PacketTail packet) (emit EvRequestedReconnect sh)
      | InvalidSession resumable \<Rightarrow>
          delay (invalid_session_delay random) (InvalidSessionDelayed packet resumable)
            (emit EvInvalidSession sh)
      | _ \<Rightarrow> packet_tail packet sh)"

definition handleDiscordPacket ::
  "int \<Rightarrow> double \<Rightarrow> DiscordGatewayPayload \<Rightarrow> DiscordenoShard \<Rightarrow> DiscordenoShard" where
  "handleDiscordPacket now random packet sh =
     packet_switch now random packet (packet_prelude now sh)"

text \<open>
  \<open>handleMessage\<close>: the data of a message is a string that parses to a packet, a Blob
  that inflates to such a string, or anything else. A Blob is inflated only if
  compression is configured; what is not a string is dropped.
\<close>

datatype MessageData =
    StringData DiscordGatewayPayload
  | BlobData DiscordGatewayPayload
  | OtherData

definition handleMessage :: "int \<Rightarrow> double \<Rightarrow> MessageData \<Rightarrow> DiscordenoShard \<Rightarrow> DiscordenoShard" where
  "handleMessage now random message_data sh =
     (case message_data of
        StringData packet \<Rightarrow> handleDiscordPacket now random packet sh
      | BlobData packet \<Rightarrow>
          if compress (connection sh) then handleDiscordPacket now random packet sh else sh
      | OtherData \<Rightarrow> sh)"

subsection \<open>Resuming a suspended method\<close>

text \<open>
  The rest of a method, from the \<open>await\<close> that suspended it. In the rest of \<open>send\<close>, a
  \<open>send\<close> of the socket that throws rejects the promise of \<open>send\<close>.
\<close>

fun run_kont :: "kont \<Rightarrow> DiscordenoShard \<Rightarrow> DiscordenoShard" where
  "run_kont (Finish n) sh = record_action (Settled n) sh"
| "run_kont Discard sh = sh"
| "run_kont (AfterConnectIdentify k) sh = identify_connected k sh"
| "run_kont (AfterConnectResume k) sh = resume_connected k sh"
| "run_kont (SendOnline message highPriority k) sh =
     bucket_acquire highPriority (SendAcquired message highPriority k) sh"
| "run_kont (SendAcquired message highPriority k) sh =
     (case checkOffline highPriority (SendTransmit message k) sh of
        Some sh' \<Rightarrow> sh'
      | None \<Rightarrow>
          if send_throws sh
          then reject k (Error ''WebSocket is not open: readyState 0 (CONNECTING)'') sh
          else run_kont k (socket_send message sh))"
| "run_kont (SendTransmit message k) sh =
     (if send_throws sh
      then reject k (Error ''WebSocket is not open: readyState 0 (CONNECTING)'') sh
      else run_kont k (socket_send message sh))"
| "run_kont (PacketTail packet) sh = packet_tail packet sh"
| "run_kont (InvalidSessionDelayed packet resumable) sh =
     (let sh1 = settle INVALID_SESSION sh
      in if \<not> resumable then identify (PacketTail packet) sh1
         else resume (PacketTail packet) sh1)"

subsection \<open>The heartbeat timers\<close>

text \<open>The callback of the one-shot timer, and the callback of the steady interval.\<close>

definition heartbeat_first :: "int \<Rightarrow> DiscordenoShard \<Rightarrow> DiscordenoShard" where
  "heartbeat_first now sh0 =
     (if \<not> isOpen sh0 then sh0
      else
        (let sh1 = socket_send (HeartbeatPayload (previousSequenceNumber sh0)) sh0;
             sh2 = sh1\<lparr>heart := (heart sh1)\<lparr>lastBeat := Some now, acknowledged := False\<rparr>\<rparr>;
             n = length (timers sh2)
         in sh2\<lparr>timers := timers sh2 @ [Some (SteadyInterval (interval (heart sh2)))],
                 heart := (heart sh2)\<lparr>intervalId := Some n\<rparr>\<rparr>))"

definition heartbeat_tick :: "int \<Rightarrow> DiscordenoShard \<Rightarrow> DiscordenoShard" where
  "heartbeat_tick now sh0 =
     (if \<not> isOpen sh0 then sh0
      else if \<not> acknowledged (heart sh0)
      then identify Discard
             (close ZombiedConnection
                ''Zombied connection, did not receive an heartbeat ACK in time.'' sh0)
      else
        (let sh1 = sh0\<lparr>heart := (heart sh0)\<lparr>acknowledged := False\<rparr>\<rparr>;
             sh2 = socket_send (HeartbeatPayload (previousSequenceNumber sh1)) sh1;
             sh3 = sh2\<lparr>heart := (heart sh2)\<lparr>lastBeat := Some now\<rparr>\<rparr>
         in emit EvHeartbeat sh3))"

definition fire_timer :: "nat \<Rightarrow> int \<Rightarrow> DiscordenoShard \<Rightarrow> DiscordenoShard" where
  "fire_timer n now sh =
     (if n < length (timers sh) then
        (case timers sh ! n of
           None \<Rightarrow> sh
         | Some (JitterTimeout ms) \<Rightarrow> heartbeat_first now (sh\<lparr>timers := (timers sh)[n := None]\<rparr>)
         | Some (SteadyInterval ms) \<Rightarrow> heartbeat_tick now sh
         | Some (DelayTimeout ms k) \<Rightarrow>
             sh\<lparr>timers := (timers sh)[n := None], microtasks := microtasks sh @ [k]\<rparr>)
      else sh)"

subsection \<open>The commands\<close>

text \<open>
  \<open>joinVoiceChannel\<close> with the two optional members of \<open>options\<close>: \<open>Boolean(options?.selfMute)\<close>
  and \<open>options?.selfDeaf ?? true\<close>. Identifiers are given as their strings.
\<close>

definition joinVoiceChannel ::
  "string \<Rightarrow> string \<Rightarrow> bool option \<Rightarrow> bool option \<Rightarrow> kont \<Rightarrow> DiscordenoShard \<Rightarrow> DiscordenoShard" where
  "joinVoiceChannel guildId channelId selfMute selfDeaf k sh =
     send (VoiceStateUpdatePayload guildId (Some channelId)
             (case selfMute of None \<Rightarrow> False | Some b \<Rightarrow> b)
             (case selfDeaf of None \<Rightarrow> True | Some b \<Rightarrow> b))
       False k (record_action LoggerDebug sh)"

definition editShardStatus :: "string list \<Rightarrow> string \<Rightarrow> kont \<Rightarrow> DiscordenoShard \<Rightarrow> DiscordenoShard" where
  "editShardStatus activities status k sh =
     send (PresenceUpdatePayload activities status) False k (record_action LoggerDebug sh)"

definition editBotStatus :: "string list \<Rightarrow> string \<Rightarrow> kont \<Rightarrow> DiscordenoShard \<Rightarrow> DiscordenoShard" where
  "editBotStatus activities status k sh =
     editShardStatus activities status k (record_action LoggerDebug sh)"

definition leaveVoiceChannel :: "string \<Rightarrow> kont \<Rightarrow> DiscordenoShard \<Rightarrow> DiscordenoShard" where
  "leaveVoiceChannel guildId k sh =
     send (VoiceStateUpdatePayload guildId None False False) False k (record_action LoggerDebug sh)"

text \<open>
  The operator \<open>&\<close> of JavaScript on integers: both operands are taken modulo \<open>2 ^ 32\<close>
  and the result is read as a signed 32-bit integer.
\<close>

definition js_bitand :: "int \<Rightarrow> int \<Rightarrow> int" where
  "js_bitand a b = sint ((word_of_int a :: 32 word) AND word_of_int b)"

text \<open>
  Modelled from the spec: the type \<open>RequestGuildMembers\<close> (package \<open>@discordeno/types\<close>) is
  declared outside the sources at hand; these are the optional members of \<open>options\<close>
  that \<open>requestMembers\<close> reads.
\<close>

record RequestGuildMembersOptions =
  limit :: "int option"
  query :: "string option"
  presences :: "bool option"
  userIds :: "string list option"

text \<open>
  \<open>requestMembers\<close>. The value of \<open>GatewayIntents.GuildMembers\<close> (package
  \<open>@discordeno/types\<close>, not among the sources) is the parameter \<open>GuildMembers\<close>; \<open>now\<close> is
  \<open>Date.now()\<close>. The result is the error thrown, if any, beside the shard. With the
  cache disabled the caller goes on when \<open>send\<close> is through; with the cache enabled the
  caller waits in \<open>pending\<close> under the nonce, and \<open>send\<close> is not awaited.
\<close>

definition requestMembers ::
  "int \<Rightarrow> int \<Rightarrow> string \<Rightarrow> RequestGuildMembersOptions option \<Rightarrow> kont \<Rightarrow> DiscordenoShard
     \<Rightarrow> error option \<times> DiscordenoShard" where
  "requestMembers GuildMembers now guildId options0 k sh0 =
     (if intents (connection sh0) \<noteq> 0
         \<and> (case options0 of
              None \<Rightarrow> True
            | Some opts \<Rightarrow> (case limit opts of None \<Rightarrow> True | Some n \<Rightarrow> n = 0 \<or> 1 < n))
         \<and> js_bitand (intents (connection sh0)) GuildMembers = 0
      then (Some (Error ''MISSING_INTENT_GUILD_MEMBERS''), sh0)
      else
        (let forced = (case options0 of
                         None \<Rightarrow> False
                       | Some opts \<Rightarrow> (case userIds opts of None \<Rightarrow> False | Some ids \<Rightarrow> ids \<noteq> []));
             options = (case options0 of
                          None \<Rightarrow> None
                        | Some opts \<Rightarrow>
                            (case userIds opts of
                               None \<Rightarrow> Some opts
                             | Some ids \<Rightarrow>
                                 if ids \<noteq> [] then Some (opts\<lparr>limit := Some (int (length ids))\<rparr>)
                                 else Some opts));
             sh1 = (if forced then record_action LoggerDebug sh0 else sh0);
             nonce = (guildId, now);
             limit1 = (case options of None \<Rightarrow> None | Some opts \<Rightarrow> limit opts);
             message =
               RequestGuildMembersPayload guildId
                 (case (case options of None \<Rightarrow> None | Some opts \<Rightarrow> query opts) of
                    Some q \<Rightarrow> Some q
                  | None \<Rightarrow> (case limit1 of
                               None \<Rightarrow> Some []
                             | Some n \<Rightarrow> if n \<noteq> 0 then None else Some []))
                 (case limit1 of None \<Rightarrow> 0 | Some n \<Rightarrow> n)
                 (case (case options of None \<Rightarrow> None | Some opts \<Rightarrow> presences opts) of
                    None \<Rightarrow> False
                  | Some b \<Rightarrow> b)
                 (case options of None \<Rightarrow> None | Some opts \<Rightarrow> userIds opts)
                 nonce
         in if \<not> enabled (cache_requestMembers sh1)
            then (None, send message False k (record_action LoggerDebug sh1))
            else
              (let sh2 = sh1\<lparr>cache_requestMembers :=
                               (cache_requestMembers sh1)
                                 \<lparr>pending := (pending (cache_requestMembers sh1))(nonce \<mapsto> k)\<rparr>\<rparr>
               in (None, send message False Discard (record_action LoggerDebug sh2)))))"

subsection \<open>The constructor\<close>

text \<open>The shard that the constructor makes, in the runtime \<open>rt\<close>.\<close>

definition new_shard ::
  "js_runtime \<Rightarrow> nat \<Rightarrow> ShardGatewayConfig \<Rightarrow> ShardEvent set \<Rightarrow> DiscordenoShard" where
  "new_shard rt i conn evs =
     \<lparr>shard_id = i,
      connection = conn,
      heart = \<lparr>acknowledged = False, interval = 45000, lastAck = None, lastBeat = None,
               rtt = None, intervalId = None, timeoutId = None\<rparr>,
      maxRequestsPerRateLimitTick = 120,
      previousSequenceNumber = None,
      rateLimitResetInterval = 60000,
      sessionId = None,
      socket = None,
      state = Offline,
      resumeGatewayUrl = [],
      events = evs,
      offlineSendQueue = [],
      resolves = Map.empty,
      bucket = \<lparr>bucket_max = Some 120, refillInterval = 60000, refillAmount = Some 120, waiting = []\<rparr>,
      cache_requestMembers = \<lparr>enabled = False, pending = Map.empty\<rparr>,
      runtime = rt,
      sockets = [],
      timers = [],
      parked = [],
      awaiting = [],
      microtasks = [],
      trace = []\<rparr>"

section \<open>The life of a shard\<close>

text \<open>
  What can happen to a shard: the signals of a socket it created, a timer firing, the
  bucket granting a token to its first waiter, the runtime running the next ready
  continuation, and a call of one of its operations from outside (with a number for
  the promise of the call, where there is one). The signals carry what the handler
  reads from the clock and from \<open>Math.random()\<close>.
\<close>

datatype event =
    SocketOpen nat
  | SocketError nat
  | SocketClose nat CloseEvent
  | SocketMessage nat MessageData int double
  | TimerFires nat int
  | BucketGrants
  | RunMicrotask
  | CallConnect nat
  | CallIdentify nat
  | CallResume nat
  | CallSend nat ShardSocketRequest bool
  | CallShutdown nat
  | CallClose CloseCode string
  | CallJoinVoiceChannel nat string string "bool option" "bool option"
  | CallEditBotStatus nat "string list" string
  | CallEditShardStatus nat "string list" string
  | CallRequestMembers nat string "RequestGuildMembersOptions option" int
  | CallLeaveVoiceChannel nat string

definition exec :: "int \<Rightarrow> event \<Rightarrow> DiscordenoShard \<Rightarrow> DiscordenoShard" where
  "exec GuildMembers e sh =
     (case e of
        SocketOpen j \<Rightarrow> if j < length (sockets sh) then onopen j (set_readyState j OPEN sh) else sh
      | SocketError j \<Rightarrow> if j < length (sockets sh) then record_action ConsoleLog sh else sh
      | SocketClose j close_ev \<Rightarrow>
          if j < length (sockets sh) then
            (case handleClose close_ev (set_readyState j CLOSED sh) of
               (None, sh') \<Rightarrow> sh'
             | (Some err, sh') \<Rightarrow> record_action (Unhandled err) sh')
          else sh
      | SocketMessage j message_data now random \<Rightarrow>
          if j < length (sockets sh) then handleMessage now random message_data sh else sh
      | TimerFires n now \<Rightarrow> fire_timer n now sh
      | BucketGrants \<Rightarrow>
          (case waiting (bucket sh) of
             [] \<Rightarrow> sh
           | k # ks \<Rightarrow> sh\<lparr>bucket := (bucket sh)\<lparr>waiting := ks\<rparr>, microtasks := microtasks sh @ [k]\<rparr>)
      | RunMicrotask \<Rightarrow>
          (case microtasks sh of
             [] \<Rightarrow> sh
           | k # ks \<Rightarrow> run_kont k (sh\<lparr>microtasks := ks\<rparr>))
      | CallConnect n \<Rightarrow> connect (Finish n) sh
      | CallIdentify n \<Rightarrow> identify (Finish n) sh
      | CallResume n \<Rightarrow> resume (Finish n) sh
      | CallSend n message highPriority \<Rightarrow> send message highPriority (Finish n) sh
      | CallShutdown n \<Rightarrow> record_action (Settled n) (shutdown sh)
      | CallClose c r \<Rightarrow> close c r sh
      | CallJoinVoiceChannel n guildId channelId selfMute selfDeaf \<Rightarrow>
          joinVoiceChannel guildId channelId selfMute selfDeaf (Finish n) sh
      | CallEditBotStatus n activities status \<Rightarrow> editBotStatus activities status (Finish n) sh
      | CallEditShardStatus n activities status \<Rightarrow> editShardStatus activities status (Finish n) sh
      | CallRequestMembers n guildId options now \<Rightarrow>
          (case requestMembers GuildMembers now guildId options (Finish n) sh of
             (None, sh') \<Rightarrow> sh'
           | (Some err, sh') \<Rightarrow> record_action (Rejected n err) sh')
      | CallLeaveVoiceChannel n guildId \<Rightarrow> leaveVoiceChannel guildId (Finish n) sh)"

fun run :: "int \<Rightarrow> event list \<Rightarrow> DiscordenoShard \<Rightarrow> DiscordenoShard" where
  "run GuildMembers [] sh = sh"
| "run GuildMembers (e # es) sh = run GuildMembers es (exec GuildMembers e sh)"

section \<open>Notions used in the properties\<close>

text \<open>
  \<open>keeps j a b\<close> relates a shard \<open>a\<close> to a later shard \<open>b\<close>: the offline queue of \<open>a\<close> is a
  contiguous part of that of \<open>b\<close>, the trace of \<open>a\<close> is a prefix of that of \<open>b\<close>, the
  continuation that waits for socket \<open>j\<close> to open (if \<open>a\<close> has a socket \<open>j\<close>) is still
  the same, and \<open>heart.acknowledged\<close> has not gone from false to true.
\<close>

definition keeps :: "nat \<Rightarrow> DiscordenoShard \<Rightarrow> DiscordenoShard \<Rightarrow> bool" where
  "keeps j a b \<longleftrightarrow>
     sublist (offlineSendQueue a) (offlineSendQueue b)
     \<and> prefix (trace a) (trace b)
     \<and> (j < length (sockets a) \<longrightarrow>
          j < length (sockets b) \<and> onopen_resolve (sockets b ! j) = onopen_resolve (sockets a ! j))
     \<and> (acknowledged (heart b) \<longrightarrow> acknowledged (heart a))"

text \<open>The continuation that waits for socket \<open>j\<close> to open, if there is one.\<close>

definition pending_open :: "DiscordenoShard \<Rightarrow> nat \<Rightarrow> kont option" where
  "pending_open sh j = (if j < length (sockets sh) then onopen_resolve (sockets sh ! j) else None)"

text \<open>The resolvers of the offline queue that a trace shows as called, in order.\<close>

fun offline_resolved :: "action list \<Rightarrow> nat list" where
  "offline_resolved [] = []"
| "offline_resolved (OfflineResolve r # as) = r # offline_resolved as"
| "offline_resolved (_ # as) = offline_resolved as"

text \<open>The events that deliver a message of a socket.\<close>

fun is_message :: "event \<Rightarrow> bool" where
  "is_message (SocketMessage j message_data now random) = True"
| "is_message _ = False"

section \<open>Example shards\<close>

text \<open>
  A runtime for the examples. Its \<open>URL\<close> constructor is asked about three strings: the
  URL of the gateway and the URL of a gateway to resume at, which it parses (the
  origin of each is the string itself), and the empty string, for which it throws.
  For simplicity it throws for every other string too. Its \<open>WebSocket\<close> constructor
  returns a socket for every target.
\<close>

definition example_runtime :: js_runtime where
  "example_runtime =
     \<lparr>new_URL = (\<lambda>s. if s = ''wss://gateway.discord.gg'' \<or> s = ''wss://gateway-us-east1-b.discord.gg''
                      then Some s else None),
      new_WebSocket = (\<lambda>t. True)\<rparr>"

text \<open>
  A configuration that connects directly to the gateway with the intents \<open>513\<close>
  (\<open>GUILDS\<close> and \<open>GUILD_MESSAGES\<close>), and the shard the constructor makes from it with
  every callback configured.
\<close>

definition example_config :: ShardGatewayConfig where
  "example_config =
     \<lparr>url = ''wss://gateway.discord.gg'',
      version = 10, token = ''T'', compress = False, properties = [], intents = 513,
      totalShards = 1\<rparr>"

definition example_shard :: DiscordenoShard where
  "example_shard = new_shard example_runtime 0 example_config UNIV"

text \<open>
  A shard in the middle of its first \<open>identify\<close> (call 7): the socket is open, the
  Identify payload waits for its token, and the promise of \<open>identify\<close> waits for
  \<open>READY\<close> or \<open>INVALID_SESSION\<close>.
\<close>

definition identifying_shard :: DiscordenoShard where
  "identifying_shard = run 2 [CallIdentify 7, SocketOpen 0, RunMicrotask] example_shard"

text \<open>
  The same shard after a command was sent while it was still offline (call 2, parked
  in the offline queue), and after \<open>shutdown\<close> (call 3) and the close event that
  follows it.
\<close>

definition shut_down_shard :: DiscordenoShard where
  "shut_down_shard =
     run 2 [CallSend 2 (PresenceUpdatePayload [] ''online'') False,
            CallIdentify 7, SocketOpen 0, RunMicrotask,
            CallShutdown 3,
            SocketClose 0 \<lparr>code = Shutdown, reason = ''Shard shutting down.''\<rparr>]
       example_shard"

text \<open>
  A connected shard (call 0) on which \<open>identify\<close> is called again (call 1): the old
  socket 0 is closing and the new socket 1 is not open yet.
\<close>

definition reidentifying_shard :: DiscordenoShard where
  "reidentifying_shard = run 2 [CallConnect 0, SocketOpen 0, RunMicrotask, CallIdentify 1] example_shard"

text \<open>
  A connected shard that received Hello with the interval 41250 and whose one-shot
  timer has fired at time 10: the first heartbeat is out and not acknowledged.
\<close>

definition beating_shard :: DiscordenoShard where
  "beating_shard =
     run 2 [CallConnect 0, SocketOpen 0, RunMicrotask,
            SocketMessage 0 (StringData \<lparr>pkt_op = Hello 41250, pkt_t = T_null, pkt_s = None\<rparr>) 0 (Double 1 (- 1)),
            TimerFires 0 10]
       example_shard"

text \<open>
  The example shard with a configuration whose URL is the empty string, which is not
  a URL.
\<close>

definition misconfigured_shard :: DiscordenoShard where
  "misconfigured_shard = example_shard\<lparr>connection := example_config\<lparr>url := []\<rparr>\<rparr>"

text \<open>The example shard with a session identifier that is the empty string.\<close>

definition empty_session_shard :: DiscordenoShard where
  "empty_session_shard = example_shard\<lparr>sessionId := Some []\<rparr>"

text \<open>
  The example shard after two commands were sent while it was offline, the second
  with high priority.
\<close>

definition queued_shard :: DiscordenoShard where
  "queued_shard =
     run 2 [CallSend 2 (PresenceUpdatePayload [] ''online'') False,
            CallSend 3 (PresenceUpdatePayload [] ''idle'') True]
       example_shard"

text \<open>
  The example shard with a session, a gateway to resume at and a last sequence number,
  as after \<open>READY\<close>.
\<close>

definition resumable_shard :: DiscordenoShard where
  "resumable_shard =
     example_shard\<lparr>sessionId := Some ''S'',
                     resumeGatewayUrl := ''wss://gateway-us-east1-b.discord.gg'',
                     previousSequenceNumber := Some 42\<rparr>"

text \<open>
  The example shard with a session and a last sequence number but without a gateway to
  resume at: \<open>resumeGatewayUrl\<close> is the empty string the class starts with.
\<close>

definition stale_session_shard :: DiscordenoShard where
  "stale_session_shard = example_shard\<lparr>sessionId := Some ''S'', previousSequenceNumber := Some 42\<rparr>"

text \<open>The shard whose first heartbeat is out, after its next packet, a dispatch.\<close>

definition acked_shard :: DiscordenoShard where
  "acked_shard =
     exec 2 (SocketMessage 0
               (StringData \<lparr>pkt_op = Dispatch, pkt_t = T_other ''MESSAGE_CREATE'', pkt_s = Some 1\<rparr>)
               20 (Double 0 0))
       beating_shard"

text \<open>
  The shard with a session in the middle of \<open>resume\<close> (call 1): the new socket 0 is not
  open yet. Then the same shard after the socket has opened.
\<close>

definition resuming_shard :: DiscordenoShard where
  "resuming_shard = exec 2 (CallResume 1) resumable_shard"

definition reopened_shard :: DiscordenoShard where
  "reopened_shard = exec 2 (SocketOpen 0) resuming_shard"

section \<open>Evaluating the methods\<close>

lemmas shard_defs =
  emit_def record_action_def reject_def readyStateOf_def set_readyState_def ws_close_def resolve_parked_def
  resolve_awaiting_def resolve_open_def clear_timer_def calculateSafeRequests_def isOpen_def
  close_def checkOffline_def connect_url_def connect_target_def connect_begin_def connect_def onopen_def
  bucket_acquire_def send_throws_def socket_send_def send_def
  identify_connected_def identify_def falsy_string_def resume_connected_def resume_def
  shutdown_def stopHeartbeating_def handleClose_def run_resolver_def settle_def drain_def
  packet_tail_def startHeartbeating_def delay_def packet_prelude_def packet_switch_def
  handleDiscordPacket_def handleMessage_def heartbeat_first_def heartbeat_tick_def fire_timer_def
  exec_def new_shard_def example_shard_def example_config_def example_runtime_def Let_def

section \<open>What no method undoes\<close>

text \<open>
  Every method keeps the four parts of \<open>keeps\<close>, with two exceptions: the open handler
  of socket \<open>j\<close> resolves the waiter of socket \<open>j\<close>, and the prelude of the packet handler
  sets \<open>heart.acknowledged\<close>.
\<close>

lemma keeps_refl: "keeps j a a"
  by (simp add: keeps_def)

lemma keeps_trans: "keeps j a b \<Longrightarrow> keeps j b c \<Longrightarrow> keeps j a c"
  unfolding keeps_def
  by (metis prefix_order.order_trans sublist_order.order_trans)

lemma keeps_other_fields:
  "keeps j a (b\<lparr>shard_id := x1\<rparr>) = keeps j a b"
  "keeps j a (b\<lparr>connection := x2\<rparr>) = keeps j a b"
  "keeps j a (b\<lparr>maxRequestsPerRateLimitTick := x3\<rparr>) = keeps j a b"
  "keeps j a (b\<lparr>previousSequenceNumber := x4\<rparr>) = keeps j a b"
  "keeps j a (b\<lparr>rateLimitResetInterval := x5\<rparr>) = keeps j a b"
  "keeps j a (b\<lparr>sessionId := x6\<rparr>) = keeps j a b"
  "keeps j a (b\<lparr>socket := x7\<rparr>) = keeps j a b"
  "keeps j a (b\<lparr>state := x8\<rparr>) = keeps j a b"
  "keeps j a (b\<lparr>resumeGatewayUrl := x9\<rparr>) = keeps j a b"
  "keeps j a (b\<lparr>events := x10\<rparr>) = keeps j a b"
  "keeps j a (b\<lparr>resolves := x11\<rparr>) = keeps j a b"
  "keeps j a (b\<lparr>bucket := x12\<rparr>) = keeps j a b"
  "keeps j a (b\<lparr>cache_requestMembers := x13\<rparr>) = keeps j a b"
  "keeps j a (b\<lparr>timers := x14\<rparr>) = keeps j a b"
  "keeps j a (b\<lparr>parked := x15\<rparr>) = keeps j a b"
  "keeps j a (b\<lparr>awaiting := x16\<rparr>) = keeps j a b"
  "keeps j a (b\<lparr>microtasks := x17\<rparr>) = keeps j a b"
  "keeps j a (b\<lparr>runtime := x18\<rparr>) = keeps j a b"
  by (simp_all add: keeps_def)

lemma keeps_queue:
  "keeps j a b \<Longrightarrow> sublist (offlineSendQueue b) q \<Longrightarrow> keeps j a (b\<lparr>offlineSendQueue := q\<rparr>)"
  unfolding keeps_def by (auto intro: sublist_order.order_trans)

lemma keeps_trace:
  "keeps j a b \<Longrightarrow> prefix (trace b) t \<Longrightarrow> keeps j a (b\<lparr>trace := t\<rparr>)"
  unfolding keeps_def by (auto intro: prefix_order.order_trans)

lemma keeps_heart:
  "keeps j a b \<Longrightarrow> (acknowledged h \<longrightarrow> acknowledged (heart b)) \<Longrightarrow> keeps j a (b\<lparr>heart := h\<rparr>)"
  unfolding keeps_def by auto

lemma keeps_sockets:
  "keeps j a b
   \<Longrightarrow> (j < length (sockets b) \<longrightarrow>
          j < length ws \<and> onopen_resolve (ws ! j) = onopen_resolve (sockets b ! j))
   \<Longrightarrow> keeps j a (b\<lparr>sockets := ws\<rparr>)"
  unfolding keeps_def by auto

lemmas keeps_fields = keeps_other_fields keeps_queue keeps_trace keeps_heart keeps_sockets

lemma sublist_Cons_self: "sublist xs (y # xs)"
  by (simp add: sublist_Cons_right)

subsection \<open>The helpers\<close>

lemma keeps_emit: "keeps j a b \<Longrightarrow> keeps j a (emit e b)"
  by (simp add: emit_def keeps_fields)

lemma keeps_record_action: "keeps j a b \<Longrightarrow> keeps j a (record_action x b)"
  by (simp add: record_action_def keeps_fields)

lemma keeps_reject: "keeps j a b \<Longrightarrow> keeps j a (reject k e b)"
  by (simp add: reject_def keeps_record_action)

text \<open>A rejection changes nothing of the shard but the trace.\<close>

lemma reject_fields:
  "state (reject k e b) = state b"
  "socket (reject k e b) = socket b"
  "sockets (reject k e b) = sockets b"
  "microtasks (reject k e b) = microtasks b"
  "awaiting (reject k e b) = awaiting b"
  "resolves (reject k e b) = resolves b"
  "parked (reject k e b) = parked b"
  "offlineSendQueue (reject k e b) = offlineSendQueue b"
  "bucket (reject k e b) = bucket b"
  "heart (reject k e b) = heart b"
  "timers (reject k e b) = timers b"
  "sessionId (reject k e b) = sessionId b"
  "previousSequenceNumber (reject k e b) = previousSequenceNumber b"
  "resumeGatewayUrl (reject k e b) = resumeGatewayUrl b"
  "connection (reject k e b) = connection b"
  "events (reject k e b) = events b"
  "runtime (reject k e b) = runtime b"
  by (simp_all add: reject_def record_action_def)

lemma keeps_set_readyState: "keeps j a b \<Longrightarrow> keeps j a (set_readyState i r b)"
  by (simp add: set_readyState_def keeps_fields nth_list_update)

lemma keeps_ws_close: "keeps j a b \<Longrightarrow> keeps j a (ws_close i c r b)"
  by (simp add: ws_close_def keeps_record_action keeps_set_readyState)

lemma keeps_resolve_parked: "keeps j a b \<Longrightarrow> keeps j a (resolve_parked r b)"
  by (simp add: resolve_parked_def keeps_fields split: option.split)

lemma keeps_resolve_awaiting: "keeps j a b \<Longrightarrow> keeps j a (resolve_awaiting p b)"
  by (simp add: resolve_awaiting_def keeps_fields split: option.split)

lemma keeps_resolve_open: "keeps j a b \<Longrightarrow> i \<noteq> j \<Longrightarrow> keeps j a (resolve_open i b)"
  by (simp add: resolve_open_def keeps_fields nth_list_update split: option.split)

lemma keeps_clear_timer: "keeps j a b \<Longrightarrow> keeps j a (clear_timer i b)"
  by (simp add: clear_timer_def keeps_fields split: option.split)

lemma keeps_bucket_acquire: "keeps j a b \<Longrightarrow> keeps j a (bucket_acquire hp k b)"
  by (simp add: bucket_acquire_def keeps_fields)

lemma keeps_socket_send: "keeps j a b \<Longrightarrow> keeps j a (socket_send m b)"
  by (simp add: socket_send_def keeps_record_action split: option.split)

lemma keeps_delay: "keeps j a b \<Longrightarrow> keeps j a (delay ms k b)"
  by (simp add: delay_def keeps_fields)

lemma keeps_checkOffline:
  "keeps j a b \<Longrightarrow> checkOffline hp k b = Some b' \<Longrightarrow> keeps j a b'"
  by (auto simp: checkOffline_def Let_def keeps_fields sublist_Cons_self split: if_splits)

subsection \<open>The methods\<close>

lemma keeps_close: "keeps j a b \<Longrightarrow> keeps j a (close c r b)"
  by (simp add: close_def keeps_ws_close split: option.split)

lemma keeps_connect: "keeps j a b \<Longrightarrow> keeps j a (connect k b)"
  by (simp add: connect_def connect_begin_def Let_def keeps_reject keeps_record_action keeps_emit
        keeps_fields nth_append split: sum.split)

lemma keeps_onopen: "keeps j a b \<Longrightarrow> i \<noteq> j \<Longrightarrow> keeps j a (onopen i b)"
  by (simp add: onopen_def Let_def keeps_resolve_open keeps_emit keeps_fields)

lemma keeps_send: "keeps j a b \<Longrightarrow> keeps j a (send m hp k b)"
  by (auto simp: send_def keeps_bucket_acquire split: option.split intro: keeps_checkOffline)

lemma keeps_identify_connected: "keeps j a b \<Longrightarrow> keeps j a (identify_connected k b)"
  by (simp add: identify_connected_def Let_def keeps_send keeps_fields)

lemma keeps_identify: "keeps j a b \<Longrightarrow> keeps j a (identify k b)"
  by (simp add: identify_def Let_def keeps_connect keeps_identify_connected keeps_emit
        keeps_close keeps_record_action keeps_fields)

lemma keeps_resume_connected: "keeps j a b \<Longrightarrow> keeps j a (resume_connected k b)"
  by (simp add: resume_connected_def Let_def keeps_send keeps_fields)

lemma keeps_resume: "keeps j a b \<Longrightarrow> keeps j a (resume k b)"
  by (simp add: resume_def Let_def keeps_connect keeps_identify keeps_close keeps_fields)

lemma keeps_shutdown: "keeps j a b \<Longrightarrow> keeps j a (shutdown b)"
  by (simp add: shutdown_def keeps_close keeps_fields)

lemma keeps_stopHeartbeating: "keeps j a b \<Longrightarrow> keeps j a (stopHeartbeating b)"
  by (simp add: stopHeartbeating_def keeps_clear_timer)

lemma keeps_handleClose: "keeps j a b \<Longrightarrow> keeps j a (snd (handleClose ev b))"
  by (simp add: handleClose_def Let_def keeps_stopHeartbeating keeps_emit keeps_identify
        keeps_resume keeps_fields split: CloseCode.split)

lemma keeps_run_resolver: "keeps j a b \<Longrightarrow> keeps j a (run_resolver r b)"
  by (simp add: run_resolver_def keeps_resolve_awaiting keeps_emit keeps_fields split: resolver.split)

lemma keeps_settle: "keeps j a b \<Longrightarrow> keeps j a (settle key b)"
  by (simp add: settle_def Let_def keeps_run_resolver keeps_fields split: option.split)

lemma keeps_fold_resolve:
  "keeps j a b \<Longrightarrow> keeps j a (fold (\<lambda>r c. resolve_parked r (record_action (OfflineResolve r) c)) q b)"
  by (induction q arbitrary: b) (simp_all add: keeps_resolve_parked keeps_record_action)

lemma keeps_drain: "keeps j a b \<Longrightarrow> keeps j a (drain b)"
  by (simp add: drain_def keeps_fold_resolve)

lemma keeps_packet_tail: "keeps j a b \<Longrightarrow> keeps j a (packet_tail p b)"
  by (simp add: packet_tail_def Let_def keeps_settle keeps_drain keeps_emit keeps_fields
        split: GatewayEventName.split option.split)

lemma keeps_startHeartbeating: "keeps j a b \<Longrightarrow> keeps j a (startHeartbeating i r b)"
  by (simp add: startHeartbeating_def Let_def keeps_fields)

lemma keeps_packet_switch: "keeps j a b \<Longrightarrow> keeps j a (packet_switch now r p b)"
  by (simp add: packet_switch_def Let_def keeps_packet_tail keeps_emit keeps_socket_send
        keeps_startHeartbeating keeps_resume keeps_delay keeps_fields split: GatewayOpcode.split)

lemma keeps_run_kont: "keeps j a b \<Longrightarrow> keeps j a (run_kont k b)"
proof (induction k arbitrary: b)
  case (SendAcquired m hp k)
  then show ?case
    by (auto simp: keeps_socket_send keeps_reject split: option.split intro: keeps_checkOffline)
next
  case (SendTransmit m k)
  then show ?case
    by (simp add: keeps_socket_send keeps_reject)
next
  case (InvalidSessionDelayed p resumable)
  then show ?case
    by (simp add: Let_def keeps_settle keeps_identify keeps_resume)
qed (simp_all add: keeps_record_action keeps_identify_connected keeps_resume_connected
       keeps_bucket_acquire keeps_socket_send keeps_packet_tail)

lemma keeps_heartbeat_first: "keeps j a b \<Longrightarrow> keeps j a (heartbeat_first now b)"
  by (simp add: heartbeat_first_def Let_def keeps_socket_send keeps_fields)

lemma keeps_heartbeat_tick: "keeps j a b \<Longrightarrow> keeps j a (heartbeat_tick now b)"
  by (simp add: heartbeat_tick_def Let_def keeps_socket_send keeps_emit keeps_identify
        keeps_close keeps_fields)

lemma keeps_fire_timer: "keeps j a b \<Longrightarrow> keeps j a (fire_timer n now b)"
  by (simp add: fire_timer_def keeps_heartbeat_first keeps_heartbeat_tick keeps_fields
        split: option.split timer.split)

lemma keeps_commands:
  "keeps j a b \<Longrightarrow> keeps j a (joinVoiceChannel g c m d k b)"
  "keeps j a b \<Longrightarrow> keeps j a (editShardStatus acts st k b)"
  "keeps j a b \<Longrightarrow> keeps j a (editBotStatus acts st k b)"
  "keeps j a b \<Longrightarrow> keeps j a (leaveVoiceChannel g k b)"
  by (simp_all add: joinVoiceChannel_def editShardStatus_def editBotStatus_def
        leaveVoiceChannel_def keeps_send keeps_record_action)

lemma keeps_requestMembers:
  "keeps j a b \<Longrightarrow> keeps j a (snd (requestMembers gm now g opts k b))"
  by (simp add: requestMembers_def Let_def keeps_send keeps_record_action keeps_fields)

section \<open>The heartbeat jitter\<close>

subsection \<open>Rounding to a double\<close>

declare excess.simps [simp del]

lemma excess_upper: "a < 2 ^ (53 + excess a)"
proof (induction a rule: excess.induct)
  case (1 a)
  show ?case
  proof (cases "a < 2 ^ 53")
    case True
    then show ?thesis by (simp add: excess.simps [of a])
  next
    case False
    with 1 have "a div 2 < 2 ^ (53 + excess (a div 2))" by simp
    hence "a < 2 * 2 ^ (53 + excess (a div 2))" by linarith
    moreover have "53 + Suc (excess (a div 2)) = Suc (53 + excess (a div 2))" by simp
    ultimately have "a < 2 ^ (53 + Suc (excess (a div 2)))" by (simp only: power_Suc)
    with False show ?thesis by (simp only: excess.simps [of a] if_False)
  qed
qed

lemma excess_lower: "0 < excess a \<Longrightarrow> 2 ^ (52 + excess a) \<le> a"
proof (induction a rule: excess.induct)
  case (1 a)
  from 1(2) have big: "\<not> a < 2 ^ 53" by (auto simp: excess.simps [of a])
  hence ex: "excess a = Suc (excess (a div 2))" by (simp add: excess.simps [of a])
  show ?case
  proof (cases "excess (a div 2) = 0")
    case True
    with ex big show ?thesis by simp
  next
    case False
    with 1(1) big have "2 ^ (52 + excess (a div 2)) \<le> a div 2" by simp
    hence "2 * 2 ^ (52 + excess (a div 2)) \<le> a" by linarith
    moreover have "52 + Suc (excess (a div 2)) = Suc (52 + excess (a div 2))" by simp
    ultimately have "2 ^ (52 + Suc (excess (a div 2))) \<le> a" by (simp only: power_Suc)
    with ex show ?thesis by (simp only:)
  qed
qed

text \<open>\<open>Math.ceil\<close> of a double is the ceiling of its value.\<close>

lemma js_ceil_dval: "js_ceil d = \<lceil>dval d\<rceil>"
proof (cases d)
  case (Double m e)
  show ?thesis
  proof (cases "0 \<le> e")
    case True
    hence "dval d = of_int (m * 2 ^ nat e)" using Double by (simp add: power_int_def)
    thus ?thesis using Double True by (simp del: of_int_mult of_int_power)
  next
    case False
    hence "dval d = of_int m / of_int (2 ^ nat (- e))"
      using Double by (simp add: power_int_def field_simps)
    hence "\<lceil>dval d\<rceil> = - \<lfloor>of_int (- m) / (of_int (2 ^ nat (- e)) :: real)\<rfloor>"
      by (simp add: ceiling_def del: of_int_power)
    also have "\<dots> = - ((- m) div 2 ^ nat (- e))"
      by (simp only: floor_divide_of_int_eq)
    finally show ?thesis using Double False by simp
  qed
qed

text \<open>
  Rounding a positive \<open>p * 2 ^ e\<close> drops the \<open>excess p\<close> low bits of \<open>p\<close> and rounds the
  rest up by at most one; it is exact if the dropped bits are zero.
\<close>

lemma round53_shape:
  assumes "0 < p" "- 1074 \<le> e"
  shows "\<exists>q'. round53 p e = Double q' (e + int (excess p))
           \<and> p div 2 ^ excess p \<le> q' \<and> q' \<le> p div 2 ^ excess p + 1
           \<and> (p mod 2 ^ excess p = 0 \<longrightarrow> q' = p div 2 ^ excess p)"
proof (cases "excess p = 0")
  case True
  with assms show ?thesis by (simp add: round53_def Let_def)
next
  case False
  with assms show ?thesis by (simp add: round53_def Let_def max_def)
qed

lemma fl_mul_exact:
  assumes "0 < i" "0 < m" "- 1074 \<le> e" "i * m < 2 ^ 53"
  shows "fl_mul (Double i 0) (Double m e) = Double (i * m) e"
proof -
  have "excess (i * m) = 0" using assms(4) by (simp add: excess.simps [of "i * m"])
  moreover have "\<bar>i * m\<bar> = i * m" using assms(1,2) by simp
  ultimately show ?thesis using assms(3) by (simp add: round53_def Let_def)
qed

text \<open>
  The product of a positive integer \<open>i\<close> of at most 53 bits and a double in \<open>(0, 1)\<close>,
  rounded to a double and then up to an integer: the result is the ceiling of the
  exact product or one less, and it lies between \<open>1\<close> and \<open>i\<close>.
\<close>

lemma fl_mul_ceil:
  assumes i: "0 < i" "i \<le> 2 ^ 53" and m: "0 < m" "m < 2 ^ nat (- e)" and e: "- 1074 \<le> e"
  shows "\<lceil>of_int i * dval (Double m e)\<rceil> - 1 \<le> js_ceil (fl_mul (Double i 0) (Double m e))"
    and "js_ceil (fl_mul (Double i 0) (Double m e)) \<le> \<lceil>of_int i * dval (Double m e)\<rceil>"
    and "1 \<le> js_ceil (fl_mul (Double i 0) (Double m e))"
    and "\<lceil>of_int i * dval (Double m e)\<rceil> \<le> i"
proof -
  define p where "p = i * m"
  define s where "s = excess p"
  define k where "k = nat (- e)"
  define q where "q = p div 2 ^ s"
  define x :: real where "x = of_int i * dval (Double m e)"
  have p: "0 < p" using i m by (simp add: p_def)
  have k: "0 < k"
  proof (rule ccontr)
    assume "\<not> 0 < k"
    hence "k = 0" by simp
    with m show False by (simp add: k_def)
  qed
  hence ek: "e = - int k" by (simp add: k_def)
  have pk: "p < i * 2 ^ k" using i m by (simp add: p_def k_def)
  have sk: "s \<le> k"
  proof (cases "s = 0")
    case True
    thus ?thesis by simp
  next
    case False
    hence "2 ^ (52 + s) \<le> p" using excess_lower [of p] by (simp add: s_def)
    also have "p < i * 2 ^ k" by (rule pk)
    also have "i * 2 ^ k \<le> 2 ^ 53 * 2 ^ k" using i by simp
    also have "\<dots> = 2 ^ (53 + k)" by (simp only: power_add)
    finally have "(2::int) ^ (52 + s) < 2 ^ (53 + k)" .
    hence "52 + s < 53 + k" by (rule power_less_imp_less_exp [of 2, rotated]) simp
    thus ?thesis by simp
  qed
  define n where "n = k - s"
  have kn: "k = s + n" using sk by (simp add: n_def)
  obtain q' where shape: "round53 p e = Double q' (e + int s)" "q \<le> q'" "q' \<le> q + 1"
      "p mod 2 ^ s = 0 \<longrightarrow> q' = q"
    using round53_shape [OF p e] unfolding s_def q_def by blast
  have es: "e + int s = - int n" using ek kn by simp
  define F :: real where "F = of_int q' / 2 ^ n"
  have "(2::real) powi (- int n) = inverse (2 ^ n)"
    by (simp only: power_int_minus power_int_of_nat)
  hence pn: "(2::real) powi (e + int s) = inverse (2 ^ n)"
    by (simp only: es)
  have F: "dval (fl_mul (Double i 0) (Double m e)) = F"
    by (simp add: shape p_def [symmetric] pn F_def field_simps)
  have "(2::real) powi (- int k) = inverse (2 ^ k)"
    by (simp only: power_int_minus power_int_of_nat)
  hence pe: "(2::real) powi e = inverse (2 ^ s * 2 ^ n)"
    by (simp only: ek kn power_add)
  have x: "x = of_int p / (2 ^ s * 2 ^ n)"
    by (simp add: x_def p_def pe field_simps)
  have pq: "p = q * 2 ^ s + p mod 2 ^ s" unfolding q_def by (rule div_mult_mod_eq [symmetric])
  have r: "0 \<le> p mod 2 ^ s" "p mod 2 ^ s < 2 ^ s" by simp_all
  have q1: "1 \<le> q"
  proof -
    have "2 ^ s \<le> p"
    proof (cases "s = 0")
      case True
      with p show ?thesis by simp
    next
      case False
      hence "2 ^ (52 + s) \<le> p" using excess_lower [of p] by (simp add: s_def)
      moreover have "(2::int) ^ s \<le> 2 ^ (52 + s)" by (rule power_increasing) simp_all
      ultimately show ?thesis by linarith
    qed
    hence "0 < p div 2 ^ s" by (simp add: pos_imp_zdiv_pos_iff)
    thus ?thesis by (simp add: q_def)
  qed
  have lower: "x \<le> F + 1"
  proof -
    have "p < q * 2 ^ s + 2 ^ s" using pq r by linarith
    hence "p < (q + 1) * 2 ^ s" by (simp add: algebra_simps)
    hence "(of_int p :: real) < of_int ((q + 1) * 2 ^ s)" by (simp only: of_int_less_iff)
    hence "x < of_int (q + 1) / 2 ^ n" by (simp add: x field_simps)
    also have "\<dots> \<le> of_int (q' + 1) / 2 ^ n" using shape(2) by (simp add: field_simps)
    also have "\<dots> = F + 1 / 2 ^ n" by (simp add: F_def field_simps)
    also have "\<dots> \<le> F + 1" by (simp add: field_simps)
    finally show ?thesis by simp
  qed
  have upper: "F \<le> of_int \<lceil>x\<rceil>"
  proof (cases "p mod 2 ^ s = 0")
    case True
    with shape(4) have "q' = q" by simp
    moreover from True pq have "p = q * 2 ^ s" by simp
    ultimately have "F = x" by (simp add: F_def x)
    thus ?thesis by simp
  next
    case False
    with pq r have "q * 2 ^ s < p" by linarith
    hence "(of_int (q * 2 ^ s) :: real) < of_int p" by (simp only: of_int_less_iff)
    hence "of_int q / 2 ^ n < x" by (simp add: x field_simps)
    also have "x \<le> of_int \<lceil>x\<rceil>" by simp
    finally have "(of_int q :: real) < of_int (\<lceil>x\<rceil> * 2 ^ n)" by (simp add: field_simps)
    hence "q < \<lceil>x\<rceil> * 2 ^ n" by (simp only: of_int_less_iff)
    with shape(3) have "q' \<le> \<lceil>x\<rceil> * 2 ^ n" by linarith
    hence "(of_int q' :: real) \<le> of_int (\<lceil>x\<rceil> * 2 ^ n)" by (simp only: of_int_le_iff)
    thus ?thesis by (simp add: F_def field_simps)
  qed
  have pos: "0 < F" using q1 shape(2) by (simp add: F_def)
  have below: "x < of_int i"
  proof -
    from pk have "(of_int p :: real) < of_int (i * 2 ^ k)" by (simp only: of_int_less_iff)
    thus ?thesis by (simp add: x kn power_add field_simps)
  qed
  have c: "js_ceil (fl_mul (Double i 0) (Double m e)) = \<lceil>F\<rceil>"
    by (simp only: js_ceil_dval F)
  from lower have "\<lceil>x\<rceil> \<le> \<lceil>F + 1\<rceil>" by (rule ceiling_mono)
  thus "\<lceil>of_int i * dval (Double m e)\<rceil> - 1 \<le> js_ceil (fl_mul (Double i 0) (Double m e))"
    unfolding c x_def [symmetric] by simp
  from upper show "js_ceil (fl_mul (Double i 0) (Double m e)) \<le> \<lceil>of_int i * dval (Double m e)\<rceil>"
    unfolding c x_def [symmetric] by (simp add: ceiling_le_iff)
  from pos show "1 \<le> js_ceil (fl_mul (Double i 0) (Double m e))"
    unfolding c by simp
  from below show "\<lceil>of_int i * dval (Double m e)\<rceil> \<le> i"
    unfolding x_def [symmetric] by (simp add: ceiling_le_iff)
qed

subsection \<open>The delay of the first heartbeat\<close>

lemma or_half_unit:
  assumes "unit_double random"
  shows "\<exists>m e. or_half random = Double m e \<and> 0 < m \<and> m < 2 ^ nat (- e) \<and> - 1074 \<le> e"
proof (cases random)
  case (Double m e)
  show ?thesis
  proof (cases "m = 0")
    case True
    with Double have "or_half random = Double 1 (- 1)" by (simp add: or_half_def)
    thus ?thesis by simp
  next
    case False
    with Double assms have "or_half random = Double m e \<and> 0 < m \<and> m < 2 ^ nat (- e) \<and> - 1074 \<le> e"
      by (simp add: or_half_def)
    thus ?thesis by blast
  qed
qed

text \<open>
  C5, as stated, fails: the delay is not \<open>ceil(interval \<times> max(random(), 0.5))\<close> and can
  lie below \<open>ceil(interval \<times> 0.5)\<close>. For the interval 1000 and the sample 0.25 (the
  double \<open>1 * 2 ^ - 2\<close>) the delay is 250.
\<close>

theorem jitter_max_counterexample:
  "unit_double (Double 1 (- 2)) \<and> dval (Double 1 (- 2)) = 1/4
   \<and> timers (startHeartbeating 1000 (Double 1 (- 2)) example_shard) = [Some (JitterTimeout 250)]
   \<and> jitter 1000 (Double 1 (- 2)) \<noteq> \<lceil>real_of_int 1000 * max (1/4) (1/2)\<rceil>
   \<and> jitter 1000 (Double 1 (- 2)) < \<lceil>real_of_int 1000 * (1/2)\<rceil>"
  by (simp add: startHeartbeating_def jitter_def or_half_def round53_def excess.simps Let_def
        example_shard_def new_shard_def)

text \<open>
  C5, amended: for every sample \<open>random\<close> in \<open>[0, 1)\<close> and every positive interval (an
  integer of at most 53 bits) the one-shot timer that \<open>startHeartbeating\<close> sets has
  the delay \<open>Math.ceil(interval * (random || 0.5))\<close>, where the sample is replaced by
  \<open>0.5\<close> only if it is zero and the product is rounded to a double before the ceiling
  is taken. The delay is therefore the ceiling of the exact product or one less (the
  ceiling itself if the product of the interval and the significand of the sample
  has at most 53 bits), and it lies in \<open>[1, interval]\<close>.
\<close>

theorem startHeartbeating_jitter:
  assumes "unit_double random" and "0 < interval_ms" and "interval_ms \<le> 2 ^ 53"
  shows "\<exists>d. timers (startHeartbeating interval_ms random sh) = timers sh @ [Some (JitterTimeout d)]
           \<and> d = js_ceil (fl_mul (Double interval_ms 0) (or_half random))
           \<and> \<lceil>real_of_int interval_ms * dval (or_half random)\<rceil> - 1 \<le> d
           \<and> d \<le> \<lceil>real_of_int interval_ms * dval (or_half random)\<rceil>
           \<and> (interval_ms * significand (or_half random) < 2 ^ 53
                \<longrightarrow> d = \<lceil>real_of_int interval_ms * dval (or_half random)\<rceil>)
           \<and> 1 \<le> d \<and> d \<le> interval_ms"
proof -
  let ?d = "jitter interval_ms random"
  let ?x = "real_of_int interval_ms * dval (or_half random)"
  obtain m e where r: "or_half random = Double m e" and m: "0 < m" "m < 2 ^ nat (- e)"
      and e: "- 1074 \<le> e"
    using or_half_unit [OF assms(1)] by blast
  have t: "timers (startHeartbeating interval_ms random sh) = timers sh @ [Some (JitterTimeout ?d)]"
    by (simp add: startHeartbeating_def Let_def)
  have d: "?d = js_ceil (fl_mul (Double interval_ms 0) (or_half random))"
    by (simp add: jitter_def)
  note b = fl_mul_ceil [OF assms(2,3) m e]
  have lo: "\<lceil>?x\<rceil> - 1 \<le> ?d" using b(1) by (simp only: d r)
  have hi: "?d \<le> \<lceil>?x\<rceil>" using b(2) by (simp only: d r)
  have one: "1 \<le> ?d" using b(3) by (simp only: d r)
  have "\<lceil>?x\<rceil> \<le> interval_ms" using b(4) by (simp only: r)
  with hi have top: "?d \<le> interval_ms" by (rule order_trans)
  have exact: "interval_ms * significand (or_half random) < 2 ^ 53 \<longrightarrow> ?d = \<lceil>?x\<rceil>"
  proof
    assume "interval_ms * significand (or_half random) < 2 ^ 53"
    hence "interval_ms * m < 2 ^ 53" by (simp add: r)
    hence "fl_mul (Double interval_ms 0) (Double m e) = Double (interval_ms * m) e"
      using assms(2) m(1) e by (intro fl_mul_exact)
    hence "?d = \<lceil>dval (Double (interval_ms * m) e)\<rceil>" by (simp only: d r js_ceil_dval)
    also have "\<dots> = \<lceil>?x\<rceil>" by (simp add: r mult.assoc)
    finally show "?d = \<lceil>?x\<rceil>" .
  qed
  from t d lo hi exact one top show ?thesis by blast
qed

theorem startHeartbeating_jitter_witness:
  "unit_double (Double 2736332544503921 (- 52)) \<and> unit_double (Double 0 0)
   \<and> (0::int) < 41250 \<and> (41250::int) \<le> 2 ^ 53
   \<and> timers (startHeartbeating 41250 (Double 2736332544503921 (- 52)) example_shard)
       = timers example_shard @ [Some (JitterTimeout 25063)]
   \<and> \<lceil>real_of_int 41250 * dval (or_half (Double 2736332544503921 (- 52)))\<rceil> - 1 \<le> 25063
   \<and> timers (startHeartbeating 41250 (Double 0 0) example_shard)
       = timers example_shard @ [Some (JitterTimeout 20625)]
   \<and> 41250 * significand (or_half (Double 0 0)) < 2 ^ 53
   \<and> \<lceil>real_of_int 41250 * dval (or_half (Double 0 0))\<rceil> = 20625"
proof -
  have u: "unit_double (Double 2736332544503921 (- 52))" "unit_double (Double 0 0)" by simp_all
  have i: "(0::int) < 41250" "(41250::int) \<le> 2 ^ 53" by simp_all
  have j1: "js_ceil (fl_mul (Double 41250 0) (or_half (Double 2736332544503921 (- 52)))) = 25063"
    by (simp add: or_half_def round53_def excess.simps Let_def)
  have j0: "js_ceil (fl_mul (Double 41250 0) (or_half (Double 0 0))) = 20625"
    by (simp add: or_half_def round53_def excess.simps Let_def)
  have s0: "41250 * significand (or_half (Double 0 0)) < 2 ^ 53"
    by (simp add: or_half_def)
  from startHeartbeating_jitter [OF u(1) i, of example_shard]
  obtain d where d: "timers (startHeartbeating 41250 (Double 2736332544503921 (- 52)) example_shard)
        = timers example_shard @ [Some (JitterTimeout d)]"
      "d = js_ceil (fl_mul (Double 41250 0) (or_half (Double 2736332544503921 (- 52))))"
      "\<lceil>real_of_int 41250 * dval (or_half (Double 2736332544503921 (- 52)))\<rceil> - 1 \<le> d"
    by blast
  from startHeartbeating_jitter [OF u(2) i, of example_shard]
  obtain d' where d': "timers (startHeartbeating 41250 (Double 0 0) example_shard)
        = timers example_shard @ [Some (JitterTimeout d')]"
      "d' = js_ceil (fl_mul (Double 41250 0) (or_half (Double 0 0)))"
      "41250 * significand (or_half (Double 0 0)) < 2 ^ 53
         \<longrightarrow> d' = \<lceil>real_of_int 41250 * dval (or_half (Double 0 0))\<rceil>"
    by blast
  have a: "d = 25063" using d(2) j1 by (simp only:)
  have b: "d' = 20625" using d'(2) j0 by (simp only:)
  from d'(3) s0 have c: "\<lceil>real_of_int 41250 * dval (or_half (Double 0 0))\<rceil> = 20625"
    unfolding b by simp
  from u i d(1,3) d'(1) s0 c show ?thesis unfolding a b by blast
qed

section \<open>Requesting members without the intent\<close>

lemma js_bitand_flag:
  assumes "k < 32"
  shows "(js_bitand a (2 ^ k) = 0) = (\<not> bit a k)"
proof -
  have "(js_bitand a (2 ^ k) = 0) = ((word_of_int a :: 32 word) AND 2 ^ k = 0)"
    by (simp add: js_bitand_def signed_eq_0_iff)
  also have "\<dots> = (\<not> bit (word_of_int a :: 32 word) k)"
    by (simp add: and_exp_eq_0_iff_not_bit)
  also have "\<dots> = (\<not> bit a k)"
    using assms by (simp add: bit_word_of_int_iff)
  finally show ?thesis .
qed

text \<open>
  C8: with \<open>GuildMembers\<close> the flag of bit \<open>k\<close>, \<open>requestMembers\<close> fails with
  \<open>MISSING_INTENT_GUILD_MEMBERS\<close> exactly if the intents are not zero, the limit is
  absent, zero or greater than 1, and bit \<open>k\<close> of the intents is not set. It fails in
  no other way, and when it fails the shard is as before: nothing was sent, queued or
  logged.
\<close>

theorem requestMembers_missing_intent:
  assumes "k < 32"
  shows "(fst (requestMembers (2 ^ k) now guildId options \<kappa> sh) = Some (Error ''MISSING_INTENT_GUILD_MEMBERS''))
           = (intents (connection sh) \<noteq> 0
              \<and> (case options of
                   None \<Rightarrow> True
                 | Some opts \<Rightarrow> (case limit opts of None \<Rightarrow> True | Some n \<Rightarrow> n = 0 \<or> 1 < n))
              \<and> \<not> bit (intents (connection sh)) k)
         \<and> (fst (requestMembers (2 ^ k) now guildId options \<kappa> sh) \<noteq> None
              \<longrightarrow> fst (requestMembers (2 ^ k) now guildId options \<kappa> sh)
                    = Some (Error ''MISSING_INTENT_GUILD_MEMBERS'')
                  \<and> snd (requestMembers (2 ^ k) now guildId options \<kappa> sh) = sh)"
  by (simp add: requestMembers_def js_bitand_flag [OF assms] Let_def)

theorem requestMembers_missing_intent_witness:
  "(1::nat) < 32
   \<and> intents (connection example_shard) = 513
   \<and> fst (requestMembers (2 ^ 1) 0 ''guild'' None Discard example_shard)
       = Some (Error ''MISSING_INTENT_GUILD_MEMBERS'')
   \<and> snd (requestMembers (2 ^ 1) 0 ''guild'' None Discard example_shard) = example_shard"
proof -
  let ?r = "requestMembers (2 ^ 1) 0 ''guild'' None Discard example_shard"
  have k: "(1::nat) < 32" by simp
  have i: "intents (connection example_shard) = 513"
    by (simp add: example_shard_def new_shard_def example_config_def)
  have b: "\<not> bit (513::int) 1" by (simp add: bit_iff_odd)
  have c: "intents (connection example_shard) \<noteq> 0 \<and> \<not> bit (intents (connection example_shard)) 1"
    unfolding i using b by simp
  note th = requestMembers_missing_intent [OF k, of 0 "''guild''" None Discard example_shard]
  from th have eq: "(fst ?r = Some (Error ''MISSING_INTENT_GUILD_MEMBERS''))
           = (intents (connection example_shard) \<noteq> 0
              \<and> (case (None :: RequestGuildMembersOptions option) of
                   None \<Rightarrow> True
                 | Some opts \<Rightarrow> (case limit opts of None \<Rightarrow> True | Some n \<Rightarrow> n = 0 \<or> 1 < n))
              \<and> \<not> bit (intents (connection example_shard)) 1)"
    by (rule conjunct1)
  have f: "fst ?r = Some (Error ''MISSING_INTENT_GUILD_MEMBERS'')"
    unfolding eq using c by simp
  from th have "fst ?r \<noteq> None \<longrightarrow> fst ?r = Some (Error ''MISSING_INTENT_GUILD_MEMBERS'') \<and> snd ?r = example_shard"
    by (rule conjunct2)
  with f have s: "snd ?r = example_shard" by blast
  from k i f s show ?thesis by blast
qed

section \<open>The state after \<open>identify\<close>\<close>

lemma state_send: "state (send m hp k b) = state b"
  by (simp add: send_def checkOffline_def bucket_acquire_def Let_def)

lemma state_connect:
  "state (connect k b) = (if state b \<in> {Identifying, Resuming} then state b else Connecting)"
  by (simp add: connect_def connect_begin_def emit_def record_action_def Let_def reject_fields
        split: sum.split)

lemma isOpen_cong: "socket b' = socket b \<Longrightarrow> sockets b' = sockets b \<Longrightarrow> isOpen b' = isOpen b"
  by (simp add: isOpen_def readyStateOf_def split: option.split)

lemma isOpen_close: "\<not> isOpen (close c r b)"
  by (simp add: isOpen_def close_def ws_close_def record_action_def set_readyState_def
        readyStateOf_def split: option.split)

lemma identify_connects:
  "identify k b =
     connect (AfterConnectIdentify k)
       (emit EvIdentifying
          ((if isOpen b
            then close ReIdentifying ''Re-identifying closure of old connection.''
                   (record_action ConsoleLog b)
            else b)\<lparr>state := Identifying\<rparr>))"
proof -
  let ?x = "if isOpen b
            then close ReIdentifying ''Re-identifying closure of old connection.''
                   (record_action ConsoleLog b)
            else b"
  have "isOpen (emit EvIdentifying (?x\<lparr>state := Identifying\<rparr>)) = isOpen ?x"
    by (rule isOpen_cong) (simp_all add: emit_def)
  moreover have "\<not> isOpen ?x"
    by (simp add: isOpen_close)
  ultimately show ?thesis by (simp add: identify_def Let_def)
qed

lemma state_identify: "state (identify k b) = Identifying"
  by (simp add: identify_connects state_connect emit_def)

lemma resume_connects:
  "resume k b =
     (if falsy_string (sessionId b)
      then identify k (if isOpen b
                       then close ResumeClosingOldConnection
                              ''Reconnecting the shard, closing old connection.'' b
                       else b)
      else connect (AfterConnectResume k)
             ((if isOpen b
               then close ResumeClosingOldConnection
                      ''Reconnecting the shard, closing old connection.'' b
               else b)\<lparr>state := Resuming\<rparr>))"
  by (simp add: resume_def Let_def close_def ws_close_def record_action_def set_readyState_def
        split: option.split)

lemma state_resume:
  "state (resume k b) = (if falsy_string (sessionId b) then Identifying else Resuming)"
  by (simp add: resume_connects state_identify state_connect)

lemma trace_identify: "prefix t (trace b) \<Longrightarrow> prefix t (trace (identify k b))"
  using keeps_identify [OF keeps_refl, of j b k]
  by (auto simp: keeps_def intro: prefix_order.order_trans)

lemma trace_resume: "prefix t (trace b) \<Longrightarrow> prefix t (trace (resume k b))"
  using keeps_resume [OF keeps_refl, of j b k]
  by (auto simp: keeps_def intro: prefix_order.order_trans)

section \<open>The close handler\<close>

lemma stopHeartbeating_fields:
  "state (stopHeartbeating b) = state b"
  "trace (stopHeartbeating b) = trace b"
  "events (stopHeartbeating b) = events b"
  "awaiting (stopHeartbeating b) = awaiting b"
  "resolves (stopHeartbeating b) = resolves b"
  "microtasks (stopHeartbeating b) = microtasks b"
  "parked (stopHeartbeating b) = parked b"
  "offlineSendQueue (stopHeartbeating b) = offlineSendQueue b"
  "bucket (stopHeartbeating b) = bucket b"
  by (simp_all add: stopHeartbeating_def clear_timer_def split: option.split)

text \<open>
  C1, as stated, fails in its fatal class: the error of the close handler does not
  fail the \<open>identify\<close> or \<open>resume\<close> in flight. On the shard in the middle of
  \<open>identify\<close> (call 7), a close with \<open>AuthenticationFailed\<close> makes the handler throw; the
  error ends as an unhandled rejection of the \<open>onclose\<close> handler, while the promise of
  \<open>identify\<close> is still pending and nothing is scheduled to run.
\<close>

theorem fatal_close_counterexample:
  "fst (handleClose \<lparr>code = AuthenticationFailed, reason = ''bad token''\<rparr> identifying_shard)
     = Some (Error ''bad token'')
   \<and> awaiting identifying_shard = [Some (Finish 7)]
   \<and> resolves identifying_shard READY = Some (IdentifyReady 0)
   \<and> awaiting (exec 2 (SocketClose 0 \<lparr>code = AuthenticationFailed, reason = ''bad token''\<rparr>) identifying_shard)
       = [Some (Finish 7)]
   \<and> microtasks (exec 2 (SocketClose 0 \<lparr>code = AuthenticationFailed, reason = ''bad token''\<rparr>) identifying_shard)
       = []
   \<and> trace (exec 2 (SocketClose 0 \<lparr>code = AuthenticationFailed, reason = ''bad token''\<rparr>) identifying_shard)
       = trace identifying_shard @ [Callback EvDisconnected, Unhandled (Error ''bad token'')]"
  by (simp add: identifying_shard_def shard_defs)

text \<open>
  C1, amended: on a close code that requires a new identify the handler sets the state
  to \<open>Identifying\<close> and calls \<open>identify\<close> (after which the state is \<open>Identifying\<close>); on a
  fatal code it sets the state to \<open>Offline\<close> and throws an error with the close reason
  (or the default text), and leaves the promises of \<open>identify\<close> and \<open>resume\<close>, the
  stored resolvers and the ready queue as they were; on every other code outside the
  testing and graceful classes it sets the state to \<open>Resuming\<close> and calls \<open>resume\<close>.
\<close>

theorem handleClose_classes:
  "(code ev \<in> {UnknownOpcode, NotAuthenticated, InvalidSeq, RateLimited, SessionTimedOut} \<longrightarrow>
      handleClose ev sh
        = (None, identify Discard (emit EvDisconnected ((stopHeartbeating sh)\<lparr>state := Identifying\<rparr>)))
      \<and> state (snd (handleClose ev sh)) = Identifying)
   \<and> (code ev \<in> {AuthenticationFailed, InvalidShard, ShardingRequired, InvalidApiVersion,
                   InvalidIntents, DisallowedIntents} \<longrightarrow>
      fst (handleClose ev sh)
        = Some (Error (if reason ev = [] then ''Discord gave no reason! GG! You broke Discord!''
                       else reason ev))
      \<and> state (snd (handleClose ev sh)) = Offline
      \<and> awaiting (snd (handleClose ev sh)) = awaiting sh
      \<and> resolves (snd (handleClose ev sh)) = resolves sh
      \<and> microtasks (snd (handleClose ev sh)) = microtasks sh)
   \<and> (code ev \<notin> {TestingFinished, Shutdown, ReIdentifying, Resharded, ResumeClosingOldConnection,
                   ZombiedConnection, UnknownOpcode, NotAuthenticated, InvalidSeq, RateLimited,
                   SessionTimedOut, AuthenticationFailed, InvalidShard, ShardingRequired,
                   InvalidApiVersion, InvalidIntents, DisallowedIntents} \<longrightarrow>
      handleClose ev sh
        = (None, resume Discard (emit EvDisconnected ((stopHeartbeating sh)\<lparr>state := Resuming\<rparr>))))"
  by (cases "code ev")
     (simp_all add: handleClose_def Let_def state_identify emit_def stopHeartbeating_fields)

theorem handleClose_classes_witness:
  "state (snd (handleClose \<lparr>code = InvalidSeq, reason = []\<rparr> example_shard)) = Identifying
   \<and> fst (handleClose \<lparr>code = DisallowedIntents, reason = []\<rparr> example_shard)
       = Some (Error ''Discord gave no reason! GG! You broke Discord!'')
   \<and> state (snd (handleClose \<lparr>code = DisallowedIntents, reason = []\<rparr> example_shard)) = Offline
   \<and> handleClose \<lparr>code = OtherCode 1006, reason = []\<rparr> example_shard
       = (None, resume Discard (emit EvDisconnected ((stopHeartbeating example_shard)\<lparr>state := Resuming\<rparr>)))"
  using handleClose_classes [of "\<lparr>code = InvalidSeq, reason = []\<rparr>" example_shard]
        handleClose_classes [of "\<lparr>code = DisallowedIntents, reason = []\<rparr>" example_shard]
        handleClose_classes [of "\<lparr>code = OtherCode 1006, reason = []\<rparr>" example_shard]
  by (simp add: state_identify)

text \<open>
  C7, as stated, fails: on \<open>TestingFinished\<close> the \<open>disconnected\<close> callback is called.
\<close>

theorem testing_close_counterexample:
  "trace (snd (handleClose \<lparr>code = TestingFinished, reason = []\<rparr> example_shard))
     = [Callback EvDisconnected]"
  by (simp add: shard_defs)

text \<open>
  C7, amended: on every close event, \<open>TestingFinished\<close> included, the first thing the
  handler does to the outside is to call the \<open>disconnected\<close> callback (if one is
  configured).
\<close>

theorem handleClose_disconnected:
  assumes "EvDisconnected \<in> events sh"
  shows "\<exists>rest. trace (snd (handleClose ev sh)) = trace sh @ Callback EvDisconnected # rest"
proof -
  have "prefix (trace sh @ [Callback EvDisconnected]) (trace (snd (handleClose ev sh)))"
    using assms
    by (cases "code ev")
       (simp_all add: handleClose_def Let_def emit_def stopHeartbeating_fields
          trace_identify trace_resume)
  then show ?thesis by (auto simp: prefix_def)
qed

theorem handleClose_disconnected_witness:
  "EvDisconnected \<in> events example_shard
   \<and> (\<exists>rest. trace (snd (handleClose \<lparr>code = TestingFinished, reason = []\<rparr> example_shard))
               = trace example_shard @ Callback EvDisconnected # rest)"
  using handleClose_disconnected [of example_shard "\<lparr>code = TestingFinished, reason = []\<rparr>"]
  by (simp add: example_shard_def new_shard_def)

section \<open>Shutdown\<close>

text \<open>
  C6, as stated, fails: after \<open>shutdown\<close> (and the close event that follows) the sender
  parked in the offline queue, the promise of \<open>identify\<close> with its resolvers and the
  waiter of the bucket are all still pending; the trace shows no resolver called and
  no promise settled but that of \<open>shutdown\<close> itself (call 3).
\<close>

theorem shutdown_counterexample:
  "state shut_down_shard = Disconnected
   \<and> offlineSendQueue shut_down_shard = [0]
   \<and> parked shut_down_shard = [Some (SendOnline (PresenceUpdatePayload [] ''online'') False (Finish 2))]
   \<and> awaiting shut_down_shard = [Some (Finish 7)]
   \<and> resolves shut_down_shard READY = Some (IdentifyReady 0)
   \<and> waiting (bucket shut_down_shard)
       = [SendAcquired (IdentifyPayload ''Bot T'' False [] 513 (0, 1) None) True Discard]
   \<and> microtasks shut_down_shard = []
   \<and> trace shut_down_shard
       = [Callback EvIdentifying, Callback EvConnecting,
          NewWebSocket 0 (WsUrl ''wss://gateway.discord.gg'' (Some (10, ''json''))),
          Callback EvConnected, WsClose 0 Shutdown ''Shard shutting down.'',
          Settled 3, Callback EvDisconnected]"
  by (simp add: shut_down_shard_def shard_defs)

text \<open>
  C6, amended: \<open>shutdown\<close> closes the socket with \<open>Shutdown\<close> if it is open and sets the
  state to \<open>Offline\<close>; it wakes nobody: the resolvers, the promises of \<open>identify\<close> and
  \<open>resume\<close>, the offline queue and its waiters, the waiters of the bucket and the ready
  queue are as before.
\<close>

theorem shutdown_wakes_nothing:
  "state (shutdown sh) = Offline
   \<and> resolves (shutdown sh) = resolves sh
   \<and> awaiting (shutdown sh) = awaiting sh
   \<and> offlineSendQueue (shutdown sh) = offlineSendQueue sh
   \<and> parked (shutdown sh) = parked sh
   \<and> waiting (bucket (shutdown sh)) = waiting (bucket sh)
   \<and> microtasks (shutdown sh) = microtasks sh
   \<and> trace (shutdown sh)
       = trace sh @ (case socket sh of
                       None \<Rightarrow> []
                     | Some j \<Rightarrow> if isOpen sh then [WsClose j Shutdown ''Shard shutting down.''] else [])"
  by (simp add: shutdown_def close_def ws_close_def record_action_def set_readyState_def
        isOpen_def split: option.split)

section \<open>The sequence number\<close>

lemma sequence_helpers:
  "previousSequenceNumber (emit e b) = previousSequenceNumber b"
  "previousSequenceNumber (settle key b) = previousSequenceNumber b"
  "previousSequenceNumber (drain b) = previousSequenceNumber b"
proof -
  show "previousSequenceNumber (emit e b) = previousSequenceNumber b"
    by (simp add: emit_def)
  show "previousSequenceNumber (settle key b) = previousSequenceNumber b"
    by (simp add: settle_def run_resolver_def resolve_awaiting_def emit_def Let_def
          split: option.split resolver.split)
  have "previousSequenceNumber
          (fold (\<lambda>r c. resolve_parked r (record_action (OfflineResolve r) c)) q b)
        = previousSequenceNumber b" for q
    by (induction q arbitrary: b)
       (simp_all add: resolve_parked_def record_action_def split: option.split)
  then show "previousSequenceNumber (drain b) = previousSequenceNumber b"
    by (simp add: drain_def)
qed

text \<open>The tail of the handler stores the sequence number of the packet if it has one.\<close>

lemma packet_tail_sequence:
  "previousSequenceNumber (packet_tail p b)
     = (case pkt_s p of None \<Rightarrow> previousSequenceNumber b | Some n \<Rightarrow> Some n)"
  by (simp add: packet_tail_def Let_def sequence_helpers
        split: GatewayEventName.split option.split)

lemma sequence_switch_helpers:
  "previousSequenceNumber (socket_send m b) = previousSequenceNumber b"
  "previousSequenceNumber (startHeartbeating i r b) = previousSequenceNumber b"
  "previousSequenceNumber (packet_prelude now b) = previousSequenceNumber b"
  "isOpen (packet_prelude now b) = isOpen b"
  by (simp_all add: socket_send_def record_action_def startHeartbeating_def packet_prelude_def
        isOpen_def readyStateOf_def Let_def split: option.split)

text \<open>
  Every packet that is handled through to the tail at once stores its sequence number:
  all but Reconnect and InvalidSession, whose tail runs later, and a server heartbeat
  that finds the socket not open.
\<close>

lemma handleDiscordPacket_sequence:
  assumes "pkt_op p \<noteq> Reconnect" and "\<And>resumable. pkt_op p \<noteq> InvalidSession resumable"
    and "pkt_op p = Heartbeat \<Longrightarrow> isOpen sh"
  shows "previousSequenceNumber (handleDiscordPacket now r p sh)
           = (case pkt_s p of None \<Rightarrow> previousSequenceNumber sh | Some n \<Rightarrow> Some n)"
proof (cases "pkt_op p")
  case Reconnect
  with assms(1) show ?thesis by simp
next
  case (InvalidSession resumable)
  with assms(2) [of resumable] show ?thesis by simp
next
  case Heartbeat
  with assms(3) show ?thesis
    by (simp add: handleDiscordPacket_def packet_switch_def packet_tail_sequence
          sequence_helpers sequence_switch_helpers split: option.split)
qed (simp_all add: handleDiscordPacket_def packet_switch_def packet_tail_sequence
       sequence_helpers sequence_switch_helpers Let_def split: option.split)

text \<open>
  C3 at the failing input: a server heartbeat (opcode \<open>Heartbeat\<close>) that carries
  \<open>s = 5\<close> arrives on the old socket while the shard is identifying again and its
  current socket is not open. The handler returns from inside the switch:
  \<open>previousSequenceNumber\<close> stays \<open>null\<close> and the \<open>message\<close> callback is not called.
\<close>

theorem heartbeat_request_skips_sequence:
  "isOpen reidentifying_shard = False
   \<and> previousSequenceNumber reidentifying_shard = None
   \<and> previousSequenceNumber
       (exec 2 (SocketMessage 0
                  (StringData \<lparr>pkt_op = Heartbeat, pkt_t = T_null, pkt_s = Some 5\<rparr>) 100 (Double 0 0))
          reidentifying_shard) = None
   \<and> trace (exec 2 (SocketMessage 0
                  (StringData \<lparr>pkt_op = Heartbeat, pkt_t = T_null, pkt_s = Some 5\<rparr>) 100 (Double 0 0))
          reidentifying_shard) = trace reidentifying_shard"
  by (simp add: reidentifying_shard_def shard_defs)

section \<open>What no event undoes\<close>

lemma keeps_packet_prelude:
  "keeps j (sh\<lparr>heart := (heart sh)\<lparr>acknowledged := True\<rparr>\<rparr>) (packet_prelude now sh)"
  by (simp add: keeps_def packet_prelude_def Let_def split: option.split)

lemma keeps_handleMessage:
  "keeps j (sh\<lparr>heart := (heart sh)\<lparr>acknowledged := True\<rparr>\<rparr>) (handleMessage now r d sh)"
proof (cases d)
  case (StringData p)
  then show ?thesis
    by (simp add: handleMessage_def handleDiscordPacket_def keeps_packet_switch keeps_packet_prelude)
next
  case (BlobData p)
  then show ?thesis
    by (simp add: handleMessage_def handleDiscordPacket_def keeps_packet_switch keeps_packet_prelude)
       (simp add: keeps_def)
next
  case OtherData
  then show ?thesis by (simp add: handleMessage_def keeps_def)
qed

lemma keeps_exec:
  assumes "\<not> is_message e" and "e \<noteq> SocketOpen j"
  shows "keeps j sh (exec gm e sh)"
proof (cases e)
  case (SocketOpen i)
  with assms show ?thesis
    by (simp add: exec_def keeps_refl keeps_onopen keeps_set_readyState)
next
  case (SocketClose i ev)
  have "keeps j sh (snd (handleClose ev (set_readyState i CLOSED sh)))"
    by (simp add: keeps_handleClose keeps_set_readyState keeps_refl)
  with SocketClose show ?thesis
    by (auto simp: exec_def keeps_refl keeps_record_action split: prod.split option.split)
next
  case (SocketMessage i d now r)
  with assms show ?thesis by simp
next
  case RunMicrotask
  then show ?thesis
    by (simp add: exec_def keeps_refl keeps_run_kont keeps_other_fields split: list.split)
next
  case (CallRequestMembers n g opts now)
  have "keeps j sh (snd (requestMembers gm now g opts (Finish n) sh))"
    by (simp add: keeps_requestMembers keeps_refl)
  with CallRequestMembers show ?thesis
    by (auto simp: exec_def keeps_refl keeps_record_action split: prod.split option.split)
qed (simp_all add: exec_def keeps_refl keeps_record_action keeps_fire_timer keeps_connect
       keeps_identify keeps_resume keeps_send keeps_shutdown keeps_close keeps_commands
       keeps_other_fields split: list.split)

lemma exec_queue: "sublist (offlineSendQueue sh) (offlineSendQueue (exec gm e sh))"
proof (cases e)
  case (SocketOpen i)
  have "keeps (Suc i) sh (exec gm (SocketOpen i) sh)"
    by (rule keeps_exec) simp_all
  with SocketOpen show ?thesis by (simp add: keeps_def)
next
  case (SocketMessage i d now r)
  then show ?thesis
    using keeps_handleMessage [of 0 sh now r d]
    by (simp add: exec_def keeps_def)
qed (use keeps_exec [of e 0 sh gm] in \<open>simp_all add: keeps_def\<close>)

lemma run_queue: "sublist (offlineSendQueue sh) (offlineSendQueue (run gm evs sh))"
proof (induction evs arbitrary: sh)
  case Nil
  show ?case by simp
next
  case (Cons e evs)
  have "sublist (offlineSendQueue sh) (offlineSendQueue (exec gm e sh))"
    by (rule exec_queue)
  also have "sublist (offlineSendQueue (exec gm e sh)) (offlineSendQueue (run gm evs (exec gm e sh)))"
    by (rule Cons.IH)
  finally show ?case by simp
qed

section \<open>Connecting\<close>

lemma close_fields:
  "length (sockets (close c r b)) = length (sockets b)"
  "socket (close c r b) = socket b"
  "state (close c r b) = state b"
  "microtasks (close c r b) = microtasks b"
  "parked (close c r b) = parked b"
  "awaiting (close c r b) = awaiting b"
  "bucket (close c r b) = bucket b"
  "events (close c r b) = events b"
  "connection (close c r b) = connection b"
  "sessionId (close c r b) = sessionId b"
  "previousSequenceNumber (close c r b) = previousSequenceNumber b"
  "shard_id (close c r b) = shard_id b"
  "runtime (close c r b) = runtime b"
  "resumeGatewayUrl (close c r b) = resumeGatewayUrl b"
  by (simp_all add: close_def ws_close_def record_action_def set_readyState_def split: option.split)

text \<open>
  What \<open>connect\<close> builds depends on the runtime, the configuration, the gateway to
  resume at and on whether the state is \<open>Resuming\<close>, and on nothing else.
\<close>

lemma connect_target_cong:
  assumes "runtime a = runtime b" and "connection a = connection b"
    and "resumeGatewayUrl a = resumeGatewayUrl b"
    and "(state a = Resuming) = (state b = Resuming)"
  shows "connect_target a = connect_target b"
  unfolding connect_target_def connect_url_def assms(1-3)
  by (simp add: assms(4) cong: if_cong option.case_cong sum.case_cong)

lemma connect_begin_fields:
  "sockets (connect_begin b) = sockets b"
  "socket (connect_begin b) = socket b"
  "microtasks (connect_begin b) = microtasks b"
  "parked (connect_begin b) = parked b"
  "awaiting (connect_begin b) = awaiting b"
  "bucket (connect_begin b) = bucket b"
  "events (connect_begin b) = events b"
  "connection (connect_begin b) = connection b"
  "sessionId (connect_begin b) = sessionId b"
  "previousSequenceNumber (connect_begin b) = previousSequenceNumber b"
  "shard_id (connect_begin b) = shard_id b"
  "trace (connect_begin b) = trace b @ (if EvConnecting \<in> events b then [Callback EvConnecting] else [])"
  by (simp_all add: connect_begin_def emit_def Let_def)

lemma connect_target_begin: "connect_target (connect_begin b) = connect_target b"
  by (rule connect_target_cong) (auto simp: connect_begin_def emit_def Let_def)

lemma connect_Inr:
  assumes "connect_target b = Inr t"
  shows "socket (connect k b) = Some (length (sockets b))"
    and "length (sockets (connect k b)) = Suc (length (sockets b))"
    and "pending_open (connect k b) (length (sockets b)) = Some k"
    and "trace (connect k b)
           = trace b @ (if EvConnecting \<in> events b then [Callback EvConnecting] else [])
               @ [NewWebSocket (length (sockets b)) t]"
  using assms
  by (simp_all add: connect_def connect_target_begin connect_begin_fields Let_def pending_open_def
        record_action_def)

lemma connect_Inl:
  assumes "connect_target b = Inl e"
  shows "sockets (connect k b) = sockets b"
    and "socket (connect k b) = socket b"
    and "trace (connect k b)
           = trace b @ (if EvConnecting \<in> events b then [Callback EvConnecting] else [])
               @ [rejection k e]"
  using assms
  by (simp_all add: connect_def connect_target_begin connect_begin_fields Let_def reject_def
        record_action_def)

lemma connect_same:
  "microtasks (connect k b) = microtasks b"
  "parked (connect k b) = parked b"
  "awaiting (connect k b) = awaiting b"
  "bucket (connect k b) = bucket b"
  "events (connect k b) = events b"
  "connection (connect k b) = connection b"
  "sessionId (connect k b) = sessionId b"
  "previousSequenceNumber (connect k b) = previousSequenceNumber b"
  "shard_id (connect k b) = shard_id b"
  by (simp_all add: connect_def connect_begin_fields Let_def reject_def record_action_def
        split: sum.split)

text \<open>The shard in which \<open>identify\<close> calls \<open>connect\<close>.\<close>

lemma identify_entry:
  fixes b :: DiscordenoShard
  defines "x \<equiv> emit EvIdentifying
          ((if isOpen b
            then close ReIdentifying ''Re-identifying closure of old connection.''
                   (record_action ConsoleLog b)
            else b)\<lparr>state := Identifying\<rparr>)"
  shows "identify k b = connect (AfterConnectIdentify k) x"
    and "connect_target x = connect_target (b\<lparr>state := Identifying\<rparr>)"
    and "length (sockets x) = length (sockets b)"
    and "socket x = socket b"
    and "microtasks x = microtasks b"
    and "parked x = parked b"
    and "awaiting x = awaiting b"
    and "bucket x = bucket b"
    and "events x = events b"
    and "connection x = connection b"
    and "sessionId x = sessionId b"
    and "previousSequenceNumber x = previousSequenceNumber b"
    and "shard_id x = shard_id b"
proof -
  show "identify k b = connect (AfterConnectIdentify k) x"
    unfolding x_def by (rule identify_connects)
  show "connect_target x = connect_target (b\<lparr>state := Identifying\<rparr>)"
    by (rule connect_target_cong) (simp_all add: x_def emit_def close_fields record_action_def)
  show "length (sockets x) = length (sockets b)" "socket x = socket b"
       "microtasks x = microtasks b" "parked x = parked b" "awaiting x = awaiting b"
       "bucket x = bucket b" "events x = events b" "connection x = connection b"
       "sessionId x = sessionId b" "previousSequenceNumber x = previousSequenceNumber b"
       "shard_id x = shard_id b"
    by (simp_all add: x_def emit_def close_fields record_action_def)
qed

lemma identify_Inr:
  assumes "connect_target (b\<lparr>state := Identifying\<rparr>) = Inr t"
  shows "socket (identify k b) = Some (length (sockets b))"
    and "pending_open (identify k b) (length (sockets b)) = Some (AfterConnectIdentify k)"
    and "last (trace (identify k b)) = NewWebSocket (length (sockets b)) t"
proof -
  let ?x = "emit EvIdentifying
          ((if isOpen b
            then close ReIdentifying ''Re-identifying closure of old connection.''
                   (record_action ConsoleLog b)
            else b)\<lparr>state := Identifying\<rparr>)"
  from assms have "connect_target ?x = Inr t"
    by (simp only: identify_entry(2))
  from connect_Inr [OF this, of "AfterConnectIdentify k"]
  show "socket (identify k b) = Some (length (sockets b))"
    and "pending_open (identify k b) (length (sockets b)) = Some (AfterConnectIdentify k)"
    and "last (trace (identify k b)) = NewWebSocket (length (sockets b)) t"
    by (simp_all add: identify_entry(1) identify_entry(3))
qed

lemma identify_Inl:
  assumes "connect_target (b\<lparr>state := Identifying\<rparr>) = Inl e"
  shows "length (sockets (identify k b)) = length (sockets b)"
    and "socket (identify k b) = socket b"
    and "last (trace (identify k b)) = rejection k e"
proof -
  let ?x = "emit EvIdentifying
          ((if isOpen b
            then close ReIdentifying ''Re-identifying closure of old connection.''
                   (record_action ConsoleLog b)
            else b)\<lparr>state := Identifying\<rparr>)"
  from assms have "connect_target ?x = Inl e"
    by (simp only: identify_entry(2))
  from connect_Inl [OF this, of "AfterConnectIdentify k"]
  show "length (sockets (identify k b)) = length (sockets b)"
    and "socket (identify k b) = socket b"
    and "last (trace (identify k b)) = rejection k e"
    by (simp_all add: identify_entry(1) identify_entry(3) identify_entry(4))
qed

lemma identify_same:
  "microtasks (identify k b) = microtasks b"
  "parked (identify k b) = parked b"
  "awaiting (identify k b) = awaiting b"
  "bucket (identify k b) = bucket b"
  "events (identify k b) = events b"
  "connection (identify k b) = connection b"
  "sessionId (identify k b) = sessionId b"
  "previousSequenceNumber (identify k b) = previousSequenceNumber b"
  "shard_id (identify k b) = shard_id b"
  by (simp_all add: identify_entry connect_same)

text \<open>The shard in which \<open>resume\<close> calls \<open>identify\<close> or \<open>connect\<close>.\<close>

lemma resume_entry:
  fixes b :: DiscordenoShard
  defines "x \<equiv> (if isOpen b
                then close ResumeClosingOldConnection
                       ''Reconnecting the shard, closing old connection.'' b
                else b)"
  shows "falsy_string (sessionId b) \<Longrightarrow> resume k b = identify k x"
    and "\<not> falsy_string (sessionId b) \<Longrightarrow> resume k b = connect (AfterConnectResume k) (x\<lparr>state := Resuming\<rparr>)"
    and "connect_target (x\<lparr>state := s\<rparr>) = connect_target (b\<lparr>state := s\<rparr>)"
    and "length (sockets x) = length (sockets b)"
    and "socket x = socket b"
    and "microtasks x = microtasks b"
    and "parked x = parked b"
    and "awaiting x = awaiting b"
    and "bucket x = bucket b"
    and "events x = events b"
    and "connection x = connection b"
    and "sessionId x = sessionId b"
    and "previousSequenceNumber x = previousSequenceNumber b"
    and "shard_id x = shard_id b"
proof -
  show "falsy_string (sessionId b) \<Longrightarrow> resume k b = identify k x"
    unfolding x_def by (simp add: resume_connects)
  show "\<not> falsy_string (sessionId b) \<Longrightarrow> resume k b = connect (AfterConnectResume k) (x\<lparr>state := Resuming\<rparr>)"
    unfolding x_def by (simp add: resume_connects)
  show "connect_target (x\<lparr>state := s\<rparr>) = connect_target (b\<lparr>state := s\<rparr>)"
    by (rule connect_target_cong) (simp_all add: x_def close_fields)
  show "length (sockets x) = length (sockets b)" "socket x = socket b"
       "microtasks x = microtasks b" "parked x = parked b" "awaiting x = awaiting b"
       "bucket x = bucket b" "events x = events b" "connection x = connection b"
       "sessionId x = sessionId b" "previousSequenceNumber x = previousSequenceNumber b"
       "shard_id x = shard_id b"
    by (simp_all add: x_def close_fields)
qed

lemma resume_Inr:
  assumes "connect_target (b\<lparr>state := (if falsy_string (sessionId b) then Identifying else Resuming)\<rparr>) = Inr t"
  shows "socket (resume k b) = Some (length (sockets b))"
    and "pending_open (resume k b) (length (sockets b))
           = Some (if falsy_string (sessionId b) then AfterConnectIdentify k else AfterConnectResume k)"
    and "last (trace (resume k b)) = NewWebSocket (length (sockets b)) t"
proof -
  let ?x = "if isOpen b
            then close ResumeClosingOldConnection
                   ''Reconnecting the shard, closing old connection.'' b
            else b"
  show "socket (resume k b) = Some (length (sockets b))"
    and "pending_open (resume k b) (length (sockets b))
           = Some (if falsy_string (sessionId b) then AfterConnectIdentify k else AfterConnectResume k)"
    and "last (trace (resume k b)) = NewWebSocket (length (sockets b)) t"
  proof (atomize (full), cases "falsy_string (sessionId b)")
    case True
    with assms have "connect_target (?x\<lparr>state := Identifying\<rparr>) = Inr t"
      by (simp only: resume_entry(3) if_True)
    from identify_Inr [OF this, of k] True
    show "socket (resume k b) = Some (length (sockets b))
          \<and> pending_open (resume k b) (length (sockets b))
             = Some (if falsy_string (sessionId b) then AfterConnectIdentify k else AfterConnectResume k)
          \<and> last (trace (resume k b)) = NewWebSocket (length (sockets b)) t"
      by (simp add: resume_entry(1) resume_entry(4))
  next
    case False
    with assms have "connect_target (?x\<lparr>state := Resuming\<rparr>) = Inr t"
      by (simp only: resume_entry(3) if_False)
    from connect_Inr [OF this, of "AfterConnectResume k"] False
    show "socket (resume k b) = Some (length (sockets b))
          \<and> pending_open (resume k b) (length (sockets b))
             = Some (if falsy_string (sessionId b) then AfterConnectIdentify k else AfterConnectResume k)
          \<and> last (trace (resume k b)) = NewWebSocket (length (sockets b)) t"
      by (simp add: resume_entry(2) resume_entry(4))
  qed
qed

lemma resume_Inl:
  assumes "connect_target (b\<lparr>state := (if falsy_string (sessionId b) then Identifying else Resuming)\<rparr>) = Inl e"
  shows "length (sockets (resume k b)) = length (sockets b)"
    and "socket (resume k b) = socket b"
    and "last (trace (resume k b)) = rejection k e"
proof -
  let ?x = "if isOpen b
            then close ResumeClosingOldConnection
                   ''Reconnecting the shard, closing old connection.'' b
            else b"
  show "length (sockets (resume k b)) = length (sockets b)"
    and "socket (resume k b) = socket b"
    and "last (trace (resume k b)) = rejection k e"
  proof (atomize (full), cases "falsy_string (sessionId b)")
    case True
    with assms have "connect_target (?x\<lparr>state := Identifying\<rparr>) = Inl e"
      by (simp only: resume_entry(3) if_True)
    from identify_Inl [OF this, of k] True
    show "length (sockets (resume k b)) = length (sockets b)
          \<and> socket (resume k b) = socket b
          \<and> last (trace (resume k b)) = rejection k e"
      by (simp add: resume_entry(1) resume_entry(4) resume_entry(5))
  next
    case False
    with assms have "connect_target (?x\<lparr>state := Resuming\<rparr>) = Inl e"
      by (simp only: resume_entry(3) if_False)
    from connect_Inl [OF this, of "AfterConnectResume k"] False
    show "length (sockets (resume k b)) = length (sockets b)
          \<and> socket (resume k b) = socket b
          \<and> last (trace (resume k b)) = rejection k e"
      by (simp add: resume_entry(2) resume_entry(4) resume_entry(5))
  qed
qed

lemma resume_same:
  "microtasks (resume k b) = microtasks b"
  "parked (resume k b) = parked b"
  "awaiting (resume k b) = awaiting b"
  "bucket (resume k b) = bucket b"
  "events (resume k b) = events b"
  "connection (resume k b) = connection b"
  "sessionId (resume k b) = sessionId b"
  "previousSequenceNumber (resume k b) = previousSequenceNumber b"
  "shard_id (resume k b) = shard_id b"
  by (cases "falsy_string (sessionId b)";
      simp add: resume_entry identify_same connect_same)+

section \<open>The offline queue\<close>

lemma offline_resolved_append:
  "offline_resolved (xs @ ys) = offline_resolved xs @ offline_resolved ys"
  by (induction xs rule: offline_resolved.induct) simp_all

lemma offline_resolved_map: "offline_resolved (map OfflineResolve q) = q"
  by (induction q) simp_all

lemma fold_resolve_queue:
  "offlineSendQueue (fold (\<lambda>r c. resolve_parked r (record_action (OfflineResolve r) c)) q b)
     = offlineSendQueue b"
  by (induction q arbitrary: b)
     (simp_all add: resolve_parked_def record_action_def split: option.split)

lemma fold_resolve_trace:
  "trace (fold (\<lambda>r c. resolve_parked r (record_action (OfflineResolve r) c)) q b)
     = trace b @ map OfflineResolve q"
  by (induction q arbitrary: b)
     (simp_all add: resolve_parked_def record_action_def split: option.split)

lemma drain_queue: "offlineSendQueue (drain b) = offlineSendQueue b"
  by (simp add: drain_def fold_resolve_queue)

lemma drain_trace: "trace (drain b) = trace b @ map OfflineResolve (offlineSendQueue b)"
  by (simp add: drain_def fold_resolve_trace)

lemma settle_queue: "offlineSendQueue (settle key b) = offlineSendQueue b"
  by (simp add: settle_def run_resolver_def resolve_awaiting_def emit_def Let_def
        split: option.split resolver.split)

lemma settle_resolved: "offline_resolved (trace (settle key b)) = offline_resolved (trace b)"
  by (simp add: settle_def run_resolver_def resolve_awaiting_def emit_def Let_def
        offline_resolved_append split: option.split resolver.split)

lemma emit_queue: "offlineSendQueue (emit e b) = offlineSendQueue b"
  by (simp add: emit_def)

lemma emit_resolved: "offline_resolved (trace (emit e b)) = offline_resolved (trace b)"
  by (simp add: emit_def offline_resolved_append)

lemma packet_tail_drains:
  assumes "pkt_t p = T_RESUMED \<or> pkt_t p = T_READY session_id resume_gateway_url"
  shows "offlineSendQueue (packet_tail p b) = offlineSendQueue b
         \<and> offline_resolved (trace (packet_tail p b)) = offline_resolved (trace b) @ offlineSendQueue b"
  using assms
  by (auto simp: packet_tail_def Let_def emit_queue emit_resolved settle_queue settle_resolved
        drain_queue drain_trace offline_resolved_append offline_resolved_map
        split: option.split)

text \<open>
  C9: the drain on \<open>READY\<close> or \<open>RESUMED\<close> calls every stored resolver in order and removes
  none. Whatever happens to the shard (any events \<open>evs\<close>), the queue it had is still a
  contiguous part of its queue, so the queue is never emptied and only grows; and the
  tail of a \<open>READY\<close> or \<open>RESUMED\<close> packet, whenever it runs, leaves the queue as it is and
  calls every resolver in it, in order, the ones that earlier drains called included.
\<close>

theorem offline_queue_never_emptied:
  "sublist (offlineSendQueue sh) (offlineSendQueue (run gm evs sh))
   \<and> (pkt_t p = T_RESUMED \<or> pkt_t p = T_READY session_id resume_gateway_url \<longrightarrow>
        offlineSendQueue (packet_tail p (run gm evs sh)) = offlineSendQueue (run gm evs sh)
        \<and> offline_resolved (trace (packet_tail p (run gm evs sh)))
            = offline_resolved (trace (run gm evs sh)) @ offlineSendQueue (run gm evs sh))"
  using run_queue [of sh gm evs] packet_tail_drains [of p session_id resume_gateway_url "run gm evs sh"]
  by blast

lemma queued_shard_eval:
  "offlineSendQueue queued_shard = [1, 0]" "trace queued_shard = []"
  by (simp_all add: queued_shard_def shard_defs)

theorem offline_queue_never_emptied_witness:
  "offlineSendQueue queued_shard = [1, 0]
   \<and> sublist [1, 0]
        (offlineSendQueue
           (run 2 [SocketMessage 0 (StringData \<lparr>pkt_op = Dispatch, pkt_t = T_READY ''S'' ''wss://r'', pkt_s = Some 1\<rparr>) 0 (Double 0 0)]
              queued_shard))
   \<and> offlineSendQueue (packet_tail \<lparr>pkt_op = Dispatch, pkt_t = T_RESUMED, pkt_s = Some 2\<rparr> queued_shard)
       = [1, 0]
   \<and> offline_resolved (trace (packet_tail \<lparr>pkt_op = Dispatch, pkt_t = T_RESUMED, pkt_s = Some 2\<rparr> queued_shard))
       = [1, 0]
   \<and> offlineSendQueue
        (run 2 [CallConnect 9,
                SocketMessage 0 (StringData \<lparr>pkt_op = Dispatch, pkt_t = T_READY ''S'' ''wss://r'', pkt_s = Some 1\<rparr>) 0 (Double 0 0)]
           queued_shard) = [1, 0]
   \<and> offline_resolved
        (trace
           (run 2 [CallConnect 9,
                   SocketMessage 0 (StringData \<lparr>pkt_op = Dispatch, pkt_t = T_READY ''S'' ''wss://r'', pkt_s = Some 1\<rparr>) 0 (Double 0 0)]
              queued_shard)) = [1, 0]
   \<and> offline_resolved
        (trace
           (packet_tail \<lparr>pkt_op = Dispatch, pkt_t = T_RESUMED, pkt_s = Some 2\<rparr>
              (run 2 [CallConnect 9,
                      SocketMessage 0 (StringData \<lparr>pkt_op = Dispatch, pkt_t = T_READY ''S'' ''wss://r'', pkt_s = Some 1\<rparr>) 0 (Double 0 0)]
                 queued_shard))) = [1, 0, 1, 0]"
proof -
  let ?ready = "SocketMessage 0 (StringData \<lparr>pkt_op = Dispatch, pkt_t = T_READY ''S'' ''wss://r'', pkt_s = Some 1\<rparr>) 0 (Double 0 0)"
  let ?resumed = "\<lparr>pkt_op = Dispatch, pkt_t = T_RESUMED, pkt_s = Some 2\<rparr>"
  let ?c = "run 2 [CallConnect 9, ?ready] queued_shard"
  have 1: "offlineSendQueue queued_shard = [1, 0]
           \<and> sublist [1, 0] (offlineSendQueue (run 2 [?ready] queued_shard))
           \<and> offlineSendQueue (packet_tail ?resumed queued_shard) = [1, 0]
           \<and> offline_resolved (trace (packet_tail ?resumed queued_shard)) = [1, 0]"
    using offline_queue_never_emptied [of queued_shard 2 "[?ready]" ?resumed "[]" "[]"]
          offline_queue_never_emptied [of queued_shard 2 "[]" ?resumed "[]" "[]"]
    by (simp add: queued_shard_eval)
  have q: "offlineSendQueue ?c = [1, 0]"
    by (simp add: queued_shard_def shard_defs)
  have r: "offline_resolved (trace ?c) = [1, 0]"
    by (simp add: queued_shard_def shard_defs)
  have t: "pkt_t ?resumed = T_RESUMED \<or> pkt_t ?resumed = T_READY [] []"
    by simp
  from offline_queue_never_emptied [of queued_shard 2 "[CallConnect 9, ?ready]" ?resumed "[]" "[]"] t
  have "offline_resolved (trace (packet_tail ?resumed ?c))
          = offline_resolved (trace ?c) @ offlineSendQueue ?c"
    by blast
  hence 2: "offline_resolved (trace (packet_tail ?resumed ?c)) = [1, 0, 1, 0]"
    by (simp only: q r append.simps)
  from 1 q r 2 show ?thesis by blast
qed

section \<open>Waiting for the socket to open\<close>

lemma pending_open_exec:
  assumes "e \<noteq> SocketOpen j" and "pending_open sh j = Some \<kappa>"
  shows "pending_open (exec gm e sh) j = Some \<kappa>"
proof (cases "is_message e")
  case True
  then obtain i d now r where e: "e = SocketMessage i d now r"
    by (cases e) simp_all
  show ?thesis
    using assms(2) keeps_handleMessage [of j sh now r d]
    by (simp add: e exec_def keeps_def pending_open_def split: if_splits)
next
  case False
  then show ?thesis
    using assms keeps_exec [of e j sh gm]
    by (simp add: keeps_def pending_open_def split: if_splits)
qed

lemma pending_open_run:
  assumes "SocketOpen j \<notin> set evs" and "pending_open sh j = Some \<kappa>"
  shows "pending_open (run gm evs sh) j = Some \<kappa>"
  using assms
proof (induction evs arbitrary: sh)
  case Nil
  then show ?case by simp
next
  case (Cons e evs)
  from Cons.prems have "pending_open (exec gm e sh) j = Some \<kappa>"
    by (intro pending_open_exec) auto
  with Cons show ?case by simp
qed

lemma exec_SocketOpen:
  "exec gm (SocketOpen j) c = (if j < length (sockets c) then onopen j (set_readyState j OPEN c) else c)"
  by (simp add: exec_def)

text \<open>The open signal of a socket hands its waiter to the ready queue, once.\<close>

lemma open_resolves:
  assumes "pending_open c j = Some K"
  shows "microtasks (exec gm (SocketOpen j) c) = microtasks c @ [K]"
    and "pending_open (exec gm (SocketOpen j) c) j = None"
proof -
  from assms have j: "j < length (sockets c)" and K: "onopen_resolve (sockets c ! j) = Some K"
    by (simp_all add: pending_open_def split: if_splits)
  let ?c1 = "set_readyState j OPEN c"
  have 1: "j < length (sockets ?c1)" "onopen_resolve (sockets ?c1 ! j) = Some K"
          "microtasks ?c1 = microtasks c"
    using j K by (simp_all add: set_readyState_def)
  have "microtasks (onopen j ?c1) = microtasks ?c1 @ [K]"
    using 1(1,2) by (simp add: onopen_def resolve_open_def emit_def Let_def)
  with j 1(3) show "microtasks (exec gm (SocketOpen j) c) = microtasks c @ [K]"
    by (simp add: exec_SocketOpen)
  have "pending_open (onopen j ?c1) j = None"
    using 1(1,2) by (simp add: onopen_def resolve_open_def emit_def Let_def pending_open_def)
  with j show "pending_open (exec gm (SocketOpen j) c) j = None"
    by (simp add: exec_SocketOpen)
qed

text \<open>
  C10, as stated, fails: \<open>connect\<close> has a rejection path. It is an \<open>async\<close> method, so an
  error thrown by \<open>new URL\<close> or \<open>new WebSocket\<close> rejects its promise. On the shard whose
  configured URL is the empty string, \<open>connect\<close> (call 0) is rejected with the
  \<open>TypeError\<close> of \<open>new URL('')\<close>; on the shard with a session but without a gateway to
  resume at, \<open>resume\<close> (call 1), which awaits \<open>connect\<close>, is rejected with the same
  error. In both cases no socket is created and nothing is left waiting.
\<close>

theorem connect_rejects_counterexample:
  "url (connection misconfigured_shard) = []
   \<and> new_URL (runtime misconfigured_shard) [] = None
   \<and> trace (exec 2 (CallConnect 0) misconfigured_shard)
       = [Callback EvConnecting, Rejected 0 (InvalidURL [])]
   \<and> sockets (exec 2 (CallConnect 0) misconfigured_shard) = []
   \<and> sessionId stale_session_shard = Some ''S''
   \<and> resumeGatewayUrl stale_session_shard = []
   \<and> state (exec 2 (CallResume 1) stale_session_shard) = Resuming
   \<and> trace (exec 2 (CallResume 1) stale_session_shard)
       = [Callback EvConnecting, Rejected 1 (InvalidURL [])]
   \<and> sockets (exec 2 (CallResume 1) stale_session_shard) = []
   \<and> socket (exec 2 (CallResume 1) stale_session_shard) = None
   \<and> microtasks (exec 2 (CallResume 1) stale_session_shard) = []
   \<and> awaiting (exec 2 (CallResume 1) stale_session_shard) = []"
  by (simp add: misconfigured_shard_def stale_session_shard_def shard_defs)

text \<open>
  C10, amended: the promise of \<open>connect\<close> is rejected only if \<open>connect\<close> throws before it
  has a socket, that is, if \<open>new URL\<close> or \<open>new WebSocket\<close> throws; no socket is then
  stored, and an \<open>identify\<close> or a \<open>resume\<close> that awaits \<open>connect\<close> is rejected with the
  same error. Once \<open>connect\<close> has created its socket, its promise is resolved by the
  open signal of that socket and has no other way to settle: as long as the socket
  has not signalled \<open>open\<close>, and whatever else happens (errors and close events of
  that socket included), the caller of \<open>connect\<close> is still waiting, and so is the rest
  of an \<open>identify\<close> or a \<open>resume\<close> that awaits \<open>connect\<close>; the open signal then puts the
  caller in the ready queue, once.
\<close>

theorem connect_pending_until_open:
  assumes "SocketOpen (length (sockets sh)) \<notin> set evs"
  shows "(connect_target sh = Inr t \<longrightarrow>
            pending_open (run gm evs (connect \<kappa> sh)) (length (sockets sh)) = Some \<kappa>
            \<and> microtasks (exec gm (SocketOpen (length (sockets sh))) (run gm evs (connect \<kappa> sh)))
                = microtasks (run gm evs (connect \<kappa> sh)) @ [\<kappa>]
            \<and> pending_open (exec gm (SocketOpen (length (sockets sh))) (run gm evs (connect \<kappa> sh)))
                 (length (sockets sh)) = None)
         \<and> (connect_target sh = Inl e \<longrightarrow>
            trace (connect \<kappa> sh)
              = trace sh @ (if EvConnecting \<in> events sh then [Callback EvConnecting] else [])
                  @ [rejection \<kappa> e]
            \<and> sockets (connect \<kappa> sh) = sockets sh
            \<and> socket (connect \<kappa> sh) = socket sh)
         \<and> (connect_target (sh\<lparr>state := Identifying\<rparr>) = Inr t \<longrightarrow>
            pending_open (run gm evs (identify \<kappa> sh)) (length (sockets sh))
              = Some (AfterConnectIdentify \<kappa>))
         \<and> (connect_target (sh\<lparr>state := Identifying\<rparr>) = Inl e \<longrightarrow>
            last (trace (identify \<kappa> sh)) = rejection \<kappa> e
            \<and> length (sockets (identify \<kappa> sh)) = length (sockets sh)
            \<and> socket (identify \<kappa> sh) = socket sh)
         \<and> (connect_target
               (sh\<lparr>state := (if falsy_string (sessionId sh) then Identifying else Resuming)\<rparr>) = Inr t \<longrightarrow>
            pending_open (run gm evs (resume \<kappa> sh)) (length (sockets sh))
              = Some (if falsy_string (sessionId sh) then AfterConnectIdentify \<kappa>
                      else AfterConnectResume \<kappa>))
         \<and> (connect_target
               (sh\<lparr>state := (if falsy_string (sessionId sh) then Identifying else Resuming)\<rparr>) = Inl e \<longrightarrow>
            last (trace (resume \<kappa> sh)) = rejection \<kappa> e
            \<and> length (sockets (resume \<kappa> sh)) = length (sockets sh)
            \<and> socket (resume \<kappa> sh) = socket sh)"
proof (intro conjI impI)
  let ?j = "length (sockets sh)"
  assume t: "connect_target sh = Inr t"
  have p: "pending_open (run gm evs (connect \<kappa> sh)) ?j = Some \<kappa>"
    using assms connect_Inr(3) [OF t] by (rule pending_open_run)
  show "pending_open (run gm evs (connect \<kappa> sh)) ?j = Some \<kappa>" by (rule p)
  show "microtasks (exec gm (SocketOpen ?j) (run gm evs (connect \<kappa> sh)))
          = microtasks (run gm evs (connect \<kappa> sh)) @ [\<kappa>]"
    using p by (rule open_resolves(1))
  show "pending_open (exec gm (SocketOpen ?j) (run gm evs (connect \<kappa> sh))) ?j = None"
    using p by (rule open_resolves(2))
next
  assume e: "connect_target sh = Inl e"
  show "trace (connect \<kappa> sh)
          = trace sh @ (if EvConnecting \<in> events sh then [Callback EvConnecting] else [])
              @ [rejection \<kappa> e]"
    using e by (rule connect_Inl(3))
  show "sockets (connect \<kappa> sh) = sockets sh" using e by (rule connect_Inl(1))
  show "socket (connect \<kappa> sh) = socket sh" using e by (rule connect_Inl(2))
next
  assume t: "connect_target (sh\<lparr>state := Identifying\<rparr>) = Inr t"
  show "pending_open (run gm evs (identify \<kappa> sh)) (length (sockets sh))
          = Some (AfterConnectIdentify \<kappa>)"
    using assms identify_Inr(2) [OF t] by (rule pending_open_run)
next
  assume e: "connect_target (sh\<lparr>state := Identifying\<rparr>) = Inl e"
  show "last (trace (identify \<kappa> sh)) = rejection \<kappa> e" using e by (rule identify_Inl(3))
  show "length (sockets (identify \<kappa> sh)) = length (sockets sh)" using e by (rule identify_Inl(1))
  show "socket (identify \<kappa> sh) = socket sh" using e by (rule identify_Inl(2))
next
  assume t: "connect_target
               (sh\<lparr>state := (if falsy_string (sessionId sh) then Identifying else Resuming)\<rparr>) = Inr t"
  show "pending_open (run gm evs (resume \<kappa> sh)) (length (sockets sh))
          = Some (if falsy_string (sessionId sh) then AfterConnectIdentify \<kappa>
                  else AfterConnectResume \<kappa>)"
    using assms resume_Inr(2) [OF t] by (rule pending_open_run)
next
  assume e: "connect_target
               (sh\<lparr>state := (if falsy_string (sessionId sh) then Identifying else Resuming)\<rparr>) = Inl e"
  show "last (trace (resume \<kappa> sh)) = rejection \<kappa> e" using e by (rule resume_Inl(3))
  show "length (sockets (resume \<kappa> sh)) = length (sockets sh)" using e by (rule resume_Inl(1))
  show "socket (resume \<kappa> sh) = socket sh" using e by (rule resume_Inl(2))
qed

theorem connect_pending_until_open_witness:
  "SocketOpen (length (sockets example_shard))
     \<notin> set [SocketError 0, SocketClose 0 \<lparr>code = OtherCode 1006, reason = []\<rparr>, RunMicrotask]
   \<and> connect_target example_shard = Inr (WsUrl ''wss://gateway.discord.gg'' (Some (10, ''json'')))
   \<and> pending_open
        (run 2 [SocketError 0, SocketClose 0 \<lparr>code = OtherCode 1006, reason = []\<rparr>, RunMicrotask]
           (connect (Finish 0) example_shard)) 0 = Some (Finish 0)
   \<and> pending_open
        (run 2 [SocketError 0, SocketClose 0 \<lparr>code = OtherCode 1006, reason = []\<rparr>, RunMicrotask]
           (identify (Finish 0) example_shard)) 0 = Some (AfterConnectIdentify (Finish 0))
   \<and> connect_target (resumable_shard\<lparr>state := Resuming\<rparr>)
       = Inr (WsUrl ''wss://gateway-us-east1-b.discord.gg'' (Some (10, ''json'')))
   \<and> pending_open (run 2 [] (resume (Finish 1) resumable_shard)) 0
       = Some (AfterConnectResume (Finish 1))
   \<and> connect_target misconfigured_shard = Inl (InvalidURL [])
   \<and> trace (connect (Finish 0) misconfigured_shard)
       = [Callback EvConnecting, Rejected 0 (InvalidURL [])]
   \<and> connect_target (stale_session_shard\<lparr>state := Resuming\<rparr>) = Inl (InvalidURL [])
   \<and> last (trace (resume (Finish 1) stale_session_shard)) = Rejected 1 (InvalidURL [])
   \<and> length (sockets (resume (Finish 1) stale_session_shard)) = 0"
proof -
  let ?evs = "[SocketError 0, SocketClose 0 \<lparr>code = OtherCode 1006, reason = []\<rparr>, RunMicrotask]"
  let ?t = "WsUrl ''wss://gateway.discord.gg'' (Some (10, ''json''))"
  let ?r = "WsUrl ''wss://gateway-us-east1-b.discord.gg'' (Some (10, ''json''))"
  have len: "length (sockets example_shard) = 0" "length (sockets resumable_shard) = 0"
            "length (sockets stale_session_shard) = 0" "length (sockets misconfigured_shard) = 0"
    by (simp_all add: resumable_shard_def stale_session_shard_def misconfigured_shard_def
          example_shard_def new_shard_def)
  have ev: "SocketOpen (length (sockets example_shard)) \<notin> set ?evs"
    by simp
  have nil: "SocketOpen (length (sockets resumable_shard)) \<notin> set []"
            "SocketOpen (length (sockets stale_session_shard)) \<notin> set []"
            "SocketOpen (length (sockets misconfigured_shard)) \<notin> set []"
    by simp_all
  have t1: "connect_target example_shard = Inr ?t"
    by (simp add: shard_defs)
  have t2: "connect_target (example_shard\<lparr>state := Identifying\<rparr>) = Inr ?t"
    by (simp add: shard_defs)
  have s3: "\<not> falsy_string (sessionId resumable_shard)"
    by (simp add: resumable_shard_def example_shard_def new_shard_def falsy_string_def)
  have t3: "connect_target (resumable_shard\<lparr>state := Resuming\<rparr>) = Inr ?r"
    by (simp add: resumable_shard_def shard_defs)
  have t4: "connect_target misconfigured_shard = Inl (InvalidURL [])"
    by (simp add: misconfigured_shard_def shard_defs)
  have s5: "\<not> falsy_string (sessionId stale_session_shard)"
    by (simp add: stale_session_shard_def example_shard_def new_shard_def falsy_string_def)
  have t5: "connect_target (stale_session_shard\<lparr>state := Resuming\<rparr>) = Inl (InvalidURL [])"
    by (simp add: stale_session_shard_def shard_defs)
  have f4: "trace misconfigured_shard = []" "events misconfigured_shard = UNIV"
    by (simp_all add: misconfigured_shard_def example_shard_def new_shard_def)
  note a = connect_pending_until_open [OF ev, where t = ?t and gm = 2 and \<kappa> = "Finish 0"]
  from a t1 have 1: "pending_open (run 2 ?evs (connect (Finish 0) example_shard)) 0 = Some (Finish 0)"
    unfolding len by blast
  from a t2
  have 2: "pending_open (run 2 ?evs (identify (Finish 0) example_shard)) 0
             = Some (AfterConnectIdentify (Finish 0))"
    unfolding len by blast
  note b = connect_pending_until_open [OF nil(1), where t = ?r and gm = 2 and \<kappa> = "Finish 1"]
  from b t3 s3
  have 3: "pending_open (run 2 [] (resume (Finish 1) resumable_shard)) 0
             = Some (AfterConnectResume (Finish 1))"
    unfolding len by (simp only: if_False)
  note c = connect_pending_until_open [OF nil(3), where e = "InvalidURL []" and gm = 2 and \<kappa> = "Finish 0"]
  from c t4
  have "trace (connect (Finish 0) misconfigured_shard)
          = trace misconfigured_shard
              @ (if EvConnecting \<in> events misconfigured_shard then [Callback EvConnecting] else [])
              @ [rejection (Finish 0) (InvalidURL [])]"
    by blast
  hence 4: "trace (connect (Finish 0) misconfigured_shard)
              = [Callback EvConnecting, Rejected 0 (InvalidURL [])]"
    by (simp add: f4)
  note d = connect_pending_until_open [OF nil(2), where e = "InvalidURL []" and gm = 2 and \<kappa> = "Finish 1"]
  from d t5 s5
  have "last (trace (resume (Finish 1) stale_session_shard)) = rejection (Finish 1) (InvalidURL [])
        \<and> length (sockets (resume (Finish 1) stale_session_shard))
            = length (sockets stale_session_shard)"
    by (simp only: if_False)
  hence 5: "last (trace (resume (Finish 1) stale_session_shard)) = Rejected 1 (InvalidURL [])"
        "length (sockets (resume (Finish 1) stale_session_shard)) = 0"
    by (simp_all add: len)
  from ev t1 1 2 t3 3 t4 4 t5 5 show ?thesis by blast
qed

section \<open>The heartbeat acknowledgement\<close>

lemma heart_helpers:
  "heart (emit e b) = heart b"
  "heart (record_action x b) = heart b"
  "heart (set_readyState i rs b) = heart b"
  "heart (resolve_parked n b) = heart b"
  "heart (resolve_awaiting n b) = heart b"
  "heart (bucket_acquire hp k b) = heart b"
  "heart (delay ms k b) = heart b"
  by (simp_all add: emit_def record_action_def set_readyState_def resolve_parked_def
        resolve_awaiting_def bucket_acquire_def delay_def split: option.split)

lemma heart_socket_send: "heart (socket_send m b) = heart b"
  by (simp add: socket_send_def heart_helpers split: option.split)

lemma heart_close: "heart (close c r b) = heart b"
  by (simp add: close_def ws_close_def heart_helpers split: option.split)

lemma heart_connect: "heart (connect k b) = heart b"
  by (simp add: connect_def connect_begin_def Let_def heart_helpers reject_fields split: sum.split)

lemma heart_send: "heart (send m hp k b) = heart b"
  by (simp add: send_def checkOffline_def Let_def heart_helpers)

lemma heart_identify_connected: "heart (identify_connected k b) = heart b"
  by (simp add: identify_connected_def Let_def heart_send)

lemma heart_identify: "heart (identify k b) = heart b"
  by (simp add: identify_connects heart_connect heart_close heart_helpers)

lemma heart_resume: "heart (resume k b) = heart b"
  by (simp add: resume_connects heart_connect heart_identify heart_close)

lemma heart_settle: "heart (settle key b) = heart b"
  by (simp add: settle_def run_resolver_def Let_def heart_helpers split: option.split resolver.split)

lemma heart_fold_resolve:
  "heart (fold (\<lambda>r c. resolve_parked r (record_action (OfflineResolve r) c)) q b) = heart b"
  by (induction q arbitrary: b) (simp_all add: heart_helpers)

lemma heart_packet_tail: "heart (packet_tail p b) = heart b"
  by (simp add: packet_tail_def Let_def drain_def heart_settle heart_fold_resolve heart_helpers
        split: GatewayEventName.split option.split)

lemma acknowledged_packet_switch:
  "acknowledged (heart (packet_switch now r p b)) = acknowledged (heart b)"
  by (simp add: packet_switch_def Let_def startHeartbeating_def heart_packet_tail heart_resume
        heart_socket_send heart_helpers split: GatewayOpcode.split)

lemma acknowledged_handleDiscordPacket: "acknowledged (heart (handleDiscordPacket now r p b))"
  by (simp add: handleDiscordPacket_def acknowledged_packet_switch packet_prelude_def Let_def
        split: option.split)

lemma exec_acknowledged:
  assumes "\<not> is_message e" and "\<not> acknowledged (heart sh)"
  shows "\<not> acknowledged (heart (exec gm e sh))"
proof (cases e)
  case (SocketOpen i)
  have "keeps (Suc i) sh (exec gm (SocketOpen i) sh)"
    by (rule keeps_exec) simp_all
  with SocketOpen assms(2) show ?thesis by (simp add: keeps_def)
qed (use assms keeps_exec [of e 0 sh gm] in \<open>simp_all add: keeps_def\<close>)

lemma run_acknowledged:
  assumes "\<forall>e \<in> set evs. \<not> is_message e" and "\<not> acknowledged (heart sh)"
  shows "\<not> acknowledged (heart (run gm evs sh))"
  using assms
proof (induction evs arbitrary: sh)
  case Nil
  then show ?case by simp
next
  case (Cons e evs)
  from Cons.prems have "\<not> acknowledged (heart (exec gm e sh))"
    by (intro exec_acknowledged) simp_all
  with Cons show ?case by simp
qed

lemma heartbeat_first_sends:
  assumes "isOpen sh"
  shows "\<not> acknowledged (heart (heartbeat_first now sh))
         \<and> (\<exists>j. socket sh = Some j
                \<and> trace (heartbeat_first now sh)
                    = trace sh @ [WsSend j (HeartbeatPayload (previousSequenceNumber sh))])"
  using assms
  by (auto simp: heartbeat_first_def Let_def socket_send_def record_action_def isOpen_def
        split: option.splits)

lemma heartbeat_tick_sends:
  assumes "isOpen sh" and "acknowledged (heart sh)"
  shows "\<not> acknowledged (heart (heartbeat_tick now sh))
         \<and> (\<exists>j. socket sh = Some j
                \<and> prefix (trace sh @ [WsSend j (HeartbeatPayload (previousSequenceNumber sh))])
                         (trace (heartbeat_tick now sh)))"
  using assms
  by (auto simp: heartbeat_tick_def Let_def socket_send_def record_action_def emit_def isOpen_def
        split: option.splits)

text \<open>
  C2, as stated, fails: on the shard whose first heartbeat is out and not acknowledged,
  a dispatch packet, which is not a \<open>HeartbeatACK\<close>, sets \<open>heart.acknowledged\<close> to true.
\<close>

theorem packet_counterexample:
  "\<not> acknowledged (heart beating_shard)
   \<and> trace beating_shard
       = [Callback EvConnecting,
          NewWebSocket 0 (WsUrl ''wss://gateway.discord.gg'' (Some (10, ''json''))),
          Callback EvConnected, Settled 0, Callback EvHello, Callback EvMessage,
          WsSend 0 (HeartbeatPayload None)]
   \<and> acknowledged
        (heart (exec 2 (SocketMessage 0
                          (StringData \<lparr>pkt_op = Dispatch, pkt_t = T_other ''MESSAGE_CREATE'', pkt_s = Some 1\<rparr>)
                          20 (Double 0 0))
                  beating_shard))"
  by (simp add: beating_shard_def shard_defs)

text \<open>
  C2, amended: \<open>heart.acknowledged\<close> is false from the moment a timer of the heartbeat
  (the one-shot timer or a steady tick) transmits a heartbeat until the next incoming
  packet. Every incoming packet, whatever its opcode, sets it to true; the one-shot
  timer and a steady tick that finds it true transmit a heartbeat and leave it false;
  and no event other than an incoming message sets it back to true.
\<close>

theorem acknowledged_until_next_packet:
  "acknowledged (heart (handleDiscordPacket now random packet sh))
   \<and> (isOpen sh \<longrightarrow>
        \<not> acknowledged (heart (heartbeat_first now sh))
        \<and> (\<exists>j. socket sh = Some j
               \<and> trace (heartbeat_first now sh)
                   = trace sh @ [WsSend j (HeartbeatPayload (previousSequenceNumber sh))]))
   \<and> (isOpen sh \<and> acknowledged (heart sh) \<longrightarrow>
        \<not> acknowledged (heart (heartbeat_tick now sh))
        \<and> (\<exists>j. socket sh = Some j
               \<and> prefix (trace sh @ [WsSend j (HeartbeatPayload (previousSequenceNumber sh))])
                        (trace (heartbeat_tick now sh))))
   \<and> ((\<forall>e \<in> set evs. \<not> is_message e) \<and> \<not> acknowledged (heart sh) \<longrightarrow>
        \<not> acknowledged (heart (run gm evs sh)))"
  using acknowledged_handleDiscordPacket [of now random packet sh]
        heartbeat_first_sends [of sh now] heartbeat_tick_sends [of sh now]
        run_acknowledged [of evs sh gm]
  by blast


theorem acknowledged_until_next_packet_witness:
  "isOpen beating_shard \<and> \<not> acknowledged (heart beating_shard)
   \<and> \<not> acknowledged (heart (heartbeat_first 30 beating_shard))
   \<and> \<not> acknowledged (heart (run 2 [BucketGrants, RunMicrotask, SocketError 0, CallShutdown 4] beating_shard))
   \<and> acknowledged (heart (handleDiscordPacket 20 (Double 0 0) \<lparr>pkt_op = HeartbeatACK, pkt_t = T_null, pkt_s = None\<rparr> beating_shard))
   \<and> isOpen acked_shard \<and> acknowledged (heart acked_shard)
   \<and> \<not> acknowledged (heart (heartbeat_tick 41260 acked_shard))"
proof -
  have b: "isOpen beating_shard" "\<not> acknowledged (heart beating_shard)"
    by (simp_all add: beating_shard_def shard_defs)
  have a: "isOpen acked_shard \<and> acknowledged (heart acked_shard)"
    by (simp add: acked_shard_def beating_shard_def shard_defs)
  have n: "\<forall>e \<in> set [BucketGrants, RunMicrotask, SocketError 0, CallShutdown 4]. \<not> is_message e"
    by simp
  from acknowledged_until_next_packet
         [of 30 "Double 0 0" "\<lparr>pkt_op = HeartbeatACK, pkt_t = T_null, pkt_s = None\<rparr>" beating_shard
             "[BucketGrants, RunMicrotask, SocketError 0, CallShutdown 4]" 2] b n
  have 1: "\<not> acknowledged (heart (heartbeat_first 30 beating_shard))
           \<and> \<not> acknowledged (heart (run 2 [BucketGrants, RunMicrotask, SocketError 0, CallShutdown 4] beating_shard))"
    by blast
  from acknowledged_until_next_packet
         [of 20 "Double 0 0" "\<lparr>pkt_op = HeartbeatACK, pkt_t = T_null, pkt_s = None\<rparr>" beating_shard "[]" 2]
  have 2: "acknowledged (heart (handleDiscordPacket 20 (Double 0 0) \<lparr>pkt_op = HeartbeatACK, pkt_t = T_null, pkt_s = None\<rparr> beating_shard))"
    by blast
  from acknowledged_until_next_packet
         [of 41260 "Double 0 0" "\<lparr>pkt_op = HeartbeatACK, pkt_t = T_null, pkt_s = None\<rparr>" acked_shard "[]" 2] a
  have 3: "\<not> acknowledged (heart (heartbeat_tick 41260 acked_shard))"
    by blast
  from b a 1 2 3 show ?thesis by blast
qed

section \<open>Resuming\<close>

text \<open>
  The rest of \<open>resume\<close> and of \<open>identify\<close> hands its payload to \<open>send\<close> with high priority:
  the payload waits for its token at the head of the bucket if the socket is open,
  and at the head of the offline queue otherwise.
\<close>

lemma resume_connected_hands:
  fixes c :: DiscordenoShard
  defines "p \<equiv> ResumePayload (''Bot '' @ token (connection c)) (sessionId c)
                 (case previousSequenceNumber c of None \<Rightarrow> 0 | Some n \<Rightarrow> n)"
  shows "isOpen c \<Longrightarrow>
           waiting (bucket (resume_connected k c)) = SendAcquired p True Discard # waiting (bucket c)"
    and "\<not> isOpen c \<Longrightarrow>
           parked (resume_connected k c) = parked c @ [Some (SendOnline p True Discard)]
           \<and> offlineSendQueue (resume_connected k c) = length (parked c) # offlineSendQueue c"
    and "awaiting (resume_connected k c) = awaiting c @ [Some k]"
  by (simp_all add: p_def resume_connected_def send_def checkOffline_def bucket_acquire_def Let_def)

lemma identify_connected_hands:
  fixes c :: DiscordenoShard
  defines "p \<equiv> IdentifyPayload (''Bot '' @ token (connection c)) (compress (connection c))
                 (properties (connection c)) (intents (connection c))
                 (shard_id c, totalShards (connection c)) None"
  shows "isOpen c \<Longrightarrow>
           waiting (bucket (identify_connected k c)) = SendAcquired p True Discard # waiting (bucket c)"
    and "\<not> isOpen c \<Longrightarrow>
           parked (identify_connected k c) = parked c @ [Some (SendOnline p True Discard)]
           \<and> offlineSendQueue (identify_connected k c) = length (parked c) # offlineSendQueue c"
  by (simp_all add: p_def identify_connected_def send_def checkOffline_def bucket_acquire_def Let_def)

text \<open>The rest of \<open>send\<close>, once it has its token and the socket is open, transmits.\<close>

lemma send_transmits:
  assumes "isOpen d" and "socket d = Some i"
  shows "trace (run_kont (SendAcquired m hp Discard) d) = trace d @ [WsSend i m]"
    and "trace (run_kont (SendTransmit m Discard) d) = trace d @ [WsSend i m]"
  using assms
  by (simp_all add: isOpen_def checkOffline_def send_throws_def socket_send_def record_action_def)

lemma send_online_acquires:
  "waiting (bucket (run_kont (SendOnline m True k) d)) = SendAcquired m True k # waiting (bucket d)"
  by (simp add: bucket_acquire_def)

text \<open>
  From a shard \<open>c\<close> with nothing ready to run in which the rest of \<open>resume\<close> (or of
  \<open>identify\<close>) waits for the current socket: the socket opens, the rest runs, the
  bucket grants a token, and the rest of \<open>send\<close> runs.
\<close>

lemma resume_payload_on_open:
  assumes "socket c = Some j" and "pending_open c j = Some (AfterConnectResume \<kappa>)"
    and "microtasks c = []"
  shows "trace (run gm [SocketOpen j, RunMicrotask, BucketGrants, RunMicrotask] c)
           = trace c @ (if EvConnected \<in> events c then [Callback EvConnected] else [])
               @ [WsSend j (ResumePayload (''Bot '' @ token (connection c)) (sessionId c)
                              (case previousSequenceNumber c of None \<Rightarrow> 0 | Some n \<Rightarrow> n))]"
proof -
  from assms(2) have "j < length (sockets c)"
    and "onopen_resolve (sockets c ! j) = Some (AfterConnectResume \<kappa>)"
    by (simp_all add: pending_open_def split: if_splits)
  with assms(1,3) show ?thesis
    by (simp add: exec_def onopen_def resolve_open_def set_readyState_def emit_def Let_def
          resume_connected_def send_def checkOffline_def isOpen_def readyStateOf_def
          bucket_acquire_def send_throws_def socket_send_def record_action_def)
qed

lemma identify_payload_on_open:
  assumes "socket c = Some j" and "pending_open c j = Some (AfterConnectIdentify \<kappa>)"
    and "microtasks c = []"
  shows "trace (run gm [SocketOpen j, RunMicrotask, BucketGrants, RunMicrotask] c)
           = trace c @ (if EvConnected \<in> events c then [Callback EvConnected] else [])
               @ [WsSend j (IdentifyPayload (''Bot '' @ token (connection c))
                              (compress (connection c)) (properties (connection c))
                              (intents (connection c)) (shard_id c, totalShards (connection c))
                              None)]"
proof -
  from assms(2) have "j < length (sockets c)"
    and "onopen_resolve (sockets c ! j) = Some (AfterConnectIdentify \<kappa>)"
    by (simp_all add: pending_open_def split: if_splits)
  with assms(1,3) show ?thesis
    by (simp add: exec_def onopen_def resolve_open_def set_readyState_def emit_def Let_def
          identify_connected_def send_def checkOffline_def isOpen_def readyStateOf_def
          bucket_acquire_def send_throws_def socket_send_def record_action_def)
qed

text \<open>
  C4, as stated, fails twice. For a session identifier that is defined but empty
  \<open>resume\<close> takes it for missing, identifies, and the payload sent when the socket opens
  is Identify, not Resume. For a session identifier that is defined and not empty,
  on a shard without a gateway to resume at, \<open>connect\<close> throws: \<open>resume\<close> (call 1) is
  rejected, no socket is created, and no payload is sent whatever happens next.
\<close>

theorem empty_session_counterexample:
  "sessionId empty_session_shard = Some []
   \<and> state (resume Discard empty_session_shard) = Identifying
   \<and> trace (run 2 [SocketOpen 0, RunMicrotask, BucketGrants, RunMicrotask]
               (resume Discard empty_session_shard))
       = [Callback EvIdentifying, Callback EvConnecting,
          NewWebSocket 0 (WsUrl ''wss://gateway.discord.gg'' (Some (10, ''json''))),
          Callback EvConnected,
          WsSend 0 (IdentifyPayload ''Bot T'' False [] 513 (0, 1) None)]
   \<and> sessionId stale_session_shard = Some ''S''
   \<and> trace (run 2 [CallResume 1, SocketOpen 0, RunMicrotask, BucketGrants, RunMicrotask]
               stale_session_shard)
       = [Callback EvConnecting, Rejected 1 (InvalidURL [])]
   \<and> sockets (run 2 [CallResume 1, SocketOpen 0, RunMicrotask, BucketGrants, RunMicrotask]
                 stale_session_shard) = []"
  by (simp add: empty_session_shard_def stale_session_shard_def shard_defs)

text \<open>
  C4, amended. For every \<open>resume\<close> with a session identifier that is defined and not
  empty, the shard sets the state \<open>Resuming\<close> and calls \<open>connect\<close>; nothing is sent or
  queued by the call itself. If \<open>connect\<close> throws, \<open>resume\<close> is rejected with that error
  and no socket is created. Otherwise a new socket becomes the current one and the
  rest of \<open>resume\<close> waits for its open signal. Whenever that rest runs, in a shard \<open>c\<close>,
  it hands to \<open>send\<close>, with high priority, a Resume payload whose \<open>session_id\<close> is the
  identifier and whose \<open>seq\<close> is \<open>previousSequenceNumber\<close>, or 0 if that is \<open>null\<close>, both
  as stored in \<open>c\<close>: the payload waits for its token at the head of the bucket, or at
  the head of the offline queue if the socket is not open. \<open>send\<close> transmits the
  payload on the current socket when it has its token and the socket is open. For
  every \<open>resume\<close> with a session identifier that is missing or empty, \<open>resume\<close> is
  \<open>identify\<close> (after closing an open socket), what waits for the socket is the rest of
  \<open>identify\<close>, and the payload it hands to \<open>send\<close> is Identify. In particular, on a
  shard with nothing else ready to run, when the new socket opens, the rest of the
  method runs, the bucket grants a token and the rest of \<open>send\<close> runs, the payload
  transmitted on the new socket is that Resume payload, or that Identify payload.
\<close>

theorem resume_sends_resume_payload:
  "(\<not> falsy_string (sessionId sh) \<longrightarrow>
      state (resume \<kappa> sh) = Resuming
      \<and> microtasks (resume \<kappa> sh) = microtasks sh
      \<and> parked (resume \<kappa> sh) = parked sh
      \<and> awaiting (resume \<kappa> sh) = awaiting sh
      \<and> bucket (resume \<kappa> sh) = bucket sh
      \<and> (connect_target (sh\<lparr>state := Resuming\<rparr>) = Inr t \<longrightarrow>
           socket (resume \<kappa> sh) = Some (length (sockets sh))
           \<and> last (trace (resume \<kappa> sh)) = NewWebSocket (length (sockets sh)) t
           \<and> pending_open (resume \<kappa> sh) (length (sockets sh)) = Some (AfterConnectResume \<kappa>))
      \<and> (connect_target (sh\<lparr>state := Resuming\<rparr>) = Inl e \<longrightarrow>
           last (trace (resume \<kappa> sh)) = rejection \<kappa> e
           \<and> length (sockets (resume \<kappa> sh)) = length (sockets sh)
           \<and> socket (resume \<kappa> sh) = socket sh)
      \<and> (connect_target (sh\<lparr>state := Resuming\<rparr>) = Inr t \<and> microtasks sh = [] \<longrightarrow>
           trace (run gm [SocketOpen (length (sockets sh)), RunMicrotask, BucketGrants, RunMicrotask]
                    (resume \<kappa> sh))
             = trace (resume \<kappa> sh)
                 @ (if EvConnected \<in> events sh then [Callback EvConnected] else [])
                 @ [WsSend (length (sockets sh))
                      (ResumePayload (''Bot '' @ token (connection sh)) (sessionId sh)
                         (case previousSequenceNumber sh of None \<Rightarrow> 0 | Some n \<Rightarrow> n))]))
   \<and> (isOpen c \<longrightarrow>
        waiting (bucket (run_kont (AfterConnectResume \<kappa>) c))
          = SendAcquired
              (ResumePayload (''Bot '' @ token (connection c)) (sessionId c)
                 (case previousSequenceNumber c of None \<Rightarrow> 0 | Some n \<Rightarrow> n))
              True Discard
            # waiting (bucket c))
   \<and> (\<not> isOpen c \<longrightarrow>
        parked (run_kont (AfterConnectResume \<kappa>) c)
          = parked c
            @ [Some (SendOnline
                       (ResumePayload (''Bot '' @ token (connection c)) (sessionId c)
                          (case previousSequenceNumber c of None \<Rightarrow> 0 | Some n \<Rightarrow> n))
                       True Discard)]
        \<and> offlineSendQueue (run_kont (AfterConnectResume \<kappa>) c)
            = length (parked c) # offlineSendQueue c)
   \<and> waiting (bucket (run_kont (SendOnline m True Discard) d))
       = SendAcquired m True Discard # waiting (bucket d)
   \<and> (isOpen d \<and> socket d = Some i \<longrightarrow>
        trace (run_kont (SendAcquired m True Discard) d) = trace d @ [WsSend i m]
        \<and> trace (run_kont (SendTransmit m Discard) d) = trace d @ [WsSend i m])
   \<and> (falsy_string (sessionId sh) \<longrightarrow>
        resume \<kappa> sh
          = identify \<kappa> (if isOpen sh
                        then close ResumeClosingOldConnection
                               ''Reconnecting the shard, closing old connection.'' sh
                        else sh)
        \<and> state (resume \<kappa> sh) = Identifying
        \<and> (connect_target (sh\<lparr>state := Identifying\<rparr>) = Inr t \<longrightarrow>
             pending_open (resume \<kappa> sh) (length (sockets sh)) = Some (AfterConnectIdentify \<kappa>))
        \<and> (isOpen c \<longrightarrow>
             waiting (bucket (run_kont (AfterConnectIdentify \<kappa>) c))
               = SendAcquired
                   (IdentifyPayload (''Bot '' @ token (connection c)) (compress (connection c))
                      (properties (connection c)) (intents (connection c))
                      (shard_id c, totalShards (connection c)) None)
                   True Discard
                 # waiting (bucket c))
        \<and> (connect_target (sh\<lparr>state := Identifying\<rparr>) = Inr t \<and> microtasks sh = [] \<longrightarrow>
             trace (run gm [SocketOpen (length (sockets sh)), RunMicrotask, BucketGrants, RunMicrotask]
                      (resume \<kappa> sh))
               = trace (resume \<kappa> sh)
                   @ (if EvConnected \<in> events sh then [Callback EvConnected] else [])
                   @ [WsSend (length (sockets sh))
                        (IdentifyPayload (''Bot '' @ token (connection sh))
                           (compress (connection sh)) (properties (connection sh))
                           (intents (connection sh)) (shard_id sh, totalShards (connection sh))
                           None)]))"
proof (intro conjI impI)
  assume s: "\<not> falsy_string (sessionId sh)"
  show "state (resume \<kappa> sh) = Resuming" using s by (simp add: state_resume)
  show "microtasks (resume \<kappa> sh) = microtasks sh" by (rule resume_same)
  show "parked (resume \<kappa> sh) = parked sh" by (rule resume_same)
  show "awaiting (resume \<kappa> sh) = awaiting sh" by (rule resume_same)
  show "bucket (resume \<kappa> sh) = bucket sh" by (rule resume_same)
  {
    assume "connect_target (sh\<lparr>state := Resuming\<rparr>) = Inr t"
    with s have t: "connect_target
        (sh\<lparr>state := (if falsy_string (sessionId sh) then Identifying else Resuming)\<rparr>) = Inr t"
      by simp
    show "socket (resume \<kappa> sh) = Some (length (sockets sh))" using t by (rule resume_Inr(1))
    show "last (trace (resume \<kappa> sh)) = NewWebSocket (length (sockets sh)) t"
      using t by (rule resume_Inr(3))
    show "pending_open (resume \<kappa> sh) (length (sockets sh)) = Some (AfterConnectResume \<kappa>)"
      using resume_Inr(2) [OF t, of \<kappa>] s by simp
  }
  {
    assume "connect_target (sh\<lparr>state := Resuming\<rparr>) = Inl e"
    with s have e: "connect_target
        (sh\<lparr>state := (if falsy_string (sessionId sh) then Identifying else Resuming)\<rparr>) = Inl e"
      by simp
    show "last (trace (resume \<kappa> sh)) = rejection \<kappa> e" using e by (rule resume_Inl(3))
    show "length (sockets (resume \<kappa> sh)) = length (sockets sh)" using e by (rule resume_Inl(1))
    show "socket (resume \<kappa> sh) = socket sh" using e by (rule resume_Inl(2))
  }
  {
    assume a: "connect_target (sh\<lparr>state := Resuming\<rparr>) = Inr t \<and> microtasks sh = []"
    with s have t: "connect_target
        (sh\<lparr>state := (if falsy_string (sessionId sh) then Identifying else Resuming)\<rparr>) = Inr t"
      by simp
    have 1: "socket (resume \<kappa> sh) = Some (length (sockets sh))" using t by (rule resume_Inr(1))
    have 2: "pending_open (resume \<kappa> sh) (length (sockets sh)) = Some (AfterConnectResume \<kappa>)"
      using resume_Inr(2) [OF t, of \<kappa>] s by simp
    have 3: "microtasks (resume \<kappa> sh) = []" using a by (simp add: resume_same)
    show "trace (run gm [SocketOpen (length (sockets sh)), RunMicrotask, BucketGrants, RunMicrotask]
                    (resume \<kappa> sh))
             = trace (resume \<kappa> sh)
                 @ (if EvConnected \<in> events sh then [Callback EvConnected] else [])
                 @ [WsSend (length (sockets sh))
                      (ResumePayload (''Bot '' @ token (connection sh)) (sessionId sh)
                         (case previousSequenceNumber sh of None \<Rightarrow> 0 | Some n \<Rightarrow> n))]"
      using resume_payload_on_open [OF 1 2 3, of gm] by (simp only: resume_same)
  }
next
  assume "isOpen c"
  then show "waiting (bucket (run_kont (AfterConnectResume \<kappa>) c))
          = SendAcquired
              (ResumePayload (''Bot '' @ token (connection c)) (sessionId c)
                 (case previousSequenceNumber c of None \<Rightarrow> 0 | Some n \<Rightarrow> n))
              True Discard
            # waiting (bucket c)"
    by (simp add: resume_connected_hands(1))
next
  assume n: "\<not> isOpen c"
  show "parked (run_kont (AfterConnectResume \<kappa>) c)
          = parked c
            @ [Some (SendOnline
                       (ResumePayload (''Bot '' @ token (connection c)) (sessionId c)
                          (case previousSequenceNumber c of None \<Rightarrow> 0 | Some n \<Rightarrow> n))
                       True Discard)]"
    using resume_connected_hands(2) [OF n, of \<kappa>] by simp
  show "offlineSendQueue (run_kont (AfterConnectResume \<kappa>) c)
            = length (parked c) # offlineSendQueue c"
    using resume_connected_hands(2) [OF n, of \<kappa>] by simp
next
  show "waiting (bucket (run_kont (SendOnline m True Discard) d))
       = SendAcquired m True Discard # waiting (bucket d)"
    by (rule send_online_acquires)
next
  assume o: "isOpen d \<and> socket d = Some i"
  show "trace (run_kont (SendAcquired m True Discard) d) = trace d @ [WsSend i m]"
    using o by (intro send_transmits(1)) simp_all
  show "trace (run_kont (SendTransmit m Discard) d) = trace d @ [WsSend i m]"
    using o by (intro send_transmits(2)) simp_all
next
  assume f: "falsy_string (sessionId sh)"
  show "resume \<kappa> sh
          = identify \<kappa> (if isOpen sh
                        then close ResumeClosingOldConnection
                               ''Reconnecting the shard, closing old connection.'' sh
                        else sh)"
    using f by (simp add: resume_connects)
  show "state (resume \<kappa> sh) = Identifying" using f by (simp add: state_resume)
  {
    assume "connect_target (sh\<lparr>state := Identifying\<rparr>) = Inr t"
    with f have t: "connect_target
        (sh\<lparr>state := (if falsy_string (sessionId sh) then Identifying else Resuming)\<rparr>) = Inr t"
      by simp
    show "pending_open (resume \<kappa> sh) (length (sockets sh)) = Some (AfterConnectIdentify \<kappa>)"
      using resume_Inr(2) [OF t, of \<kappa>] f by simp
  }
  {
    assume "isOpen c"
    then show "waiting (bucket (run_kont (AfterConnectIdentify \<kappa>) c))
               = SendAcquired
                   (IdentifyPayload (''Bot '' @ token (connection c)) (compress (connection c))
                      (properties (connection c)) (intents (connection c))
                      (shard_id c, totalShards (connection c)) None)
                   True Discard
                 # waiting (bucket c)"
      by (simp add: identify_connected_hands(1))
  }
  {
    assume a: "connect_target (sh\<lparr>state := Identifying\<rparr>) = Inr t \<and> microtasks sh = []"
    with f have t: "connect_target
        (sh\<lparr>state := (if falsy_string (sessionId sh) then Identifying else Resuming)\<rparr>) = Inr t"
      by simp
    have 1: "socket (resume \<kappa> sh) = Some (length (sockets sh))" using t by (rule resume_Inr(1))
    have 2: "pending_open (resume \<kappa> sh) (length (sockets sh)) = Some (AfterConnectIdentify \<kappa>)"
      using resume_Inr(2) [OF t, of \<kappa>] f by simp
    have 3: "microtasks (resume \<kappa> sh) = []" using a by (simp add: resume_same)
    show "trace (run gm [SocketOpen (length (sockets sh)), RunMicrotask, BucketGrants, RunMicrotask]
                      (resume \<kappa> sh))
               = trace (resume \<kappa> sh)
                   @ (if EvConnected \<in> events sh then [Callback EvConnected] else [])
                   @ [WsSend (length (sockets sh))
                        (IdentifyPayload (''Bot '' @ token (connection sh))
                           (compress (connection sh)) (properties (connection sh))
                           (intents (connection sh)) (shard_id sh, totalShards (connection sh))
                           None)]"
      using identify_payload_on_open [OF 1 2 3, of gm] by (simp only: resume_same)
  }
qed


theorem resume_sends_resume_payload_witness:
  "\<not> falsy_string (sessionId resumable_shard)
   \<and> connect_target (resumable_shard\<lparr>state := Resuming\<rparr>)
       = Inr (WsUrl ''wss://gateway-us-east1-b.discord.gg'' (Some (10, ''json'')))
   \<and> microtasks resumable_shard = []
   \<and> state (resume (Finish 1) resumable_shard) = Resuming
   \<and> socket (resume (Finish 1) resumable_shard) = Some 0
   \<and> last (trace (resume (Finish 1) resumable_shard))
       = NewWebSocket 0 (WsUrl ''wss://gateway-us-east1-b.discord.gg'' (Some (10, ''json'')))
   \<and> pending_open (resume (Finish 1) resumable_shard) 0 = Some (AfterConnectResume (Finish 1))
   \<and> trace (run 2 [SocketOpen 0, RunMicrotask, BucketGrants, RunMicrotask]
               (resume (Finish 1) resumable_shard))
       = trace (resume (Finish 1) resumable_shard)
           @ [Callback EvConnected, WsSend 0 (ResumePayload ''Bot T'' (Some ''S'') 42)]
   \<and> isOpen reopened_shard \<and> socket reopened_shard = Some 0
   \<and> waiting (bucket (run_kont (AfterConnectResume (Finish 1)) reopened_shard))
       = [SendAcquired (ResumePayload ''Bot T'' (Some ''S'') 42) True Discard]
   \<and> trace (run_kont (SendAcquired (ResumePayload ''Bot T'' (Some ''S'') 42) True Discard)
               reopened_shard)
       = trace reopened_shard @ [WsSend 0 (ResumePayload ''Bot T'' (Some ''S'') 42)]
   \<and> \<not> isOpen resuming_shard
   \<and> parked (run_kont (AfterConnectResume (Finish 1)) resuming_shard)
       = [Some (SendOnline (ResumePayload ''Bot T'' (Some ''S'') 42) True Discard)]
   \<and> offlineSendQueue (run_kont (AfterConnectResume (Finish 1)) resuming_shard) = [0]
   \<and> \<not> falsy_string (sessionId stale_session_shard)
   \<and> connect_target (stale_session_shard\<lparr>state := Resuming\<rparr>) = Inl (InvalidURL [])
   \<and> last (trace (resume (Finish 1) stale_session_shard)) = Rejected 1 (InvalidURL [])
   \<and> length (sockets (resume (Finish 1) stale_session_shard)) = 0
   \<and> falsy_string (sessionId example_shard)
   \<and> connect_target (example_shard\<lparr>state := Identifying\<rparr>)
       = Inr (WsUrl ''wss://gateway.discord.gg'' (Some (10, ''json'')))
   \<and> microtasks example_shard = []
   \<and> state (resume (Finish 1) example_shard) = Identifying
   \<and> pending_open (resume (Finish 1) example_shard) 0 = Some (AfterConnectIdentify (Finish 1))
   \<and> trace (run 2 [SocketOpen 0, RunMicrotask, BucketGrants, RunMicrotask]
               (resume (Finish 1) example_shard))
       = trace (resume (Finish 1) example_shard)
           @ [Callback EvConnected, WsSend 0 (IdentifyPayload ''Bot T'' False [] 513 (0, 1) None)]"
proof -
  let ?t = "WsUrl ''wss://gateway.discord.gg'' (Some (10, ''json''))"
  let ?r = "WsUrl ''wss://gateway-us-east1-b.discord.gg'' (Some (10, ''json''))"
  let ?p = "ResumePayload ''Bot T'' (Some ''S'') 42"
  have cfg: "token example_config = ''T''" "compress example_config = False"
            "properties example_config = []" "intents example_config = 513"
            "totalShards example_config = 1"
    by (simp_all add: example_config_def)
  have e: "sessionId example_shard = None" "microtasks example_shard = []"
          "length (sockets example_shard) = 0" "events example_shard = UNIV"
          "connection example_shard = example_config" "shard_id example_shard = 0"
    by (simp_all add: example_shard_def new_shard_def)
  have s: "sessionId resumable_shard = Some ''S''" "microtasks resumable_shard = []"
          "length (sockets resumable_shard) = 0" "events resumable_shard = UNIV"
          "connection resumable_shard = example_config"
          "previousSequenceNumber resumable_shard = Some 42"
    by (simp_all add: resumable_shard_def example_shard_def new_shard_def)
  have o: "isOpen reopened_shard" "socket reopened_shard = Some 0"
          "connection reopened_shard = example_config" "sessionId reopened_shard = Some ''S''"
          "previousSequenceNumber reopened_shard = Some 42" "waiting (bucket reopened_shard) = []"
    by (simp_all add: reopened_shard_def resuming_shard_def resumable_shard_def shard_defs)
  have n: "\<not> isOpen resuming_shard" "parked resuming_shard = []"
          "offlineSendQueue resuming_shard = []"
          "connection resuming_shard = example_config" "sessionId resuming_shard = Some ''S''"
          "previousSequenceNumber resuming_shard = Some 42"
    by (simp_all add: resuming_shard_def resumable_shard_def shard_defs)
  have x: "length (sockets stale_session_shard) = 0"
    by (simp add: stale_session_shard_def example_shard_def new_shard_def)
  have f1: "\<not> falsy_string (sessionId resumable_shard)"
    by (simp add: s falsy_string_def)
  have f2: "\<not> falsy_string (sessionId stale_session_shard)"
    by (simp add: stale_session_shard_def example_shard_def new_shard_def falsy_string_def)
  have f3: "falsy_string (sessionId example_shard)"
    by (simp add: e falsy_string_def)
  have t1: "connect_target (resumable_shard\<lparr>state := Resuming\<rparr>) = Inr ?r"
    by (simp add: resumable_shard_def shard_defs)
  have t2: "connect_target (stale_session_shard\<lparr>state := Resuming\<rparr>) = Inl (InvalidURL [])"
    by (simp add: stale_session_shard_def shard_defs)
  have t3: "connect_target (example_shard\<lparr>state := Identifying\<rparr>) = Inr ?t"
    by (simp add: shard_defs)
  note A = resume_sends_resume_payload
             [where sh = resumable_shard and \<kappa> = "Finish 1" and t = ?r and gm = 2
                and c = reopened_shard and d = reopened_shard and i = 0 and m = ?p]
  from A f1 have a1: "state (resume (Finish 1) resumable_shard) = Resuming"
    by blast
  from A f1 t1
  have "socket (resume (Finish 1) resumable_shard) = Some (length (sockets resumable_shard))
        \<and> last (trace (resume (Finish 1) resumable_shard))
            = NewWebSocket (length (sockets resumable_shard)) ?r
        \<and> pending_open (resume (Finish 1) resumable_shard) (length (sockets resumable_shard))
            = Some (AfterConnectResume (Finish 1))"
    by blast
  hence a2: "socket (resume (Finish 1) resumable_shard) = Some 0"
        "last (trace (resume (Finish 1) resumable_shard)) = NewWebSocket 0 ?r"
        "pending_open (resume (Finish 1) resumable_shard) 0 = Some (AfterConnectResume (Finish 1))"
    by (simp_all add: s(3))
  from A f1 t1 s(2)
  have "trace (run 2 [SocketOpen (length (sockets resumable_shard)), RunMicrotask, BucketGrants,
                      RunMicrotask]
                 (resume (Finish 1) resumable_shard))
          = trace (resume (Finish 1) resumable_shard)
              @ (if EvConnected \<in> events resumable_shard then [Callback EvConnected] else [])
              @ [WsSend (length (sockets resumable_shard))
                   (ResumePayload (''Bot '' @ token (connection resumable_shard))
                      (sessionId resumable_shard)
                      (case previousSequenceNumber resumable_shard of None \<Rightarrow> 0 | Some n \<Rightarrow> n))]"
    by blast
  hence a3: "trace (run 2 [SocketOpen 0, RunMicrotask, BucketGrants, RunMicrotask]
                      (resume (Finish 1) resumable_shard))
               = trace (resume (Finish 1) resumable_shard) @ [Callback EvConnected, WsSend 0 ?p]"
    by (simp add: s cfg)
  from A o(1)
  have "waiting (bucket (run_kont (AfterConnectResume (Finish 1)) reopened_shard))
          = SendAcquired
              (ResumePayload (''Bot '' @ token (connection reopened_shard)) (sessionId reopened_shard)
                 (case previousSequenceNumber reopened_shard of None \<Rightarrow> 0 | Some n \<Rightarrow> n))
              True Discard
            # waiting (bucket reopened_shard)"
    by blast
  hence a4: "waiting (bucket (run_kont (AfterConnectResume (Finish 1)) reopened_shard))
               = [SendAcquired ?p True Discard]"
    by (simp add: o cfg)
  from A o(1,2)
  have a5: "trace (run_kont (SendAcquired ?p True Discard) reopened_shard)
              = trace reopened_shard @ [WsSend 0 ?p]"
    by blast
  note B = resume_sends_resume_payload
             [where sh = stale_session_shard and \<kappa> = "Finish 1" and e = "InvalidURL []"
                and c = resuming_shard]
  from B n(1)
  have "parked (run_kont (AfterConnectResume (Finish 1)) resuming_shard)
          = parked resuming_shard
            @ [Some (SendOnline
                       (ResumePayload (''Bot '' @ token (connection resuming_shard))
                          (sessionId resuming_shard)
                          (case previousSequenceNumber resuming_shard of None \<Rightarrow> 0 | Some n \<Rightarrow> n))
                       True Discard)]
        \<and> offlineSendQueue (run_kont (AfterConnectResume (Finish 1)) resuming_shard)
            = length (parked resuming_shard) # offlineSendQueue resuming_shard"
    by blast
  hence b1: "parked (run_kont (AfterConnectResume (Finish 1)) resuming_shard)
               = [Some (SendOnline ?p True Discard)]"
        "offlineSendQueue (run_kont (AfterConnectResume (Finish 1)) resuming_shard) = [0]"
    by (simp_all add: n cfg)
  from B f2 t2
  have "last (trace (resume (Finish 1) stale_session_shard)) = rejection (Finish 1) (InvalidURL [])
        \<and> length (sockets (resume (Finish 1) stale_session_shard))
            = length (sockets stale_session_shard)"
    by blast
  hence b2: "last (trace (resume (Finish 1) stale_session_shard)) = Rejected 1 (InvalidURL [])"
        "length (sockets (resume (Finish 1) stale_session_shard)) = 0"
    by (simp_all add: x)
  note C = resume_sends_resume_payload
             [where sh = example_shard and \<kappa> = "Finish 1" and t = ?t and gm = 2]
  from C f3 have c1: "state (resume (Finish 1) example_shard) = Identifying"
    by blast
  from C f3 t3
  have "pending_open (resume (Finish 1) example_shard) (length (sockets example_shard))
          = Some (AfterConnectIdentify (Finish 1))"
    by blast
  hence c2: "pending_open (resume (Finish 1) example_shard) 0 = Some (AfterConnectIdentify (Finish 1))"
    by (simp add: e(3))
  from C f3 t3 e(2)
  have "trace (run 2 [SocketOpen (length (sockets example_shard)), RunMicrotask, BucketGrants,
                      RunMicrotask]
                 (resume (Finish 1) example_shard))
          = trace (resume (Finish 1) example_shard)
              @ (if EvConnected \<in> events example_shard then [Callback EvConnected] else [])
              @ [WsSend (length (sockets example_shard))
                   (IdentifyPayload (''Bot '' @ token (connection example_shard))
                      (compress (connection example_shard)) (properties (connection example_shard))
                      (intents (connection example_shard))
                      (shard_id example_shard, totalShards (connection example_shard))
                      None)]"
    by blast
  hence c3: "trace (run 2 [SocketOpen 0, RunMicrotask, BucketGrants, RunMicrotask]
                      (resume (Finish 1) example_shard))
               = trace (resume (Finish 1) example_shard)
                   @ [Callback EvConnected, WsSend 0 (IdentifyPayload ''Bot T'' False [] 513 (0, 1) None)]"
    by (simp add: e cfg)
  from f1 t1 s(2) a1 a2 a3 o(1,2) a4 a5 n(1) b1 f2 t2 b2 f3 t3 e(2) c1 c2 c3
  show ?thesis by blast
qed

end
